theory Spec2Isabelle
  imports Complex_Main "HOL-Library.Signed_Division"
begin

section \<open>Numbers\<close>

subsection \<open>Single-precision values\<close>

text \<open>
  A C++ \<^verbatim>\<open>float\<close> is a finite value, one of the two infinities, or a NaN. Finite
  values are taken as exact reals: rounding and overflow to an infinity are outside this
  development, and so is the sign of zero (a zero divisor counts as positive zero).
  What is kept is everything the code tests for: a NaN makes every ordered comparison
  false and is spread by every operation.
\<close>

datatype float = NaN | PInf | MInf | Fin real

definition isnan :: "float \<Rightarrow> bool" where
  "isnan a = (case a of NaN \<Rightarrow> True | _ \<Rightarrow> False)"

definition float_of_int :: "int \<Rightarrow> float" where
  "float_of_int i = Fin (of_int i)"

fun fneg :: "float \<Rightarrow> float" where
  "fneg NaN = NaN"
| "fneg PInf = MInf"
| "fneg MInf = PInf"
| "fneg (Fin a) = Fin (- a)"

fun fadd :: "float \<Rightarrow> float \<Rightarrow> float" where
  "fadd NaN _ = NaN"
| "fadd _ NaN = NaN"
| "fadd PInf MInf = NaN"
| "fadd MInf PInf = NaN"
| "fadd PInf _ = PInf"
| "fadd _ PInf = PInf"
| "fadd MInf _ = MInf"
| "fadd _ MInf = MInf"
| "fadd (Fin a) (Fin b) = Fin (a + b)"

definition fsub :: "float \<Rightarrow> float \<Rightarrow> float" where
  "fsub a b = fadd a (fneg b)"

text \<open>The sign of a value that is not a NaN: \<open>-1\<close>, \<open>0\<close> or \<open>1\<close>.\<close>

fun fsgn :: "float \<Rightarrow> int" where
  "fsgn NaN = 0"
| "fsgn PInf = 1"
| "fsgn MInf = - 1"
| "fsgn (Fin a) = (if a < 0 then - 1 else if a = 0 then 0 else 1)"

definition signed_inf :: "int \<Rightarrow> float" where
  "signed_inf s = (if s < 0 then MInf else if s = 0 then NaN else PInf)"

fun fmul :: "float \<Rightarrow> float \<Rightarrow> float" where
  "fmul NaN _ = NaN"
| "fmul _ NaN = NaN"
| "fmul (Fin a) (Fin b) = Fin (a * b)"
| "fmul a b = signed_inf (fsgn a * fsgn b)"

fun fdiv :: "float \<Rightarrow> float \<Rightarrow> float" where
  "fdiv NaN _ = NaN"
| "fdiv _ NaN = NaN"
| "fdiv (Fin a) (Fin b) = (if b = 0 then signed_inf (fsgn (Fin a)) else Fin (a / b))"
| "fdiv (Fin a) _ = Fin 0"
| "fdiv a (Fin b) = signed_inf (fsgn a * (if b < 0 then - 1 else 1))"
| "fdiv _ _ = NaN"

fun fsqrt :: "float \<Rightarrow> float" where
  "fsqrt NaN = NaN"
| "fsqrt PInf = PInf"
| "fsqrt MInf = NaN"
| "fsqrt (Fin a) = (if a < 0 then NaN else Fin (sqrt a))"

text \<open>The ordered comparisons \<^verbatim>\<open><\<close>, \<^verbatim>\<open><=\<close>, \<^verbatim>\<open>>\<close> and \<^verbatim>\<open>>=\<close>.\<close>

fun flt :: "float \<Rightarrow> float \<Rightarrow> bool" where
  "flt NaN _ = False"
| "flt _ NaN = False"
| "flt _ MInf = False"
| "flt MInf _ = True"
| "flt PInf _ = False"
| "flt _ PInf = True"
| "flt (Fin a) (Fin b) = (a < b)"

definition fle :: "float \<Rightarrow> float \<Rightarrow> bool" where
  "fle a b = (\<not> isnan a \<and> \<not> isnan b \<and> \<not> flt b a)"

definition fgt :: "float \<Rightarrow> float \<Rightarrow> bool" where
  "fgt a b = flt b a"

definition fge :: "float \<Rightarrow> float \<Rightarrow> bool" where
  "fge a b = fle b a"

subsection \<open>Machine integers\<close>

text \<open>
  A C++ \<^verbatim>\<open>int\<close> has 32 bits. Sizes and indices that are bounded by an allocated buffer
  or by the image are written as unbounded integers. The two places where an
  \<^verbatim>\<open>int\<close> is not bounded that way, the iteration counter and the powers of the subset
  radii, wrap around as the two's complement machine does.
\<close>

definition int32 :: "int \<Rightarrow> int" where
  "int32 i = (i + 2147483648) mod 4294967296 - 2147483648"

text \<open>
  The conversion \<^verbatim>\<open>(int)f\<close> truncates towards zero. The language leaves it undefined
  for a NaN, an infinity and a value out of range; the value a x86 conversion
  instruction delivers there is taken.
\<close>

definition int_of_float :: "float \<Rightarrow> int" where
  "int_of_float a =
     (case a of
        Fin r \<Rightarrow>
          (if - 2147483649 < r \<and> r < 2147483648
           then (if 0 \<le> r then \<lfloor>r\<rfloor> else \<lceil>r\<rceil>)
           else - 2147483648)
      | _ \<Rightarrow> - 2147483648)"

section \<open>Data model\<close>

text \<open>
  Modelled from the spec: the declarations of the points of interest are not among the
  sources. A point of interest has an integer-valued centre, a deformation vector that
  is the initial guess on entry and the estimate on return, and a result record (initial
  displacement, final ZNCC, iteration count, final increment norm). The field names are
  the ones the code reads and writes.
\<close>

record DeformationVector2D =
  u :: float
  ux :: float
  uy :: float
  uxx :: float
  uxy :: float
  uyy :: float
  v :: float
  vx :: float
  vy :: float
  vxx :: float
  vxy :: float
  vyy :: float

record Result2D =
  u0 :: float
  v0 :: float
  zncc :: float
  iteration :: float
  convergence :: float

record POI2D =
  x :: int
  y :: int
  deformation :: DeformationVector2D
  result :: Result2D

record DeformationVector3D =
  u :: float
  ux :: float
  uy :: float
  uz :: float
  v :: float
  vx :: float
  vy :: float
  vz :: float
  w :: float
  wx :: float
  wy :: float
  wz :: float

record Result3D =
  u0 :: float
  v0 :: float
  w0 :: float
  zncc :: float
  iteration :: float
  convergence :: float

record POI3D =
  x :: int
  y :: int
  z :: int
  deformation :: DeformationVector3D
  result :: Result3D

text \<open>
  Modelled from the spec: an image view has a width, a height and an unchecked lookup
  \<^verbatim>\<open>eg_mat(row, column)\<close>; a volume has three dimensions. A lookup outside the
  extent reads whatever the memory holds, so the lookup is a total function.
\<close>

record Image2D =
  width :: int
  height :: int
  eg_mat :: "int \<Rightarrow> int \<Rightarrow> float"

record Image3D =
  dim_x :: int
  dim_y :: int
  dim_z :: int

text \<open>
  Modelled from the spec: the order-1 and order-2 shape function parameters of the
  plane and the order-1 parameters of the volume, as the scalar fields the code reads.
\<close>

record Deformation2D1 =
  u :: float
  ux :: float
  uy :: float
  v :: float
  vx :: float
  vy :: float

record Deformation2D2 =
  u :: float
  ux :: float
  uy :: float
  uxx :: float
  uxy :: float
  uyy :: float
  v :: float
  vx :: float
  vy :: float
  vxx :: float
  vxy :: float
  vyy :: float

record Deformation3D1 =
  u :: float
  ux :: float
  uy :: float
  uz :: float
  v :: float
  vx :: float
  vy :: float
  vz :: float
  w :: float
  wx :: float
  wy :: float
  wz :: float

text \<open>
  What a call leaves behind: the exception it threw, or the point of interest as
  written by the branch it took. An exception carries the point of interest as it was
  at the throw.
\<close>

datatype error = CPU_thread_ID_over_limit | Index_out_of_range

datatype 'p outcome = Thrown error 'p | Rejected 'p | Computed 'p

text \<open>The point of interest a call leaves behind.\<close>

fun poi_of :: "'p outcome \<Rightarrow> 'p" where
  "poi_of (Thrown e p) = p"
| "poi_of (Rejected p) = p"
| "poi_of (Computed p) = p"

section \<open>The scratch pool\<close>

text \<open>
  The constructors push one freshly allocated scratch instance per thread:
  \<^verbatim>\<open>for (int i = 0; i < thread_number; i++) instance_pool.push_back(allocate(...))\<close>.
  The \<open>i\<close>-th allocation of a constructor is \<open>allocate i\<close>.
\<close>

function fill_pool :: "(nat \<Rightarrow> 'a) \<Rightarrow> int \<Rightarrow> int \<Rightarrow> 'a list \<Rightarrow> 'a list" where
  "fill_pool allocate thread_number i instance_pool =
     (if i < thread_number
      then fill_pool allocate thread_number (i + 1) (instance_pool @ [allocate (nat i)])
      else instance_pool)"
  by pat_completeness auto
termination
  by (relation "measure (\<lambda>(a, n, i, p). nat (n - i))") auto

declare fill_pool.simps [simp del]

text \<open>
  \<^verbatim>\<open>getInstance\<close> is the same in every estimator: a thread id at or above the pool
  size throws, any other id indexes the vector. A negative id is not caught by the test;
  the unchecked index it leads to is \<open>Index_out_of_range\<close>.
\<close>

definition getInstance :: "'a list \<Rightarrow> int \<Rightarrow> error + 'a" where
  "getInstance instance_pool tid =
     (if tid \<ge> int (length instance_pool) then Inl CPU_thread_ID_over_limit
      else if tid < 0 then Inl Index_out_of_range
      else Inr (instance_pool ! nat tid))"

section \<open>ICGN refinement\<close>

text \<open>
  The estimators as the constructors leave them. The reference image is what
  \<^verbatim>\<open>setImages\<close> attached; of the reference only the extent is read by the code
  modelled here.
\<close>

record 'a ICGN2D1 =
  subset_radius_x :: int
  subset_radius_y :: int
  conv_criterion :: float
  stop_condition :: float
  thread_number :: int
  instance_pool :: "'a list"
  ref_img :: Image2D

record 'a ICGN2D2 =
  subset_radius_x :: int
  subset_radius_y :: int
  conv_criterion :: float
  stop_condition :: float
  thread_number :: int
  instance_pool :: "'a list"
  ref_img :: Image2D

record 'a ICGN3D1 =
  subset_radius_x :: int
  subset_radius_y :: int
  subset_radius_z :: int
  conv_criterion :: float
  stop_condition :: float
  thread_number :: int
  instance_pool :: "'a list"
  ref_img :: Image3D

text \<open>The constructors store their arguments and fill the pool.\<close>

definition ICGN2D1_new ::
  "(nat \<Rightarrow> 'a) \<Rightarrow> int \<Rightarrow> int \<Rightarrow> float \<Rightarrow> float \<Rightarrow> int \<Rightarrow> Image2D \<Rightarrow> 'a ICGN2D1" where
  "ICGN2D1_new allocate radius_x radius_y criterion stop threads img =
     \<lparr>ICGN2D1.subset_radius_x = radius_x, ICGN2D1.subset_radius_y = radius_y,
      ICGN2D1.conv_criterion = criterion, ICGN2D1.stop_condition = stop,
      ICGN2D1.thread_number = threads,
      ICGN2D1.instance_pool = fill_pool allocate threads 0 [],
      ICGN2D1.ref_img = img\<rparr>"

definition ICGN2D2_new ::
  "(nat \<Rightarrow> 'a) \<Rightarrow> int \<Rightarrow> int \<Rightarrow> float \<Rightarrow> float \<Rightarrow> int \<Rightarrow> Image2D \<Rightarrow> 'a ICGN2D2" where
  "ICGN2D2_new allocate radius_x radius_y criterion stop threads img =
     \<lparr>ICGN2D2.subset_radius_x = radius_x, ICGN2D2.subset_radius_y = radius_y,
      ICGN2D2.conv_criterion = criterion, ICGN2D2.stop_condition = stop,
      ICGN2D2.thread_number = threads,
      ICGN2D2.instance_pool = fill_pool allocate threads 0 [],
      ICGN2D2.ref_img = img\<rparr>"

definition ICGN3D1_new ::
  "(nat \<Rightarrow> 'a) \<Rightarrow> int \<Rightarrow> int \<Rightarrow> int \<Rightarrow> float \<Rightarrow> float \<Rightarrow> int \<Rightarrow> Image3D \<Rightarrow> 'a ICGN3D1" where
  "ICGN3D1_new allocate radius_x radius_y radius_z criterion stop threads img =
     \<lparr>ICGN3D1.subset_radius_x = radius_x, ICGN3D1.subset_radius_y = radius_y,
      ICGN3D1.subset_radius_z = radius_z,
      ICGN3D1.conv_criterion = criterion, ICGN3D1.stop_condition = stop,
      ICGN3D1.thread_number = threads,
      ICGN3D1.instance_pool = fill_pool allocate threads 0 [],
      ICGN3D1.ref_img = img\<rparr>"

subsection \<open>The convergence norm\<close>

text \<open>
  The norm of the increment, as the three \<^verbatim>\<open>compute\<close> functions accumulate it. The
  squared radii are \<^verbatim>\<open>int\<close> products; a product of a \<^verbatim>\<open>float\<close> and an \<^verbatim>\<open>int\<close>
  converts the \<^verbatim>\<open>int\<close>.
\<close>

definition ICGN2D1_dp_norm :: "int \<Rightarrow> int \<Rightarrow> Deformation2D1 \<Rightarrow> float" where
  "ICGN2D1_dp_norm radius_x radius_y p_increment =
     (let subset_radius_x2 = int32 (radius_x * radius_x);
          subset_radius_y2 = int32 (radius_y * radius_y);
          dp_norm_max = Fin 0;
          dp_norm_max = fadd dp_norm_max
            (fmul (Deformation2D1.u p_increment) (Deformation2D1.u p_increment));
          dp_norm_max = fadd dp_norm_max
            (fmul (fmul (Deformation2D1.ux p_increment) (Deformation2D1.ux p_increment))
               (float_of_int subset_radius_x2));
          dp_norm_max = fadd dp_norm_max
            (fmul (fmul (Deformation2D1.uy p_increment) (Deformation2D1.uy p_increment))
               (float_of_int subset_radius_y2));
          dp_norm_max = fadd dp_norm_max
            (fmul (Deformation2D1.v p_increment) (Deformation2D1.v p_increment));
          dp_norm_max = fadd dp_norm_max
            (fmul (fmul (Deformation2D1.vx p_increment) (Deformation2D1.vx p_increment))
               (float_of_int subset_radius_x2));
          dp_norm_max = fadd dp_norm_max
            (fmul (fmul (Deformation2D1.vy p_increment) (Deformation2D1.vy p_increment))
               (float_of_int subset_radius_y2))
      in fsqrt dp_norm_max)"

definition ICGN2D2_dp_norm :: "int \<Rightarrow> int \<Rightarrow> Deformation2D2 \<Rightarrow> float" where
  "ICGN2D2_dp_norm radius_x radius_y p_increment =
     (let subset_radius_x2 = int32 (radius_x * radius_x);
          subset_radius_y2 = int32 (radius_y * radius_y);
          subset_radius_xy = int32 (subset_radius_x2 * subset_radius_y2);
          dp_norm_max = Fin 0;
          dp_norm_max = fadd dp_norm_max
            (fmul (Deformation2D2.u p_increment) (Deformation2D2.u p_increment));
          dp_norm_max = fadd dp_norm_max
            (fmul (fmul (Deformation2D2.ux p_increment) (Deformation2D2.ux p_increment))
               (float_of_int subset_radius_x2));
          dp_norm_max = fadd dp_norm_max
            (fmul (fmul (Deformation2D2.uy p_increment) (Deformation2D2.uy p_increment))
               (float_of_int subset_radius_y2));
          dp_norm_max = fadd dp_norm_max
            (fdiv (fmul (fmul
                 (fmul (Deformation2D2.uxx p_increment) (Deformation2D2.uxx p_increment))
                 (float_of_int subset_radius_x2)) (float_of_int subset_radius_x2)) (Fin 4));
          dp_norm_max = fadd dp_norm_max
            (fdiv (fmul (fmul
                 (fmul (Deformation2D2.uyy p_increment) (Deformation2D2.uyy p_increment))
                 (float_of_int subset_radius_y2)) (float_of_int subset_radius_y2)) (Fin 4));
          dp_norm_max = fadd dp_norm_max
            (fmul (fmul (Deformation2D2.uxy p_increment) (Deformation2D2.uxy p_increment))
               (float_of_int subset_radius_xy));
          dp_norm_max = fadd dp_norm_max
            (fmul (Deformation2D2.v p_increment) (Deformation2D2.v p_increment));
          dp_norm_max = fadd dp_norm_max
            (fmul (fmul (Deformation2D2.vx p_increment) (Deformation2D2.vx p_increment))
               (float_of_int subset_radius_x2));
          dp_norm_max = fadd dp_norm_max
            (fmul (fmul (Deformation2D2.vy p_increment) (Deformation2D2.vy p_increment))
               (float_of_int subset_radius_y2));
          dp_norm_max = fadd dp_norm_max
            (fdiv (fmul (fmul
                 (fmul (Deformation2D2.vxx p_increment) (Deformation2D2.vxx p_increment))
                 (float_of_int subset_radius_x2)) (float_of_int subset_radius_x2)) (Fin 4));
          dp_norm_max = fadd dp_norm_max
            (fdiv (fmul (fmul
                 (fmul (Deformation2D2.vyy p_increment) (Deformation2D2.vyy p_increment))
                 (float_of_int subset_radius_y2)) (float_of_int subset_radius_y2)) (Fin 4));
          dp_norm_max = fadd dp_norm_max
            (fmul (fmul (Deformation2D2.vxy p_increment) (Deformation2D2.vxy p_increment))
               (float_of_int subset_radius_xy))
      in fsqrt dp_norm_max)"

definition ICGN3D1_dp_norm :: "Deformation3D1 \<Rightarrow> float" where
  "ICGN3D1_dp_norm p_increment =
     fsqrt (fadd (fadd
       (fmul (Deformation3D1.u p_increment) (Deformation3D1.u p_increment))
       (fmul (Deformation3D1.v p_increment) (Deformation3D1.v p_increment)))
       (fmul (Deformation3D1.w p_increment) (Deformation3D1.w p_increment)))"

subsection \<open>The iteration\<close>

text \<open>
  The three \<^verbatim>\<open>compute\<close> functions share the loop
  \<^verbatim>\<open>do { iteration++; ... } while (iteration < stop_condition && dp_norm_max >= conv_criterion)\<close>.
  One pass takes the current parameters to the composed parameters, the norm of the
  increment and the ZNSSD. The counter is converted for the comparison with the
  \<^verbatim>\<open>float\<close> bound. Nothing in the code bounds the number of passes by itself, so the
  loop is a partial function: \<open>None\<close> is a loop that never exits.
\<close>

partial_function (option) icgn_do_while ::
  "('p \<Rightarrow> 'p \<times> float \<times> float) \<Rightarrow> float \<Rightarrow> float \<Rightarrow> int \<Rightarrow> 'p \<Rightarrow>
   (int \<times> 'p \<times> float \<times> float) option" where
  "icgn_do_while pass stop criterion iter p_current =
     (let iter' = int32 (iter + 1);
          (p_current', dp_norm_max, znssd) = pass p_current
      in if flt (float_of_int iter') stop \<and> fge dp_norm_max criterion
         then icgn_do_while pass stop criterion iter' p_current'
         else Some (iter', p_current', dp_norm_max, znssd))"

text \<open>
  The rejection branch: \<^verbatim>\<open>poi->result.zncc = -1\<close> and nothing else.
\<close>

definition reject2D :: "POI2D \<Rightarrow> POI2D" where
  "reject2D poi = poi\<lparr>POI2D.result := (POI2D.result poi)\<lparr>Result2D.zncc := float_of_int (- 1)\<rparr>\<rparr>"

definition reject3D :: "POI3D \<Rightarrow> POI3D" where
  "reject3D poi = poi\<lparr>POI3D.result := (POI3D.result poi)\<lparr>Result3D.zncc := float_of_int (- 1)\<rparr>\<rparr>"

text \<open>
  \<^verbatim>\<open>ICGN2D1::compute\<close>. The work on the subsets (filling the reference subset, the
  Hessian and its inverse, the reconstruction of the target subset, the error image, the
  increment and the composition of the warp) goes through \<^verbatim>\<open>Subset2D\<close>,
  \<^verbatim>\<open>Gradient2D4\<close>, \<^verbatim>\<open>BicubicBspline\<close>, \<^verbatim>\<open>Deformation2D1\<close> and the matrix library,
  none of which is among the sources. Its effect in one pass of the loop is the
  parameter \<open>pass\<close>: from the scratch instance, the point of interest and the current
  parameters to the composed parameters, the increment and the ZNSSD. The thread id is
  what \<^verbatim>\<open>omp_get_thread_num()\<close> returns.
\<close>

definition initial_guess_2D :: "POI2D \<Rightarrow> Deformation2D1" where
  "initial_guess_2D poi =
     \<lparr>Deformation2D1.u = DeformationVector2D.u (POI2D.deformation poi),
      Deformation2D1.ux = DeformationVector2D.ux (POI2D.deformation poi),
      Deformation2D1.uy = DeformationVector2D.uy (POI2D.deformation poi),
      Deformation2D1.v = DeformationVector2D.v (POI2D.deformation poi),
      Deformation2D1.vx = DeformationVector2D.vx (POI2D.deformation poi),
      Deformation2D1.vy = DeformationVector2D.vy (POI2D.deformation poi)\<rparr>"

text \<open>The body of the loop: the pass, then the norm of its increment.\<close>

definition ICGN2D1_body ::
  "'a ICGN2D1 \<Rightarrow> ('a \<Rightarrow> POI2D \<Rightarrow> Deformation2D1 \<Rightarrow> Deformation2D1 \<times> Deformation2D1 \<times> float) \<Rightarrow>
   'a \<Rightarrow> POI2D \<Rightarrow> Deformation2D1 \<Rightarrow> Deformation2D1 \<times> float \<times> float" where
  "ICGN2D1_body this pass cur_instance poi p_current =
     (let (p_current', p_increment, znssd) = pass cur_instance poi p_current
      in (p_current',
          ICGN2D1_dp_norm (ICGN2D1.subset_radius_x this) (ICGN2D1.subset_radius_y this)
            p_increment,
          znssd))"

text \<open>The assignments after the loop.\<close>

definition ICGN2D1_store ::
  "POI2D \<Rightarrow> Deformation2D1 \<Rightarrow> int \<times> Deformation2D1 \<times> float \<times> float \<Rightarrow> POI2D" where
  "ICGN2D1_store poi p_initial r =
     (case r of (iter, p_current, dp_norm_max, znssd) \<Rightarrow>
        poi
         \<lparr>POI2D.deformation := (POI2D.deformation poi)
            \<lparr>DeformationVector2D.u := Deformation2D1.u p_current,
             DeformationVector2D.ux := Deformation2D1.ux p_current,
             DeformationVector2D.uy := Deformation2D1.uy p_current,
             DeformationVector2D.v := Deformation2D1.v p_current,
             DeformationVector2D.vx := Deformation2D1.vx p_current,
             DeformationVector2D.vy := Deformation2D1.vy p_current\<rparr>,
          POI2D.result := (POI2D.result poi)
            \<lparr>Result2D.u0 := Deformation2D1.u p_initial,
             Result2D.v0 := Deformation2D1.v p_initial,
             Result2D.zncc := fmul (Fin (1 / 2)) (fsub (float_of_int 2) znssd),
             Result2D.iteration := float_of_int iter,
             Result2D.convergence := dp_norm_max\<rparr>\<rparr>)"

definition ICGN2D1_compute ::
  "'a ICGN2D1 \<Rightarrow> ('a \<Rightarrow> POI2D \<Rightarrow> Deformation2D1 \<Rightarrow> Deformation2D1 \<times> Deformation2D1 \<times> float) \<Rightarrow>
   int \<Rightarrow> POI2D \<Rightarrow> POI2D outcome option" where
  "ICGN2D1_compute this pass tid poi =
     (case getInstance (ICGN2D1.instance_pool this) tid of
        Inl e \<Rightarrow> Some (Thrown e poi)
      | Inr cur_instance \<Rightarrow>
          if POI2D.y poi - ICGN2D1.subset_radius_y this < 0
             \<or> POI2D.x poi - ICGN2D1.subset_radius_x this < 0
             \<or> POI2D.y poi + ICGN2D1.subset_radius_y this > Image2D.height (ICGN2D1.ref_img this) - 1
             \<or> POI2D.x poi + ICGN2D1.subset_radius_x this > Image2D.width (ICGN2D1.ref_img this) - 1
             \<or> isnan (DeformationVector2D.u (POI2D.deformation poi))
             \<or> isnan (DeformationVector2D.v (POI2D.deformation poi))
          then Some (Rejected (reject2D poi))
          else
            (let p_initial = initial_guess_2D poi
             in case icgn_do_while (ICGN2D1_body this pass cur_instance poi)
                  (ICGN2D1.stop_condition this) (ICGN2D1.conv_criterion this) 0 p_initial of
                  None \<Rightarrow> None
                | Some r \<Rightarrow> Some (Computed (ICGN2D1_store poi p_initial r))))"

text \<open>
  \<^verbatim>\<open>ICGN2D2::compute\<close>. The initial guess is the order-1 part of the deformation
  vector; \<open>lift\<close> is \<^verbatim>\<open>Deformation2D2::setDeformation(Deformation2D1&)\<close>, which is
  not among the sources either.
\<close>

definition ICGN2D2_body ::
  "'a ICGN2D2 \<Rightarrow> ('a \<Rightarrow> POI2D \<Rightarrow> Deformation2D2 \<Rightarrow> Deformation2D2 \<times> Deformation2D2 \<times> float) \<Rightarrow>
   'a \<Rightarrow> POI2D \<Rightarrow> Deformation2D2 \<Rightarrow> Deformation2D2 \<times> float \<times> float" where
  "ICGN2D2_body this pass cur_instance poi p_current =
     (let (p_current', p_increment, znssd) = pass cur_instance poi p_current
      in (p_current',
          ICGN2D2_dp_norm (ICGN2D2.subset_radius_x this) (ICGN2D2.subset_radius_y this)
            p_increment,
          znssd))"

definition ICGN2D2_store ::
  "POI2D \<Rightarrow> Deformation2D1 \<Rightarrow> int \<times> Deformation2D2 \<times> float \<times> float \<Rightarrow> POI2D" where
  "ICGN2D2_store poi p_initial r =
     (case r of (iter, p_current, dp_norm_max, znssd) \<Rightarrow>
        poi
         \<lparr>POI2D.deformation := (POI2D.deformation poi)
            \<lparr>DeformationVector2D.u := Deformation2D2.u p_current,
             DeformationVector2D.ux := Deformation2D2.ux p_current,
             DeformationVector2D.uy := Deformation2D2.uy p_current,
             DeformationVector2D.uxx := Deformation2D2.uxx p_current,
             DeformationVector2D.uyy := Deformation2D2.uyy p_current,
             DeformationVector2D.uxy := Deformation2D2.uxy p_current,
             DeformationVector2D.v := Deformation2D2.v p_current,
             DeformationVector2D.vx := Deformation2D2.vx p_current,
             DeformationVector2D.vy := Deformation2D2.vy p_current,
             DeformationVector2D.vxx := Deformation2D2.vxx p_current,
             DeformationVector2D.vyy := Deformation2D2.vyy p_current,
             DeformationVector2D.vxy := Deformation2D2.vxy p_current\<rparr>,
          POI2D.result := (POI2D.result poi)
            \<lparr>Result2D.u0 := Deformation2D1.u p_initial,
             Result2D.v0 := Deformation2D1.v p_initial,
             Result2D.zncc := fmul (Fin (1 / 2)) (fsub (float_of_int 2) znssd),
             Result2D.iteration := float_of_int iter,
             Result2D.convergence := dp_norm_max\<rparr>\<rparr>)"

definition ICGN2D2_compute ::
  "'a ICGN2D2 \<Rightarrow> (Deformation2D1 \<Rightarrow> Deformation2D2) \<Rightarrow>
   ('a \<Rightarrow> POI2D \<Rightarrow> Deformation2D2 \<Rightarrow> Deformation2D2 \<times> Deformation2D2 \<times> float) \<Rightarrow>
   int \<Rightarrow> POI2D \<Rightarrow> POI2D outcome option" where
  "ICGN2D2_compute this lift pass tid poi =
     (case getInstance (ICGN2D2.instance_pool this) tid of
        Inl e \<Rightarrow> Some (Thrown e poi)
      | Inr cur_instance \<Rightarrow>
          if POI2D.y poi - ICGN2D2.subset_radius_y this < 0
             \<or> POI2D.x poi - ICGN2D2.subset_radius_x this < 0
             \<or> POI2D.y poi + ICGN2D2.subset_radius_y this > Image2D.height (ICGN2D2.ref_img this) - 1
             \<or> POI2D.x poi + ICGN2D2.subset_radius_x this > Image2D.width (ICGN2D2.ref_img this) - 1
             \<or> isnan (DeformationVector2D.u (POI2D.deformation poi))
             \<or> isnan (DeformationVector2D.v (POI2D.deformation poi))
          then Some (Rejected (reject2D poi))
          else
            (let p_initial = initial_guess_2D poi
             in case icgn_do_while (ICGN2D2_body this pass cur_instance poi)
                  (ICGN2D2.stop_condition this) (ICGN2D2.conv_criterion this) 0
                  (lift p_initial) of
                  None \<Rightarrow> None
                | Some r \<Rightarrow> Some (Computed (ICGN2D2_store poi p_initial r))))"

text \<open>
  \<^verbatim>\<open>ICGN3D1::compute\<close>. Its test reads the three coordinates and the extent of the
  volume, and no component of the deformation vector.
\<close>

definition initial_guess_3D :: "POI3D \<Rightarrow> Deformation3D1" where
  "initial_guess_3D poi =
     \<lparr>Deformation3D1.u = DeformationVector3D.u (POI3D.deformation poi),
      Deformation3D1.ux = DeformationVector3D.ux (POI3D.deformation poi),
      Deformation3D1.uy = DeformationVector3D.uy (POI3D.deformation poi),
      Deformation3D1.uz = DeformationVector3D.uz (POI3D.deformation poi),
      Deformation3D1.v = DeformationVector3D.v (POI3D.deformation poi),
      Deformation3D1.vx = DeformationVector3D.vx (POI3D.deformation poi),
      Deformation3D1.vy = DeformationVector3D.vy (POI3D.deformation poi),
      Deformation3D1.vz = DeformationVector3D.vz (POI3D.deformation poi),
      Deformation3D1.w = DeformationVector3D.w (POI3D.deformation poi),
      Deformation3D1.wx = DeformationVector3D.wx (POI3D.deformation poi),
      Deformation3D1.wy = DeformationVector3D.wy (POI3D.deformation poi),
      Deformation3D1.wz = DeformationVector3D.wz (POI3D.deformation poi)\<rparr>"

definition ICGN3D1_body ::
  "('a \<Rightarrow> POI3D \<Rightarrow> Deformation3D1 \<Rightarrow> Deformation3D1 \<times> Deformation3D1 \<times> float) \<Rightarrow>
   'a \<Rightarrow> POI3D \<Rightarrow> Deformation3D1 \<Rightarrow> Deformation3D1 \<times> float \<times> float" where
  "ICGN3D1_body pass cur_instance poi p_current =
     (let (p_current', p_increment, znssd) = pass cur_instance poi p_current
      in (p_current', ICGN3D1_dp_norm p_increment, znssd))"

definition ICGN3D1_store ::
  "POI3D \<Rightarrow> Deformation3D1 \<Rightarrow> int \<times> Deformation3D1 \<times> float \<times> float \<Rightarrow> POI3D" where
  "ICGN3D1_store poi p_initial r =
     (case r of (iter, p_current, dp_norm_max, znssd) \<Rightarrow>
        poi
         \<lparr>POI3D.deformation := (POI3D.deformation poi)
            \<lparr>DeformationVector3D.u := Deformation3D1.u p_current,
             DeformationVector3D.ux := Deformation3D1.ux p_current,
             DeformationVector3D.uy := Deformation3D1.uy p_current,
             DeformationVector3D.uz := Deformation3D1.uz p_current,
             DeformationVector3D.v := Deformation3D1.v p_current,
             DeformationVector3D.vx := Deformation3D1.vx p_current,
             DeformationVector3D.vy := Deformation3D1.vy p_current,
             DeformationVector3D.vz := Deformation3D1.vz p_current,
             DeformationVector3D.w := Deformation3D1.w p_current,
             DeformationVector3D.wx := Deformation3D1.wx p_current,
             DeformationVector3D.wy := Deformation3D1.wy p_current,
             DeformationVector3D.wz := Deformation3D1.wz p_current\<rparr>,
          POI3D.result := (POI3D.result poi)
            \<lparr>Result3D.u0 := Deformation3D1.u p_initial,
             Result3D.v0 := Deformation3D1.v p_initial,
             Result3D.w0 := Deformation3D1.w p_initial,
             Result3D.zncc := fmul (Fin (1 / 2)) (fsub (float_of_int 2) znssd),
             Result3D.iteration := float_of_int iter,
             Result3D.convergence := dp_norm_max\<rparr>\<rparr>)"

definition ICGN3D1_compute ::
  "'a ICGN3D1 \<Rightarrow> ('a \<Rightarrow> POI3D \<Rightarrow> Deformation3D1 \<Rightarrow> Deformation3D1 \<times> Deformation3D1 \<times> float) \<Rightarrow>
   int \<Rightarrow> POI3D \<Rightarrow> POI3D outcome option" where
  "ICGN3D1_compute this pass tid poi =
     (case getInstance (ICGN3D1.instance_pool this) tid of
        Inl e \<Rightarrow> Some (Thrown e poi)
      | Inr cur_instance \<Rightarrow>
          if POI3D.x poi - ICGN3D1.subset_radius_x this < 0
             \<or> POI3D.y poi - ICGN3D1.subset_radius_y this < 0
             \<or> POI3D.z poi - ICGN3D1.subset_radius_z this < 0
             \<or> POI3D.x poi + ICGN3D1.subset_radius_x this > Image3D.dim_x (ICGN3D1.ref_img this) - 1
             \<or> POI3D.y poi + ICGN3D1.subset_radius_y this > Image3D.dim_y (ICGN3D1.ref_img this) - 1
             \<or> POI3D.z poi + ICGN3D1.subset_radius_z this > Image3D.dim_z (ICGN3D1.ref_img this) - 1
          then Some (Rejected (reject3D poi))
          else
            (let p_initial = initial_guess_3D poi
             in case icgn_do_while (ICGN3D1_body pass cur_instance poi)
                  (ICGN3D1.stop_condition this) (ICGN3D1.conv_criterion this) 0 p_initial of
                  None \<Rightarrow> None
                | Some r \<Rightarrow> Some (Computed (ICGN3D1_store poi p_initial r))))"

subsection \<open>The subset and the image\<close>

text \<open>
  The words of the specification: the subset of a point of interest is the
  \<open>(2r+1)\<close> neighbourhood of its centre, and it lies in the image when every one of its
  pixels does.
\<close>

definition subset_inside_2D :: "Image2D \<Rightarrow> int \<Rightarrow> int \<Rightarrow> POI2D \<Rightarrow> bool" where
  "subset_inside_2D img radius_x radius_y poi =
     (\<forall>i \<in> {POI2D.x poi - radius_x .. POI2D.x poi + radius_x}.
      \<forall>j \<in> {POI2D.y poi - radius_y .. POI2D.y poi + radius_y}.
        0 \<le> i \<and> i < Image2D.width img \<and> 0 \<le> j \<and> j < Image2D.height img)"

definition subset_inside_3D :: "Image3D \<Rightarrow> int \<Rightarrow> int \<Rightarrow> int \<Rightarrow> POI3D \<Rightarrow> bool" where
  "subset_inside_3D img radius_x radius_y radius_z poi =
     (\<forall>i \<in> {POI3D.x poi - radius_x .. POI3D.x poi + radius_x}.
      \<forall>j \<in> {POI3D.y poi - radius_y .. POI3D.y poi + radius_y}.
      \<forall>k \<in> {POI3D.z poi - radius_z .. POI3D.z poi + radius_z}.
        0 \<le> i \<and> i < Image3D.dim_x img \<and> 0 \<le> j \<and> j < Image3D.dim_y img
        \<and> 0 \<le> k \<and> k < Image3D.dim_z img)"

text \<open>A NaN in some component of the initial guess.\<close>

definition nan_guess_2D :: "POI2D \<Rightarrow> bool" where
  "nan_guess_2D poi =
     (let d = POI2D.deformation poi in
      isnan (DeformationVector2D.u d) \<or> isnan (DeformationVector2D.ux d)
      \<or> isnan (DeformationVector2D.uy d) \<or> isnan (DeformationVector2D.uxx d)
      \<or> isnan (DeformationVector2D.uxy d) \<or> isnan (DeformationVector2D.uyy d)
      \<or> isnan (DeformationVector2D.v d) \<or> isnan (DeformationVector2D.vx d)
      \<or> isnan (DeformationVector2D.vy d) \<or> isnan (DeformationVector2D.vxx d)
      \<or> isnan (DeformationVector2D.vxy d) \<or> isnan (DeformationVector2D.vyy d))"

definition nan_guess_3D :: "POI3D \<Rightarrow> bool" where
  "nan_guess_3D poi =
     (let d = POI3D.deformation poi in
      isnan (DeformationVector3D.u d) \<or> isnan (DeformationVector3D.ux d)
      \<or> isnan (DeformationVector3D.uy d) \<or> isnan (DeformationVector3D.uz d)
      \<or> isnan (DeformationVector3D.v d) \<or> isnan (DeformationVector3D.vx d)
      \<or> isnan (DeformationVector3D.vy d) \<or> isnan (DeformationVector3D.vz d)
      \<or> isnan (DeformationVector3D.w d) \<or> isnan (DeformationVector3D.wx d)
      \<or> isnan (DeformationVector3D.wy d) \<or> isnan (DeformationVector3D.wz d))"

subsection \<open>The passes of the loop, one by one\<close>

text \<open>
  For the statements about the loop: the parameters after \<open>k\<close> passes, what pass number
  \<open>k\<close> (counted from one) returns, and the test at the foot of the loop after pass
  number \<open>k\<close>, when the counter is \<open>k\<close>.
\<close>

definition after_passes :: "('p \<Rightarrow> 'p \<times> float \<times> float) \<Rightarrow> 'p \<Rightarrow> nat \<Rightarrow> 'p" where
  "after_passes pass p k = ((\<lambda>q. fst (pass q)) ^^ k) p"

definition nth_pass ::
  "('p \<Rightarrow> 'p \<times> float \<times> float) \<Rightarrow> 'p \<Rightarrow> nat \<Rightarrow> 'p \<times> float \<times> float" where
  "nth_pass pass p k = pass (after_passes pass p (k - 1))"

definition continues ::
  "('p \<Rightarrow> 'p \<times> float \<times> float) \<Rightarrow> float \<Rightarrow> float \<Rightarrow> 'p \<Rightarrow> nat \<Rightarrow> bool" where
  "continues pass stop criterion p k =
     (flt (float_of_int (int k)) stop \<and> fge (fst (snd (nth_pass pass p k))) criterion)"

section \<open>Sample inputs\<close>

text \<open>
  Inputs for the worked instances of the theorems: an image of one grey value, a point of
  interest with a given initial guess and an empty result record, and a pass that finds
  the target subset equal to the reference subset (no increment, no ZNSSD).
\<close>

definition flat_image :: "int \<Rightarrow> int \<Rightarrow> Image2D" where
  "flat_image w_px h_px =
     \<lparr>Image2D.width = w_px, Image2D.height = h_px, Image2D.eg_mat = (\<lambda>r c. Fin 0)\<rparr>"

definition guess_2D :: "float \<Rightarrow> float \<Rightarrow> float \<Rightarrow> DeformationVector2D" where
  "guess_2D a b c =
     \<lparr>DeformationVector2D.u = a, DeformationVector2D.ux = c, DeformationVector2D.uy = Fin 0,
      DeformationVector2D.uxx = Fin 0, DeformationVector2D.uxy = Fin 0,
      DeformationVector2D.uyy = Fin 0,
      DeformationVector2D.v = b, DeformationVector2D.vx = Fin 0, DeformationVector2D.vy = Fin 0,
      DeformationVector2D.vxx = Fin 0, DeformationVector2D.vxy = Fin 0,
      DeformationVector2D.vyy = Fin 0\<rparr>"

definition poi_2D :: "int \<Rightarrow> int \<Rightarrow> DeformationVector2D \<Rightarrow> POI2D" where
  "poi_2D a b d =
     \<lparr>POI2D.x = a, POI2D.y = b, POI2D.deformation = d,
      POI2D.result = \<lparr>Result2D.u0 = Fin 0, Result2D.v0 = Fin 0, Result2D.zncc = Fin 0,
        Result2D.iteration = Fin 0, Result2D.convergence = Fin 0\<rparr>\<rparr>"

definition guess_3D :: "float \<Rightarrow> DeformationVector3D" where
  "guess_3D a =
     \<lparr>DeformationVector3D.u = a, DeformationVector3D.ux = Fin 0, DeformationVector3D.uy = Fin 0,
      DeformationVector3D.uz = Fin 0,
      DeformationVector3D.v = Fin 0, DeformationVector3D.vx = Fin 0, DeformationVector3D.vy = Fin 0,
      DeformationVector3D.vz = Fin 0,
      DeformationVector3D.w = Fin 0, DeformationVector3D.wx = Fin 0, DeformationVector3D.wy = Fin 0,
      DeformationVector3D.wz = Fin 0\<rparr>"

definition poi_3D :: "int \<Rightarrow> int \<Rightarrow> int \<Rightarrow> DeformationVector3D \<Rightarrow> POI3D" where
  "poi_3D a b c d =
     \<lparr>POI3D.x = a, POI3D.y = b, POI3D.z = c, POI3D.deformation = d,
      POI3D.result = \<lparr>Result3D.u0 = Fin 0, Result3D.v0 = Fin 0, Result3D.w0 = Fin 0,
        Result3D.zncc = Fin 0, Result3D.iteration = Fin 0, Result3D.convergence = Fin 0\<rparr>\<rparr>"

definition cube :: "int \<Rightarrow> Image3D" where
  "cube n = \<lparr>Image3D.dim_x = n, Image3D.dim_y = n, Image3D.dim_z = n\<rparr>"

definition still_2D1 ::
  "float \<Rightarrow> nat \<Rightarrow> POI2D \<Rightarrow> Deformation2D1 \<Rightarrow> Deformation2D1 \<times> Deformation2D1 \<times> float" where
  "still_2D1 a inst poi p =
     (p, \<lparr>Deformation2D1.u = a, Deformation2D1.ux = Fin 0, Deformation2D1.uy = Fin 0,
          Deformation2D1.v = Fin 0, Deformation2D1.vx = Fin 0, Deformation2D1.vy = Fin 0\<rparr>,
      Fin 0)"

definition still_2D2 ::
  "nat \<Rightarrow> POI2D \<Rightarrow> Deformation2D2 \<Rightarrow> Deformation2D2 \<times> Deformation2D2 \<times> float" where
  "still_2D2 inst poi p =
     (p, \<lparr>Deformation2D2.u = Fin 0, Deformation2D2.ux = Fin 0, Deformation2D2.uy = Fin 0,
          Deformation2D2.uxx = Fin 0, Deformation2D2.uxy = Fin 0, Deformation2D2.uyy = Fin 0,
          Deformation2D2.v = Fin 0, Deformation2D2.vx = Fin 0, Deformation2D2.vy = Fin 0,
          Deformation2D2.vxx = Fin 0, Deformation2D2.vxy = Fin 0, Deformation2D2.vyy = Fin 0\<rparr>,
      Fin 0)"

definition lift_2D2 :: "Deformation2D1 \<Rightarrow> Deformation2D2" where
  "lift_2D2 p =
     \<lparr>Deformation2D2.u = Deformation2D1.u p, Deformation2D2.ux = Deformation2D1.ux p,
      Deformation2D2.uy = Deformation2D1.uy p,
      Deformation2D2.uxx = Fin 0, Deformation2D2.uxy = Fin 0, Deformation2D2.uyy = Fin 0,
      Deformation2D2.v = Deformation2D1.v p, Deformation2D2.vx = Deformation2D1.vx p,
      Deformation2D2.vy = Deformation2D1.vy p,
      Deformation2D2.vxx = Fin 0, Deformation2D2.vxy = Fin 0, Deformation2D2.vyy = Fin 0\<rparr>"

definition still_3D1 ::
  "nat \<Rightarrow> POI3D \<Rightarrow> Deformation3D1 \<Rightarrow> Deformation3D1 \<times> Deformation3D1 \<times> float" where
  "still_3D1 inst poi p =
     (p, \<lparr>Deformation3D1.u = Fin 0, Deformation3D1.ux = Fin 0, Deformation3D1.uy = Fin 0,
          Deformation3D1.uz = Fin 0,
          Deformation3D1.v = Fin 0, Deformation3D1.vx = Fin 0, Deformation3D1.vy = Fin 0,
          Deformation3D1.vz = Fin 0,
          Deformation3D1.w = Fin 0, Deformation3D1.wx = Fin 0, Deformation3D1.wy = Fin 0,
          Deformation3D1.wz = Fin 0\<rparr>,
      Fin 0)"

text \<open>
  Estimators with subset radius \<open>r\<close> on every axis, convergence criterion \<open>0.001\<close>,
  at most ten iterations and two threads, on a \<open>256 \<times> 256\<close> image and on a volume of
  edge \<open>64\<close>.
\<close>

definition sample_ICGN2D1 :: "int \<Rightarrow> nat ICGN2D1" where
  "sample_ICGN2D1 r =
     ICGN2D1_new (\<lambda>i. i) r r (Fin (1 / 1000)) (Fin 10) 2 (flat_image 256 256)"

definition sample_ICGN2D2 :: "int \<Rightarrow> nat ICGN2D2" where
  "sample_ICGN2D2 r =
     ICGN2D2_new (\<lambda>i. i) r r (Fin (1 / 1000)) (Fin 10) 2 (flat_image 256 256)"

definition sample_ICGN3D1 :: "int \<Rightarrow> nat ICGN3D1" where
  "sample_ICGN3D1 r =
     ICGN3D1_new (\<lambda>i. i) r r r (Fin (1 / 1000)) (Fin 10) 2 (cube 64)"






section \<open>FFT-accelerated cross correlation\<close>

text \<open>
  Modelled from the spec: a point with floating-point coordinates and its addition.
\<close>

record Point2D =
  x :: float
  y :: float

definition point_add :: "Point2D \<Rightarrow> Point2D \<Rightarrow> Point2D" where
  "point_add a b =
     \<lparr>Point2D.x = fadd (Point2D.x a) (Point2D.x b), Point2D.y = fadd (Point2D.y a) (Point2D.y b)\<rparr>"

text \<open>
  A scratch instance \<^verbatim>\<open>FFTW\<close>: three real buffers, three complex buffers (a real
  and an imaginary part per entry) and three plans. A buffer is its content by index.
  The transforms are the library's: executing a plan takes the content of its input
  buffer to the content of its output buffer, and that function is all a plan is here.
\<close>

record FFTW =
  ref_subset :: "int \<Rightarrow> float"
  tar_subset :: "int \<Rightarrow> float"
  zncc :: "int \<Rightarrow> float"
  ref_freq :: "int \<Rightarrow> float \<times> float"
  tar_freq :: "int \<Rightarrow> float \<times> float"
  zncc_freq :: "int \<Rightarrow> float \<times> float"
  ref_plan :: "(int \<Rightarrow> float) \<Rightarrow> int \<Rightarrow> float \<times> float"
  tar_plan :: "(int \<Rightarrow> float) \<Rightarrow> int \<Rightarrow> float \<times> float"
  zncc_plan :: "(int \<Rightarrow> float \<times> float) \<Rightarrow> int \<Rightarrow> float"

record FFTCC2D =
  subset_radius_x :: int
  subset_radius_y :: int
  thread_number :: int
  instance_pool :: "FFTW list"
  ref_img :: Image2D
  tar_img :: Image2D

definition FFTCC2D_new ::
  "(nat \<Rightarrow> FFTW) \<Rightarrow> int \<Rightarrow> int \<Rightarrow> int \<Rightarrow> Image2D \<Rightarrow> Image2D \<Rightarrow> FFTCC2D" where
  "FFTCC2D_new allocate radius_x radius_y threads img1 img2 =
     \<lparr>FFTCC2D.subset_radius_x = radius_x, FFTCC2D.subset_radius_y = radius_y,
      FFTCC2D.thread_number = threads,
      FFTCC2D.instance_pool = fill_pool allocate threads 0 [],
      FFTCC2D.ref_img = img1, FFTCC2D.tar_img = img2\<rparr>"

subsection \<open>The loops of \<^verbatim>\<open>FFTCC2D::compute\<close>\<close>

text \<open>
  A loop \<^verbatim>\<open>for (int i = 0; i < n; i++)\<close> is a \<open>fold\<close> over \<open>[0..n - 1]\<close>. The body of
  the two nested loops that fill the subsets, for row \<open>r\<close> and column \<open>c\<close>: the state is
  the two buffers and the two running sums.
\<close>

definition FFTCC2D_fill_pixel ::
  "FFTCC2D \<Rightarrow> POI2D \<Rightarrow> Point2D \<Rightarrow> int \<Rightarrow> int \<Rightarrow>
   (int \<Rightarrow> float) \<times> (int \<Rightarrow> float) \<times> float \<times> float \<Rightarrow>
   (int \<Rightarrow> float) \<times> (int \<Rightarrow> float) \<times> float \<times> float" where
  "FFTCC2D_fill_pixel this poi initial_displacement r c st =
     (case st of (ref_buf, tar_buf, ref_mean, tar_mean) \<Rightarrow>
        let subset_width = FFTCC2D.subset_radius_x this * 2;
            ref_point =
              \<lparr>Point2D.x = float_of_int (POI2D.x poi + c - FFTCC2D.subset_radius_x this),
               Point2D.y = float_of_int (POI2D.y poi + r - FFTCC2D.subset_radius_y this)\<rparr>;
            val = Image2D.eg_mat (FFTCC2D.ref_img this)
                    (int_of_float (Point2D.y ref_point)) (int_of_float (Point2D.x ref_point));
            ref_buf = ref_buf(r * subset_width + c := val);
            ref_mean = fadd ref_mean val;
            tar_point = point_add ref_point initial_displacement;
            val = Image2D.eg_mat (FFTCC2D.tar_img this)
                    (int_of_float (Point2D.y tar_point)) (int_of_float (Point2D.x tar_point));
            tar_buf = tar_buf(r * subset_width + c := val);
            tar_mean = fadd tar_mean val
        in (ref_buf, tar_buf, ref_mean, tar_mean))"

text \<open>The body of the loop that subtracts the means and accumulates the norms.\<close>

definition FFTCC2D_zero_mean ::
  "float \<Rightarrow> float \<Rightarrow> int \<Rightarrow>
   (int \<Rightarrow> float) \<times> (int \<Rightarrow> float) \<times> float \<times> float \<Rightarrow>
   (int \<Rightarrow> float) \<times> (int \<Rightarrow> float) \<times> float \<times> float" where
  "FFTCC2D_zero_mean ref_mean tar_mean i st =
     (case st of (ref_buf, tar_buf, ref_norm, tar_norm) \<Rightarrow>
        let ref_buf = ref_buf(i := fsub (ref_buf i) ref_mean);
            tar_buf = tar_buf(i := fsub (tar_buf i) tar_mean);
            ref_norm = fadd ref_norm (fmul (ref_buf i) (ref_buf i));
            tar_norm = fadd tar_norm (fmul (tar_buf i) (tar_buf i))
        in (ref_buf, tar_buf, ref_norm, tar_norm))"

text \<open>
  The body of the loop over the spectra, the same in \<^verbatim>\<open>compute\<close> and in
  \<^verbatim>\<open>determineSpeckleSize\<close>.
\<close>

definition cross_spectrum ::
  "(int \<Rightarrow> float \<times> float) \<Rightarrow> (int \<Rightarrow> float \<times> float) \<Rightarrow> int \<Rightarrow>
   (int \<Rightarrow> float \<times> float) \<Rightarrow> (int \<Rightarrow> float \<times> float)" where
  "cross_spectrum ref_fr tar_fr n zncc_fr =
     zncc_fr(n :=
       (fadd (fmul (fst (ref_fr n)) (fst (tar_fr n))) (fmul (snd (ref_fr n)) (snd (tar_fr n))),
        fsub (fmul (fst (ref_fr n)) (snd (tar_fr n))) (fmul (snd (ref_fr n)) (fst (tar_fr n)))))"

text \<open>The body of the search for the largest entry: the state is the entry and its index.\<close>

definition search_max :: "(int \<Rightarrow> float) \<Rightarrow> int \<Rightarrow> float \<times> int \<Rightarrow> float \<times> int" where
  "search_max zncc_buf i st =
     (case st of (max_zncc, max_zncc_index) \<Rightarrow>
        if fgt (zncc_buf i) max_zncc then (zncc_buf i, i) else (max_zncc, max_zncc_index))"

text \<open>
  The index of the peak as a displacement. \<^verbatim>\<open>%\<close> and \<^verbatim>\<open>/\<close> are the truncating
  remainder and quotient of the language.
\<close>

definition local_displacement :: "int \<Rightarrow> int \<Rightarrow> int \<Rightarrow> int \<times> int" where
  "local_displacement radius_x radius_y max_zncc_index =
     (let subset_width = radius_x * 2;
          subset_height = radius_y * 2;
          local_displacement_u = max_zncc_index smod subset_width;
          local_displacement_v = max_zncc_index sdiv subset_width;
          local_displacement_u =
            (if local_displacement_u > radius_x then local_displacement_u - subset_width
             else local_displacement_u);
          local_displacement_v =
            (if local_displacement_v > radius_y then local_displacement_v - subset_height
             else local_displacement_v)
      in (local_displacement_u, local_displacement_v))"

text \<open>
  The parts of \<^verbatim>\<open>FFTCC2D::compute\<close> up to the search: the zero-mean subsets with
  their norms, and the correlation buffer after the inverse transform.
\<close>

definition FFTCC2D_subsets ::
  "FFTCC2D \<Rightarrow> FFTW \<Rightarrow> POI2D \<Rightarrow> (int \<Rightarrow> float) \<times> (int \<Rightarrow> float) \<times> float \<times> float" where
  "FFTCC2D_subsets this current_instance poi =
     (let subset_width = FFTCC2D.subset_radius_x this * 2;
          subset_height = FFTCC2D.subset_radius_y this * 2;
          subset_size = subset_width * subset_height;
          initial_displacement =
            \<lparr>Point2D.x = DeformationVector2D.u (POI2D.deformation poi),
             Point2D.y = DeformationVector2D.v (POI2D.deformation poi)\<rparr>;
          (ref_buf, tar_buf, ref_mean, tar_mean) =
            fold (\<lambda>r. fold (FFTCC2D_fill_pixel this poi initial_displacement r)
                          [0..subset_width - 1])
              [0..subset_height - 1]
              (FFTW.ref_subset current_instance, FFTW.tar_subset current_instance, Fin 0, Fin 0);
          ref_mean = fdiv ref_mean (float_of_int subset_size);
          tar_mean = fdiv tar_mean (float_of_int subset_size)
      in fold (FFTCC2D_zero_mean ref_mean tar_mean) [0..subset_size - 1]
           (ref_buf, tar_buf, Fin 0, Fin 0))"

definition FFTCC2D_correlation ::
  "FFTCC2D \<Rightarrow> FFTW \<Rightarrow> (int \<Rightarrow> float) \<Rightarrow> (int \<Rightarrow> float) \<Rightarrow> int \<Rightarrow> float" where
  "FFTCC2D_correlation this current_instance ref_buf tar_buf =
     (let subset_width = FFTCC2D.subset_radius_x this * 2;
          ref_fr = FFTW.ref_plan current_instance ref_buf;
          tar_fr = FFTW.tar_plan current_instance tar_buf;
          buffer_length = subset_width * (FFTCC2D.subset_radius_y this + 1);
          zncc_fr = fold (cross_spectrum ref_fr tar_fr) [0..buffer_length - 1]
                      (FFTW.zncc_freq current_instance)
      in FFTW.zncc_plan current_instance zncc_fr)"

text \<open>\<^verbatim>\<open>FFTCC2D::compute\<close>.\<close>

definition FFTCC2D_compute :: "FFTCC2D \<Rightarrow> int \<Rightarrow> POI2D \<Rightarrow> POI2D outcome" where
  "FFTCC2D_compute this tid poi =
     (case getInstance (FFTCC2D.instance_pool this) tid of
        Inl e \<Rightarrow> Thrown e poi
      | Inr current_instance \<Rightarrow>
          let subset_width = FFTCC2D.subset_radius_x this * 2;
              subset_height = FFTCC2D.subset_radius_y this * 2;
              subset_size = subset_width * subset_height;
              initial_displacement =
                \<lparr>Point2D.x = DeformationVector2D.u (POI2D.deformation poi),
                 Point2D.y = DeformationVector2D.v (POI2D.deformation poi)\<rparr>;
              (ref_buf, tar_buf, ref_norm, tar_norm) = FFTCC2D_subsets this current_instance poi;
              zncc_buf = FFTCC2D_correlation this current_instance ref_buf tar_buf;
              (max_zncc, max_zncc_index) =
                fold (search_max zncc_buf) [0..subset_size - 1] (float_of_int (- 2), 0);
              (local_displacement_u, local_displacement_v) =
                local_displacement (FFTCC2D.subset_radius_x this) (FFTCC2D.subset_radius_y this)
                  max_zncc_index
          in Computed (poi
               \<lparr>POI2D.deformation := (POI2D.deformation poi)
                  \<lparr>DeformationVector2D.u :=
                     fadd (float_of_int local_displacement_u) (Point2D.x initial_displacement),
                   DeformationVector2D.v :=
                     fadd (float_of_int local_displacement_v) (Point2D.y initial_displacement)\<rparr>,
                POI2D.result := (POI2D.result poi)
                  \<lparr>Result2D.u0 := Point2D.x initial_displacement,
                   Result2D.v0 := Point2D.y initial_displacement,
                   Result2D.zncc :=
                     fdiv max_zncc
                       (fmul (fsqrt (fmul ref_norm tar_norm)) (float_of_int subset_size))\<rparr>\<rparr>))"

subsection \<open>\<^verbatim>\<open>FFTCC2D::determineSpeckleSize\<close>\<close>

text \<open>
  The matrix of the normalised correlation has \<open>subset_height\<close> rows and
  \<open>subset_width\<close> columns. Its coefficient access does not test the indices; here it
  does, so that an access outside the extent is seen: it ends the call with the error
  that says which index was out of range.
\<close>

datatype access_error = Row_out_of_range | Column_out_of_range | Thread_error error

record Matrix =
  rows :: int
  cols :: int
  coeff :: "int \<Rightarrow> int \<Rightarrow> float"

definition matrix_zero :: "int \<Rightarrow> int \<Rightarrow> Matrix" where
  "matrix_zero n_rows n_cols =
     \<lparr>Matrix.rows = n_rows, Matrix.cols = n_cols, Matrix.coeff = (\<lambda>r c. Fin 0)\<rparr>"

definition matrix_read :: "Matrix \<Rightarrow> int \<Rightarrow> int \<Rightarrow> access_error + float" where
  "matrix_read m r c =
     (if r < 0 \<or> Matrix.rows m \<le> r then Inl Row_out_of_range
      else if c < 0 \<or> Matrix.cols m \<le> c then Inl Column_out_of_range
      else Inr (Matrix.coeff m r c))"

definition matrix_write :: "Matrix \<Rightarrow> int \<Rightarrow> int \<Rightarrow> float \<Rightarrow> access_error + Matrix" where
  "matrix_write m r c a =
     (if r < 0 \<or> Matrix.rows m \<le> r then Inl Row_out_of_range
      else if c < 0 \<or> Matrix.cols m \<le> c then Inl Column_out_of_range
      else Inr (m\<lparr>Matrix.coeff := (Matrix.coeff m)(r := (Matrix.coeff m r)(c := a))\<rparr>))"

text \<open>The body of the loop that fills the reference subset.\<close>

definition speckle_fill_pixel ::
  "FFTCC2D \<Rightarrow> POI2D \<Rightarrow> int \<Rightarrow> int \<Rightarrow> (int \<Rightarrow> float) \<times> float \<Rightarrow> (int \<Rightarrow> float) \<times> float" where
  "speckle_fill_pixel this poi r c st =
     (case st of (ref_buf, ref_mean) \<Rightarrow>
        let subset_width = FFTCC2D.subset_radius_x this * 2;
            ref_point =
              \<lparr>Point2D.x = float_of_int (POI2D.x poi + c - FFTCC2D.subset_radius_x this),
               Point2D.y = float_of_int (POI2D.y poi + r - FFTCC2D.subset_radius_y this)\<rparr>;
            val = Image2D.eg_mat (FFTCC2D.ref_img this)
                    (int_of_float (Point2D.y ref_point)) (int_of_float (Point2D.x ref_point));
            ref_buf = ref_buf(r * subset_width + c := val);
            ref_mean = fadd ref_mean val
        in (ref_buf, ref_mean))"

text \<open>The body of the loop that subtracts the mean and copies the subset.\<close>

definition speckle_zero_mean ::
  "float \<Rightarrow> int \<Rightarrow> (int \<Rightarrow> float) \<times> (int \<Rightarrow> float) \<times> float \<Rightarrow>
   (int \<Rightarrow> float) \<times> (int \<Rightarrow> float) \<times> float" where
  "speckle_zero_mean ref_mean i st =
     (case st of (ref_buf, tar_buf, ref_norm) \<Rightarrow>
        let ref_buf = ref_buf(i := fsub (ref_buf i) ref_mean);
            tar_buf = tar_buf(i := ref_buf i);
            ref_norm = fadd ref_norm (fmul (ref_buf i) (ref_buf i))
        in (ref_buf, tar_buf, ref_norm))"

text \<open>
  The body of the loop that normalises the correlation and moves the peak to the centre
  of the matrix. After an access out of range nothing more is done.
\<close>

definition shift_peak ::
  "int \<Rightarrow> int \<Rightarrow> float \<Rightarrow> int \<Rightarrow> access_error + (int \<Rightarrow> float) \<times> Matrix \<Rightarrow>
   access_error + (int \<Rightarrow> float) \<times> Matrix" where
  "shift_peak radius_x radius_y ref_norm i st =
     (case st of
        Inl e \<Rightarrow> Inl e
      | Inr (zncc_buf, zncc_matrix) \<Rightarrow>
          let subset_width = radius_x * 2;
              subset_height = radius_y * 2;
              zncc_buf = zncc_buf(i := fdiv (zncc_buf i) ref_norm);
              shift_c = i smod subset_width;
              shift_r = i sdiv subset_width;
              shift_c = (if shift_c > radius_x then shift_c - subset_width else shift_c);
              shift_r = (if shift_r > radius_y then shift_r - subset_height else shift_r);
              shift_c = shift_c + (radius_x - 1);
              shift_r = shift_r + (radius_y - 1)
          in (case matrix_write zncc_matrix shift_r shift_c (zncc_buf i) of
                Inl e \<Rightarrow> Inl e
              | Inr zncc_matrix \<Rightarrow> Inr (zncc_buf, zncc_matrix)))"

text \<open>
  The position the code gives the crossing between the neighbours \<open>i1\<close> and \<open>i2\<close>, where
  the correlation is \<open>f1\<close> and \<open>f2\<close>:
  \<^verbatim>\<open>x2 - (x2 - x1) * (half_peak_ratio - f(x2)) * (f(x1) - f(x2))\<close>.
\<close>

definition crossing :: "int \<Rightarrow> int \<Rightarrow> float \<Rightarrow> float \<Rightarrow> float \<Rightarrow> float" where
  "crossing i1 i2 half_peak_ratio f1 f2 =
     fsub (float_of_int i2)
       (fmul (fmul (float_of_int (i2 - i1)) (fsub half_peak_ratio f2)) (fsub f1 f2))"

text \<open>
  The four search loops. Along \<open>x\<close> the row is \<open>y0\<close> and the column runs from \<open>x0\<close>
  outwards, to the right with step \<open>1\<close> and to the left with step \<open>-1\<close>
  (\<^verbatim>\<open>x1 = x0 + i, x2 = x1 + 1\<close> and \<^verbatim>\<open>x1 = x0 - i, x2 = x1 - 1\<close>); along \<open>y\<close> the column
  is \<open>x0\<close>. The second entry is read only when the first is above the ratio, as
  \<^verbatim>\<open>&&\<close> has it. A loop that finds no crossing leaves the initial \<open>0\<close>.
\<close>

function half_peak_x ::
  "Matrix \<Rightarrow> float \<Rightarrow> int \<Rightarrow> int \<Rightarrow> int \<Rightarrow> int \<Rightarrow> access_error + float" where
  "half_peak_x zncc_matrix half_peak_ratio y0 x0 step i =
     (if i < x0 then
        (let x1 = x0 + step * i; x2 = x1 + step in
         case matrix_read zncc_matrix y0 x1 of
           Inl e \<Rightarrow> Inl e
         | Inr f1 \<Rightarrow>
             if fgt f1 half_peak_ratio then
               (case matrix_read zncc_matrix y0 x2 of
                  Inl e \<Rightarrow> Inl e
                | Inr f2 \<Rightarrow>
                    if fle f2 half_peak_ratio then Inr (crossing x1 x2 half_peak_ratio f1 f2)
                    else half_peak_x zncc_matrix half_peak_ratio y0 x0 step (i + 1))
             else half_peak_x zncc_matrix half_peak_ratio y0 x0 step (i + 1))
      else Inr (Fin 0))"
  by pat_completeness auto
termination
  by (relation "measure (\<lambda>(m, h, y0, x0, step, i). nat (x0 - i))") auto

declare half_peak_x.simps [simp del]

function half_peak_y ::
  "Matrix \<Rightarrow> float \<Rightarrow> int \<Rightarrow> int \<Rightarrow> int \<Rightarrow> int \<Rightarrow> access_error + float" where
  "half_peak_y zncc_matrix half_peak_ratio y0 x0 step i =
     (if i < y0 then
        (let y1 = y0 + step * i; y2 = y1 + step in
         case matrix_read zncc_matrix y1 x0 of
           Inl e \<Rightarrow> Inl e
         | Inr f1 \<Rightarrow>
             if fgt f1 half_peak_ratio then
               (case matrix_read zncc_matrix y2 x0 of
                  Inl e \<Rightarrow> Inl e
                | Inr f2 \<Rightarrow>
                    if fle f2 half_peak_ratio then Inr (crossing y1 y2 half_peak_ratio f1 f2)
                    else half_peak_y zncc_matrix half_peak_ratio y0 x0 step (i + 1))
             else half_peak_y zncc_matrix half_peak_ratio y0 x0 step (i + 1))
      else Inr (Fin 0))"
  by pat_completeness auto
termination
  by (relation "measure (\<lambda>(m, h, y0, x0, step, i). nat (y0 - i))") auto

declare half_peak_y.simps [simp del]

text \<open>The matrix of the normalised correlation, with the peak at the centre.\<close>

definition speckle_matrix :: "FFTCC2D \<Rightarrow> FFTW \<Rightarrow> POI2D \<Rightarrow> access_error + Matrix" where
  "speckle_matrix this current_instance poi =
     (let subset_width = FFTCC2D.subset_radius_x this * 2;
          subset_height = FFTCC2D.subset_radius_y this * 2;
          subset_size = subset_width * subset_height;
          (ref_buf, ref_mean) =
            fold (\<lambda>r. fold (speckle_fill_pixel this poi r) [0..subset_width - 1])
              [0..subset_height - 1] (FFTW.ref_subset current_instance, Fin 0);
          ref_mean = fdiv ref_mean (float_of_int subset_size);
          (ref_buf, tar_buf, ref_norm) =
            fold (speckle_zero_mean ref_mean) [0..subset_size - 1]
              (ref_buf, FFTW.tar_subset current_instance, Fin 0);
          zncc_buf = FFTCC2D_correlation this current_instance ref_buf tar_buf;
          zncc_matrix = matrix_zero subset_height subset_width;
          ref_norm = fmul ref_norm (float_of_int subset_size)
      in case fold (shift_peak (FFTCC2D.subset_radius_x this) (FFTCC2D.subset_radius_y this)
                      ref_norm)
                [0..subset_size - 1] (Inr (zncc_buf, zncc_matrix)) of
           Inl e \<Rightarrow> Inl e
         | Inr (zncc_buf, zncc_matrix) \<Rightarrow> Inr zncc_matrix)"

text \<open>\<^verbatim>\<open>FFTCC2D::determineSpeckleSize\<close>. It reads the point of interest and returns a point.\<close>

definition determineSpeckleSize ::
  "FFTCC2D \<Rightarrow> int \<Rightarrow> POI2D \<Rightarrow> float \<Rightarrow> access_error + Point2D" where
  "determineSpeckleSize this tid poi half_peak_ratio =
     (case getInstance (FFTCC2D.instance_pool this) tid of
        Inl e \<Rightarrow> Inl (Thread_error e)
      | Inr current_instance \<Rightarrow>
          (case speckle_matrix this current_instance poi of
             Inl e \<Rightarrow> Inl e
           | Inr zncc_matrix \<Rightarrow>
               let y0 = FFTCC2D.subset_radius_y this - 1;
                   x0 = FFTCC2D.subset_radius_x this - 1
               in case half_peak_x zncc_matrix half_peak_ratio y0 x0 1 0 of
                    Inl e \<Rightarrow> Inl e
                  | Inr rx1 \<Rightarrow>
               (case half_peak_x zncc_matrix half_peak_ratio y0 x0 (- 1) 0 of
                    Inl e \<Rightarrow> Inl e
                  | Inr rx2 \<Rightarrow>
               (case half_peak_y zncc_matrix half_peak_ratio y0 x0 1 0 of
                    Inl e \<Rightarrow> Inl e
                  | Inr ry1 \<Rightarrow>
               (case half_peak_y zncc_matrix half_peak_ratio y0 x0 (- 1) 0 of
                    Inl e \<Rightarrow> Inl e
                  | Inr ry2 \<Rightarrow>
                      Inr \<lparr>Point2D.x = fsub rx1 rx2, Point2D.y = fsub ry1 ry2\<rparr>)))))"

text \<open>
  The words of the specification for the crossing: the point where the straight line
  through the two samples meets the ratio.
\<close>

definition linear_crossing :: "int \<Rightarrow> int \<Rightarrow> float \<Rightarrow> float \<Rightarrow> float \<Rightarrow> float" where
  "linear_crossing i1 i2 half_peak_ratio f1 f2 =
     fsub (float_of_int i2)
       (fdiv (fmul (float_of_int (i2 - i1)) (fsub half_peak_ratio f2)) (fsub f1 f2))"

subsection \<open>A sample correlation\<close>

text \<open>
  The discrete Fourier transform of a \<open>2 \<times> 2\<close> buffer and its inverse without
  normalisation, as the library computes them for subset radius one: every twiddle factor
  is \<open>1\<close> or \<open>-1\<close>, so the spectrum is real. Entry \<open>k\<close> of the spectrum is the signed
  sum of the four samples, the sign of sample \<open>n\<close> being \<open>(-1)\<close> to the number of
  common set bits of \<open>k\<close> and \<open>n\<close>.
\<close>

definition dft_2x2 :: "(int \<Rightarrow> float) \<Rightarrow> int \<Rightarrow> float \<times> float" where
  "dft_2x2 b k =
     (if k = 0 then (fadd (fadd (fadd (b 0) (b 1)) (b 2)) (b 3), Fin 0)
      else if k = 1 then (fsub (fadd (fsub (b 0) (b 1)) (b 2)) (b 3), Fin 0)
      else if k = 2 then (fsub (fsub (fadd (b 0) (b 1)) (b 2)) (b 3), Fin 0)
      else if k = 3 then (fadd (fsub (fsub (b 0) (b 1)) (b 2)) (b 3), Fin 0)
      else (Fin 0, Fin 0))"

definition inverse_dft_2x2 :: "(int \<Rightarrow> float \<times> float) \<Rightarrow> int \<Rightarrow> float" where
  "inverse_dft_2x2 f n = fst (dft_2x2 (\<lambda>k. fst (f k)) n)"

definition sample_FFTW :: "nat \<Rightarrow> FFTW" where
  "sample_FFTW i =
     \<lparr>FFTW.ref_subset = (\<lambda>k. Fin 0), FFTW.tar_subset = (\<lambda>k. Fin 0), FFTW.zncc = (\<lambda>k. Fin 0),
      FFTW.ref_freq = (\<lambda>k. (Fin 0, Fin 0)), FFTW.tar_freq = (\<lambda>k. (Fin 0, Fin 0)),
      FFTW.zncc_freq = (\<lambda>k. (Fin 0, Fin 0)),
      FFTW.ref_plan = dft_2x2, FFTW.tar_plan = dft_2x2, FFTW.zncc_plan = inverse_dft_2x2\<rparr>"

text \<open>
  An image of vertical stripes one pixel wide, grey values 1 and 3, and the estimator
  with subset radius one and two threads whose target is the reference moved by one
  pixel along \<open>x\<close>.
\<close>

definition striped_image :: "int \<Rightarrow> Image2D" where
  "striped_image shift =
     \<lparr>Image2D.width = 256, Image2D.height = 256,
      Image2D.eg_mat = (\<lambda>r c. if even (c - shift) then Fin 1 else Fin 3)\<rparr>"

definition sample_FFTCC2D :: FFTCC2D where
  "sample_FFTCC2D = FFTCC2D_new sample_FFTW 1 1 2 (striped_image 0) (striped_image 1)"

subsection \<open>The subsets and their norms, in the words of the specification\<close>

text \<open>
  The positions of the \<open>2r\<close> by \<open>2r\<close> subset, row by row; the grey value the reference
  has at a position and the one the target has there, moved by the initial guess; the sum
  of a list of values, added from the left as a running sum is; the values minus their
  mean; the sum of their squares.
\<close>

definition subset_points :: "int \<Rightarrow> int \<Rightarrow> (int \<times> int) list" where
  "subset_points radius_x radius_y =
     concat (map (\<lambda>r. map (Pair r) [0..radius_x * 2 - 1]) [0..radius_y * 2 - 1])"

definition ref_pixel :: "FFTCC2D \<Rightarrow> POI2D \<Rightarrow> int \<times> int \<Rightarrow> float" where
  "ref_pixel this poi rc =
     Image2D.eg_mat (FFTCC2D.ref_img this)
       (int_of_float (float_of_int (POI2D.y poi + fst rc - FFTCC2D.subset_radius_y this)))
       (int_of_float (float_of_int (POI2D.x poi + snd rc - FFTCC2D.subset_radius_x this)))"

definition tar_pixel :: "FFTCC2D \<Rightarrow> POI2D \<Rightarrow> int \<times> int \<Rightarrow> float" where
  "tar_pixel this poi rc =
     Image2D.eg_mat (FFTCC2D.tar_img this)
       (int_of_float
          (fadd (float_of_int (POI2D.y poi + fst rc - FFTCC2D.subset_radius_y this))
             (DeformationVector2D.v (POI2D.deformation poi))))
       (int_of_float
          (fadd (float_of_int (POI2D.x poi + snd rc - FFTCC2D.subset_radius_x this))
             (DeformationVector2D.u (POI2D.deformation poi))))"

definition fsum :: "float list \<Rightarrow> float" where
  "fsum as = foldl fadd (Fin 0) as"

definition zero_mean :: "float list \<Rightarrow> float list" where
  "zero_mean as = map (\<lambda>a. fsub a (fdiv (fsum as) (float_of_int (int (length as))))) as"

definition sum_of_squares :: "float list \<Rightarrow> float" where
  "sum_of_squares as = fsum (map (\<lambda>a. fmul a a) as)"

subsection \<open>A sample speckle\<close>

text \<open>
  The transforms of the library for subset radius two. Every twiddle factor of a
  transform of length four is a power of \<open>-i\<close>, so the transform is exact: multiplying
  by \<open>(-i)\<^sup>q\<close> swaps and negates the two parts. The forward transform of the real
  \<open>4 \<times> 4\<close> buffer keeps the columns \<open>0, 1, 2\<close> of the spectrum, entry \<open>k\<close> being row
  \<open>k div 3\<close> and column \<open>k mod 3\<close>. The inverse transform takes that half, the column
  \<open>3\<close> being the conjugate of column \<open>1\<close> in the mirrored row, and does not normalise.
\<close>

definition cadd :: "float \<times> float \<Rightarrow> float \<times> float \<Rightarrow> float \<times> float" where
  "cadd a b = (fadd (fst a) (fst b), fadd (snd a) (snd b))"

definition quarter_turns :: "int \<Rightarrow> float \<times> float \<Rightarrow> float \<times> float" where
  "quarter_turns q a =
     (if q mod 4 = 0 then a
      else if q mod 4 = 1 then (snd a, fneg (fst a))
      else if q mod 4 = 2 then (fneg (fst a), fneg (snd a))
      else (fneg (snd a), fst a))"

definition dft_4x4 :: "(int \<Rightarrow> float) \<Rightarrow> int \<Rightarrow> float \<times> float" where
  "dft_4x4 b k =
     fold (\<lambda>n s. cadd s (quarter_turns ((k div 3) * (n div 4) + (k mod 3) * (n mod 4)) (b n, Fin 0)))
       [0..15] (Fin 0, Fin 0)"

definition half_spectrum :: "(int \<Rightarrow> float \<times> float) \<Rightarrow> int \<Rightarrow> int \<Rightarrow> float \<times> float" where
  "half_spectrum f k1 k2 =
     (if k2 \<le> 2 then f (k1 * 3 + k2)
      else (fst (f ((4 - k1) mod 4 * 3 + 1)), fneg (snd (f ((4 - k1) mod 4 * 3 + 1)))))"

definition inverse_dft_4x4 :: "(int \<Rightarrow> float \<times> float) \<Rightarrow> int \<Rightarrow> float" where
  "inverse_dft_4x4 f n =
     fst (fold (\<lambda>j s. cadd s (quarter_turns (- ((j div 4) * (n div 4) + (j mod 4) * (n mod 4)))
                               (half_spectrum f (j div 4) (j mod 4))))
            [0..15] (Fin 0, Fin 0))"

definition sample_FFTW4 :: "nat \<Rightarrow> FFTW" where
  "sample_FFTW4 i =
     \<lparr>FFTW.ref_subset = (\<lambda>k. Fin 0), FFTW.tar_subset = (\<lambda>k. Fin 0), FFTW.zncc = (\<lambda>k. Fin 0),
      FFTW.ref_freq = (\<lambda>k. (Fin 0, Fin 0)), FFTW.tar_freq = (\<lambda>k. (Fin 0, Fin 0)),
      FFTW.zncc_freq = (\<lambda>k. (Fin 0, Fin 0)),
      FFTW.ref_plan = dft_4x4, FFTW.tar_plan = dft_4x4, FFTW.zncc_plan = inverse_dft_4x4\<rparr>"

text \<open>
  An image of period four along both axes with the grey values \<open>1 + g r * g c\<close>, where
  \<open>g\<close> is \<open>1, 0, 0, -1\<close>, and the estimator with subset radius two and one thread on it.
  The subset centred at \<open>(6, 6)\<close> is the rows \<open>2 1 1 0\<close>, \<open>1 1 1 1\<close>, \<open>1 1 1 1\<close>,
  \<open>0 1 1 2\<close>.
\<close>

definition speckle_profile :: "int \<Rightarrow> real" where
  "speckle_profile i = (if i mod 4 = 0 then 1 else if i mod 4 = 3 then - 1 else 0)"

definition speckle_image :: Image2D where
  "speckle_image =
     \<lparr>Image2D.width = 256, Image2D.height = 256,
      Image2D.eg_mat = (\<lambda>r c. Fin (1 + speckle_profile r * speckle_profile c))\<rparr>"

definition sample_speckle :: FFTCC2D where
  "sample_speckle = FFTCC2D_new sample_FFTW4 2 2 1 speckle_image speckle_image"

section \<open>Theorems\<close>

lemma fill_pool_eq:
  "0 \<le> i \<Longrightarrow>
   fill_pool allocate n i pool = pool @ map allocate [nat i..<nat n]"
proof (induction allocate n i pool rule: fill_pool.induct)
  case (1 allocate n i pool)
  show ?case
  proof (cases "i < n")
    case True
    then have "[nat i..<nat n] = nat i # [nat (i + 1)..<nat n]"
      using "1.prems" by (simp add: upt_conv_Cons nat_add_distrib)
    then show ?thesis
      using True "1.IH" "1.prems" by (simp add: fill_pool.simps [of _ n i])
  next
    case False
    then show ?thesis using "1.prems" by (simp add: fill_pool.simps [of _ n i])
  qed
qed

subsection \<open>Integers that stay in range\<close>

lemma int32_id: "- 2147483648 \<le> i \<Longrightarrow> i \<le> 2147483647 \<Longrightarrow> int32 i = i"
  by (simp add: int32_def)


subsection \<open>The norm on finite increments\<close>




subsection \<open>The loop runs until its test fails\<close>

lemma icgn_do_while_step:
  "pass p = (q, d, zn) \<Longrightarrow> int32 (i + 1) = j \<Longrightarrow>
   icgn_do_while pass stop c i p =
     (if flt (float_of_int j) stop \<and> fge d c then icgn_do_while pass stop c j q
      else Some (j, q, d, zn))"
  by (subst icgn_do_while.simps) simp

lemma icgn_do_while_from:
  assumes s: "s \<le> 2147483647"
  shows "int i < \<lceil>s\<rceil> \<Longrightarrow>
     \<exists>n. i < n \<and> int n \<le> \<lceil>s\<rceil>
       \<and> icgn_do_while pass (Fin s) c (int i) (after_passes pass p i) = Some (int n, nth_pass pass p n)
       \<and> \<not> continues pass (Fin s) c p n
       \<and> (\<forall>k. i < k \<and> k < n \<longrightarrow> continues pass (Fin s) c p k)"
proof (induction "nat \<lceil>s\<rceil> - i" arbitrary: i rule: less_induct)
  case less
  obtain q d zn where pq: "pass (after_passes pass p i) = (q, d, zn)"
    by (cases "pass (after_passes pass p i)") auto
  have nth: "nth_pass pass p (Suc i) = (q, d, zn)"
    by (simp add: nth_pass_def pq)
  have aft: "after_passes pass p (Suc i) = q"
    by (simp add: after_passes_def pq [unfolded after_passes_def])
  have top: "\<lceil>s\<rceil> \<le> 2147483647" using s by (simp add: ceiling_le_iff)
  with less.prems have "int i + 1 \<le> 2147483647" by linarith
  then have "int32 (int i + 1) = int i + 1"
    by (intro int32_id) auto
  then have wrap: "int32 (int i + 1) = int (Suc i)" by simp
  have unfold: "icgn_do_while pass (Fin s) c (int i) (after_passes pass p i) =
     (if flt (float_of_int (int (Suc i))) (Fin s) \<and> fge d c
      then icgn_do_while pass (Fin s) c (int (Suc i)) q
      else Some (int (Suc i), q, d, zn))"
    using pq wrap by (rule icgn_do_while_step)
  have conv: "continues pass (Fin s) c p (Suc i) = (flt (float_of_int (int (Suc i))) (Fin s) \<and> fge d c)"
    by (simp add: continues_def nth)
  show ?case
  proof (cases "continues pass (Fin s) c p (Suc i)")
    case True
    then have lt: "real_of_int (int (Suc i)) < s"
      by (simp add: conv float_of_int_def)
    then have lt': "int (Suc i) < \<lceil>s\<rceil>" by (simp only: less_ceiling_iff)
    have "nat \<lceil>s\<rceil> - Suc i < nat \<lceil>s\<rceil> - i" using less.prems by linarith
    from less.hyps [OF this lt'] obtain n where n: "Suc i < n" "int n \<le> \<lceil>s\<rceil>"
      "icgn_do_while pass (Fin s) c (int (Suc i)) (after_passes pass p (Suc i)) = Some (int n, nth_pass pass p n)"
      "\<not> continues pass (Fin s) c p n"
      "\<forall>k. Suc i < k \<and> k < n \<longrightarrow> continues pass (Fin s) c p k"
      by blast
    have step: "icgn_do_while pass (Fin s) c (int i) (after_passes pass p i)
        = icgn_do_while pass (Fin s) c (int (Suc i)) (after_passes pass p (Suc i))"
      using True unfolding unfold conv aft by simp
    have "\<forall>k. i < k \<and> k < n \<longrightarrow> continues pass (Fin s) c p k"
    proof (intro allI impI)
      fix k assume "i < k \<and> k < n"
      then consider "k = Suc i" | "Suc i < k \<and> k < n" by linarith
      then show "continues pass (Fin s) c p k"
        using True n(5) by cases auto
    qed
    with n step show ?thesis by (intro exI [of _ n]) auto
  next
    case False
    then have "icgn_do_while pass (Fin s) c (int i) (after_passes pass p i) = Some (int (Suc i), nth_pass pass p (Suc i))"
      unfolding unfold conv nth by auto
    with False less.prems show ?thesis by (intro exI [of _ "Suc i"]) auto
  qed
qed

subsection \<open>The test before the iteration\<close>

lemma subset_inside_2D_iff:
  assumes "0 \<le> rx" "0 \<le> ry"
  shows "subset_inside_2D img rx ry poi \<longleftrightarrow>
     \<not> (POI2D.y poi - ry < 0 \<or> POI2D.x poi - rx < 0
        \<or> POI2D.y poi + ry > Image2D.height img - 1 \<or> POI2D.x poi + rx > Image2D.width img - 1)"
proof
  assume inside: "subset_inside_2D img rx ry poi"
  have i1: "POI2D.x poi - rx \<in> {POI2D.x poi - rx .. POI2D.x poi + rx}"
    and i2: "POI2D.x poi + rx \<in> {POI2D.x poi - rx .. POI2D.x poi + rx}"
    and j1: "POI2D.y poi - ry \<in> {POI2D.y poi - ry .. POI2D.y poi + ry}"
    and j2: "POI2D.y poi + ry \<in> {POI2D.y poi - ry .. POI2D.y poi + ry}"
    using assms by auto
  from inside i1 j1 have "0 \<le> POI2D.x poi - rx \<and> 0 \<le> POI2D.y poi - ry"
    unfolding subset_inside_2D_def by blast
  moreover from inside i2 j2 have "POI2D.x poi + rx < Image2D.width img \<and> POI2D.y poi + ry < Image2D.height img"
    unfolding subset_inside_2D_def by blast
  ultimately show "\<not> (POI2D.y poi - ry < 0 \<or> POI2D.x poi - rx < 0
        \<or> POI2D.y poi + ry > Image2D.height img - 1 \<or> POI2D.x poi + rx > Image2D.width img - 1)"
    by linarith
next
  assume "\<not> (POI2D.y poi - ry < 0 \<or> POI2D.x poi - rx < 0
        \<or> POI2D.y poi + ry > Image2D.height img - 1 \<or> POI2D.x poi + rx > Image2D.width img - 1)"
  then show "subset_inside_2D img rx ry poi"
    unfolding subset_inside_2D_def by auto
qed

lemma subset_inside_3D_iff:
  assumes "0 \<le> rx" "0 \<le> ry" "0 \<le> rz"
  shows "subset_inside_3D img rx ry rz poi \<longleftrightarrow>
     \<not> (POI3D.x poi - rx < 0 \<or> POI3D.y poi - ry < 0 \<or> POI3D.z poi - rz < 0
        \<or> POI3D.x poi + rx > Image3D.dim_x img - 1 \<or> POI3D.y poi + ry > Image3D.dim_y img - 1
        \<or> POI3D.z poi + rz > Image3D.dim_z img - 1)"
proof
  assume inside: "subset_inside_3D img rx ry rz poi"
  have i1: "POI3D.x poi - rx \<in> {POI3D.x poi - rx .. POI3D.x poi + rx}"
    and i2: "POI3D.x poi + rx \<in> {POI3D.x poi - rx .. POI3D.x poi + rx}"
    and j1: "POI3D.y poi - ry \<in> {POI3D.y poi - ry .. POI3D.y poi + ry}"
    and j2: "POI3D.y poi + ry \<in> {POI3D.y poi - ry .. POI3D.y poi + ry}"
    and k1: "POI3D.z poi - rz \<in> {POI3D.z poi - rz .. POI3D.z poi + rz}"
    and k2: "POI3D.z poi + rz \<in> {POI3D.z poi - rz .. POI3D.z poi + rz}"
    using assms by auto
  from inside i1 j1 k1 have "0 \<le> POI3D.x poi - rx \<and> 0 \<le> POI3D.y poi - ry \<and> 0 \<le> POI3D.z poi - rz"
    unfolding subset_inside_3D_def by blast
  moreover from inside i2 j2 k2 have "POI3D.x poi + rx < Image3D.dim_x img
      \<and> POI3D.y poi + ry < Image3D.dim_y img \<and> POI3D.z poi + rz < Image3D.dim_z img"
    unfolding subset_inside_3D_def by blast
  ultimately show "\<not> (POI3D.x poi - rx < 0 \<or> POI3D.y poi - ry < 0 \<or> POI3D.z poi - rz < 0
        \<or> POI3D.x poi + rx > Image3D.dim_x img - 1 \<or> POI3D.y poi + ry > Image3D.dim_y img - 1
        \<or> POI3D.z poi + rz > Image3D.dim_z img - 1)"
    by linarith
next
  assume "\<not> (POI3D.x poi - rx < 0 \<or> POI3D.y poi - ry < 0 \<or> POI3D.z poi - rz < 0
        \<or> POI3D.x poi + rx > Image3D.dim_x img - 1 \<or> POI3D.y poi + ry > Image3D.dim_y img - 1
        \<or> POI3D.z poi + rz > Image3D.dim_z img - 1)"
  then show "subset_inside_3D img rx ry rz poi"
    unfolding subset_inside_3D_def by auto
qed

lemma ICGN2D1_compute_Rejected_iff:
  assumes "getInstance (ICGN2D1.instance_pool this) tid = Inr inst"
  shows "(\<exists>q. ICGN2D1_compute this pass tid poi = Some (Rejected q)) \<longleftrightarrow>
     (POI2D.y poi - ICGN2D1.subset_radius_y this < 0
      \<or> POI2D.x poi - ICGN2D1.subset_radius_x this < 0
      \<or> POI2D.y poi + ICGN2D1.subset_radius_y this > Image2D.height (ICGN2D1.ref_img this) - 1
      \<or> POI2D.x poi + ICGN2D1.subset_radius_x this > Image2D.width (ICGN2D1.ref_img this) - 1
      \<or> isnan (DeformationVector2D.u (POI2D.deformation poi))
      \<or> isnan (DeformationVector2D.v (POI2D.deformation poi)))"
  unfolding ICGN2D1_compute_def using assms
  by (simp add: Let_def split: option.split)

lemma ICGN2D2_compute_Rejected_iff:
  assumes "getInstance (ICGN2D2.instance_pool this) tid = Inr inst"
  shows "(\<exists>q. ICGN2D2_compute this lift pass tid poi = Some (Rejected q)) \<longleftrightarrow>
     (POI2D.y poi - ICGN2D2.subset_radius_y this < 0
      \<or> POI2D.x poi - ICGN2D2.subset_radius_x this < 0
      \<or> POI2D.y poi + ICGN2D2.subset_radius_y this > Image2D.height (ICGN2D2.ref_img this) - 1
      \<or> POI2D.x poi + ICGN2D2.subset_radius_x this > Image2D.width (ICGN2D2.ref_img this) - 1
      \<or> isnan (DeformationVector2D.u (POI2D.deformation poi))
      \<or> isnan (DeformationVector2D.v (POI2D.deformation poi)))"
  unfolding ICGN2D2_compute_def using assms
  by (simp add: Let_def split: option.split)

lemma ICGN3D1_compute_Rejected_iff:
  assumes "getInstance (ICGN3D1.instance_pool this) tid = Inr inst"
  shows "(\<exists>q. ICGN3D1_compute this pass tid poi = Some (Rejected q)) \<longleftrightarrow>
     (POI3D.x poi - ICGN3D1.subset_radius_x this < 0
      \<or> POI3D.y poi - ICGN3D1.subset_radius_y this < 0
      \<or> POI3D.z poi - ICGN3D1.subset_radius_z this < 0
      \<or> POI3D.x poi + ICGN3D1.subset_radius_x this > Image3D.dim_x (ICGN3D1.ref_img this) - 1
      \<or> POI3D.y poi + ICGN3D1.subset_radius_y this > Image3D.dim_y (ICGN3D1.ref_img this) - 1
      \<or> POI3D.z poi + ICGN3D1.subset_radius_z this > Image3D.dim_z (ICGN3D1.ref_img this) - 1)"
  unfolding ICGN3D1_compute_def using assms
  by (simp add: Let_def split: option.split)

lemma ICGN2D1_compute_Rejected_eq:
  "ICGN2D1_compute this pass tid poi = Some (Rejected q) \<Longrightarrow> q = reject2D poi"
  unfolding ICGN2D1_compute_def
  by (auto simp add: Let_def split: sum.splits if_splits option.splits)

lemma ICGN2D2_compute_Rejected_eq:
  "ICGN2D2_compute this lift pass tid poi = Some (Rejected q) \<Longrightarrow> q = reject2D poi"
  unfolding ICGN2D2_compute_def
  by (auto simp add: Let_def split: sum.splits if_splits option.splits)

lemma ICGN3D1_compute_Rejected_eq:
  "ICGN3D1_compute this pass tid poi = Some (Rejected q) \<Longrightarrow> q = reject3D poi"
  unfolding ICGN3D1_compute_def
  by (auto simp add: Let_def split: sum.splits if_splits option.splits)

subsection \<open>The sample estimators\<close>

lemma sample_pool_2D1: "ICGN2D1.instance_pool (sample_ICGN2D1 r) = [0, 1]"
  by (simp add: sample_ICGN2D1_def ICGN2D1_new_def fill_pool_eq upt_rec)
lemma sample_pool_2D2: "ICGN2D2.instance_pool (sample_ICGN2D2 r) = [0, 1]"
  by (simp add: sample_ICGN2D2_def ICGN2D2_new_def fill_pool_eq upt_rec)
lemma sample_pool_3D1: "ICGN3D1.instance_pool (sample_ICGN3D1 r) = [0, 1]"
  by (simp add: sample_ICGN3D1_def ICGN3D1_new_def fill_pool_eq upt_rec)

lemma sample_rejected_2D1:
  "ICGN2D1_compute (sample_ICGN2D1 16) (still_2D1 (Fin 0)) 0 (poi_2D 5 128 (guess_2D (Fin 1) (Fin 2) (Fin 3)))
     = Some (Rejected (reject2D (poi_2D 5 128 (guess_2D (Fin 1) (Fin 2) (Fin 3)))))"
  by (simp add: ICGN2D1_compute_def getInstance_def sample_pool_2D1)
    (simp add: sample_ICGN2D1_def ICGN2D1_new_def poi_2D_def)

lemma sample_rejected_2D2:
  "ICGN2D2_compute (sample_ICGN2D2 16) lift_2D2 still_2D2 0 (poi_2D 128 128 (guess_2D NaN (Fin 2) (Fin 3)))
     = Some (Rejected (reject2D (poi_2D 128 128 (guess_2D NaN (Fin 2) (Fin 3)))))"
  by (simp add: ICGN2D2_compute_def getInstance_def sample_pool_2D2)
    (simp add: sample_ICGN2D2_def ICGN2D2_new_def poi_2D_def guess_2D_def isnan_def)

lemma sample_rejected_3D1:
  "ICGN3D1_compute (sample_ICGN3D1 8) still_3D1 1 (poi_3D 32 32 60 (guess_3D (Fin 1)))
     = Some (Rejected (reject3D (poi_3D 32 32 60 (guess_3D (Fin 1)))))"
  by (simp add: ICGN3D1_compute_def getInstance_def sample_pool_3D1)
    (simp add: sample_ICGN3D1_def ICGN3D1_new_def poi_3D_def cube_def)

section \<open>Claims\<close>

subsection \<open>C3: a rejection writes the ZNCC and nothing else\<close>

text \<open>
  Claim C3. Whenever one of the three ICGN \<^verbatim>\<open>compute\<close> functions rejects a point of
  interest, the point of interest it leaves is the one it was given with
  \<^verbatim>\<open>result.zncc\<close> set to \<open>-1\<close>: the coordinates, the whole deformation vector and
  the result fields \<^verbatim>\<open>u0\<close>, \<^verbatim>\<open>v0\<close> (\<^verbatim>\<open>w0\<close>), \<^verbatim>\<open>iteration\<close> and
  \<^verbatim>\<open>convergence\<close> are as before the call.
\<close>

theorem icgn_rejection_touches_only_zncc:
  "(ICGN2D1_compute e1 pass1 tid1 poi1 = Some (Rejected q1) \<longrightarrow>
      q1 = poi1\<lparr>POI2D.result := (POI2D.result poi1)\<lparr>Result2D.zncc := Fin (- 1)\<rparr>\<rparr>
      \<and> POI2D.x q1 = POI2D.x poi1 \<and> POI2D.y q1 = POI2D.y poi1
      \<and> POI2D.deformation q1 = POI2D.deformation poi1
      \<and> Result2D.u0 (POI2D.result q1) = Result2D.u0 (POI2D.result poi1)
      \<and> Result2D.v0 (POI2D.result q1) = Result2D.v0 (POI2D.result poi1)
      \<and> Result2D.iteration (POI2D.result q1) = Result2D.iteration (POI2D.result poi1)
      \<and> Result2D.convergence (POI2D.result q1) = Result2D.convergence (POI2D.result poi1)
      \<and> Result2D.zncc (POI2D.result q1) = Fin (- 1))
   \<and> (ICGN2D2_compute e2 lift pass2 tid2 poi2 = Some (Rejected q2) \<longrightarrow>
      q2 = poi2\<lparr>POI2D.result := (POI2D.result poi2)\<lparr>Result2D.zncc := Fin (- 1)\<rparr>\<rparr>
      \<and> POI2D.x q2 = POI2D.x poi2 \<and> POI2D.y q2 = POI2D.y poi2
      \<and> POI2D.deformation q2 = POI2D.deformation poi2
      \<and> Result2D.u0 (POI2D.result q2) = Result2D.u0 (POI2D.result poi2)
      \<and> Result2D.v0 (POI2D.result q2) = Result2D.v0 (POI2D.result poi2)
      \<and> Result2D.iteration (POI2D.result q2) = Result2D.iteration (POI2D.result poi2)
      \<and> Result2D.convergence (POI2D.result q2) = Result2D.convergence (POI2D.result poi2)
      \<and> Result2D.zncc (POI2D.result q2) = Fin (- 1))
   \<and> (ICGN3D1_compute e3 pass3 tid3 poi3 = Some (Rejected q3) \<longrightarrow>
      q3 = poi3\<lparr>POI3D.result := (POI3D.result poi3)\<lparr>Result3D.zncc := Fin (- 1)\<rparr>\<rparr>
      \<and> POI3D.x q3 = POI3D.x poi3 \<and> POI3D.y q3 = POI3D.y poi3 \<and> POI3D.z q3 = POI3D.z poi3
      \<and> POI3D.deformation q3 = POI3D.deformation poi3
      \<and> Result3D.u0 (POI3D.result q3) = Result3D.u0 (POI3D.result poi3)
      \<and> Result3D.v0 (POI3D.result q3) = Result3D.v0 (POI3D.result poi3)
      \<and> Result3D.w0 (POI3D.result q3) = Result3D.w0 (POI3D.result poi3)
      \<and> Result3D.iteration (POI3D.result q3) = Result3D.iteration (POI3D.result poi3)
      \<and> Result3D.convergence (POI3D.result q3) = Result3D.convergence (POI3D.result poi3)
      \<and> Result3D.zncc (POI3D.result q3) = Fin (- 1))"
proof (intro conjI impI)
  assume "ICGN2D1_compute e1 pass1 tid1 poi1 = Some (Rejected q1)"
  then have q: "q1 = reject2D poi1" by (rule ICGN2D1_compute_Rejected_eq)
  show "q1 = poi1\<lparr>POI2D.result := (POI2D.result poi1)\<lparr>Result2D.zncc := Fin (- 1)\<rparr>\<rparr>"
    "POI2D.x q1 = POI2D.x poi1" "POI2D.y q1 = POI2D.y poi1"
    "POI2D.deformation q1 = POI2D.deformation poi1"
    "Result2D.u0 (POI2D.result q1) = Result2D.u0 (POI2D.result poi1)"
    "Result2D.v0 (POI2D.result q1) = Result2D.v0 (POI2D.result poi1)"
    "Result2D.iteration (POI2D.result q1) = Result2D.iteration (POI2D.result poi1)"
    "Result2D.convergence (POI2D.result q1) = Result2D.convergence (POI2D.result poi1)"
    "Result2D.zncc (POI2D.result q1) = Fin (- 1)"
    by (simp_all add: q reject2D_def float_of_int_def)
next
  assume "ICGN2D2_compute e2 lift pass2 tid2 poi2 = Some (Rejected q2)"
  then have q: "q2 = reject2D poi2" by (rule ICGN2D2_compute_Rejected_eq)
  show "q2 = poi2\<lparr>POI2D.result := (POI2D.result poi2)\<lparr>Result2D.zncc := Fin (- 1)\<rparr>\<rparr>"
    "POI2D.x q2 = POI2D.x poi2" "POI2D.y q2 = POI2D.y poi2"
    "POI2D.deformation q2 = POI2D.deformation poi2"
    "Result2D.u0 (POI2D.result q2) = Result2D.u0 (POI2D.result poi2)"
    "Result2D.v0 (POI2D.result q2) = Result2D.v0 (POI2D.result poi2)"
    "Result2D.iteration (POI2D.result q2) = Result2D.iteration (POI2D.result poi2)"
    "Result2D.convergence (POI2D.result q2) = Result2D.convergence (POI2D.result poi2)"
    "Result2D.zncc (POI2D.result q2) = Fin (- 1)"
    by (simp_all add: q reject2D_def float_of_int_def)
next
  assume "ICGN3D1_compute e3 pass3 tid3 poi3 = Some (Rejected q3)"
  then have q: "q3 = reject3D poi3" by (rule ICGN3D1_compute_Rejected_eq)
  show "q3 = poi3\<lparr>POI3D.result := (POI3D.result poi3)\<lparr>Result3D.zncc := Fin (- 1)\<rparr>\<rparr>"
    "POI3D.x q3 = POI3D.x poi3" "POI3D.y q3 = POI3D.y poi3" "POI3D.z q3 = POI3D.z poi3"
    "POI3D.deformation q3 = POI3D.deformation poi3"
    "Result3D.u0 (POI3D.result q3) = Result3D.u0 (POI3D.result poi3)"
    "Result3D.v0 (POI3D.result q3) = Result3D.v0 (POI3D.result poi3)"
    "Result3D.w0 (POI3D.result q3) = Result3D.w0 (POI3D.result poi3)"
    "Result3D.iteration (POI3D.result q3) = Result3D.iteration (POI3D.result poi3)"
    "Result3D.convergence (POI3D.result q3) = Result3D.convergence (POI3D.result poi3)"
    "Result3D.zncc (POI3D.result q3) = Fin (- 1)"
    by (simp_all add: q reject3D_def float_of_int_def)
qed

text \<open>
  The scenario of the specification, a point of interest five pixels from the edge with
  subset radius 16, then a NaN guess for the order-2 estimator and a point of interest
  four voxels from the far face of the volume.
\<close>

theorem icgn_rejection_touches_only_zncc_witness:
  "ICGN2D1_compute (sample_ICGN2D1 16) (still_2D1 (Fin 0)) 0 (poi_2D 5 128 (guess_2D (Fin 1) (Fin 2) (Fin 3)))
     = Some (Rejected (reject2D (poi_2D 5 128 (guess_2D (Fin 1) (Fin 2) (Fin 3)))))
   \<and> POI2D.deformation (reject2D (poi_2D 5 128 (guess_2D (Fin 1) (Fin 2) (Fin 3))))
       = POI2D.deformation (poi_2D 5 128 (guess_2D (Fin 1) (Fin 2) (Fin 3)))
   \<and> Result2D.zncc (POI2D.result (reject2D (poi_2D 5 128 (guess_2D (Fin 1) (Fin 2) (Fin 3))))) = Fin (- 1)
   \<and> ICGN2D2_compute (sample_ICGN2D2 16) lift_2D2 still_2D2 0 (poi_2D 128 128 (guess_2D NaN (Fin 2) (Fin 3)))
     = Some (Rejected (reject2D (poi_2D 128 128 (guess_2D NaN (Fin 2) (Fin 3)))))
   \<and> POI2D.deformation (reject2D (poi_2D 128 128 (guess_2D NaN (Fin 2) (Fin 3))))
       = POI2D.deformation (poi_2D 128 128 (guess_2D NaN (Fin 2) (Fin 3)))
   \<and> ICGN3D1_compute (sample_ICGN3D1 8) still_3D1 1 (poi_3D 32 32 60 (guess_3D (Fin 1)))
     = Some (Rejected (reject3D (poi_3D 32 32 60 (guess_3D (Fin 1)))))
   \<and> POI3D.deformation (reject3D (poi_3D 32 32 60 (guess_3D (Fin 1))))
       = POI3D.deformation (poi_3D 32 32 60 (guess_3D (Fin 1)))
   \<and> Result3D.zncc (POI3D.result (reject3D (poi_3D 32 32 60 (guess_3D (Fin 1))))) = Fin (- 1)"
  using icgn_rejection_touches_only_zncc
    [of "sample_ICGN2D1 16" "still_2D1 (Fin 0)" 0 "poi_2D 5 128 (guess_2D (Fin 1) (Fin 2) (Fin 3))"
        "reject2D (poi_2D 5 128 (guess_2D (Fin 1) (Fin 2) (Fin 3)))"
        "sample_ICGN2D2 16" lift_2D2 still_2D2 0 "poi_2D 128 128 (guess_2D NaN (Fin 2) (Fin 3))"
        "reject2D (poi_2D 128 128 (guess_2D NaN (Fin 2) (Fin 3)))"
        "sample_ICGN3D1 8" still_3D1 1 "poi_3D 32 32 60 (guess_3D (Fin 1))"
        "reject3D (poi_3D 32 32 60 (guess_3D (Fin 1)))"]
    sample_rejected_2D1 sample_rejected_2D2 sample_rejected_3D1
  by blast

subsection \<open>C1: when a point of interest is rejected\<close>

lemma sample_fields_2D1:
  "ICGN2D1.subset_radius_x (sample_ICGN2D1 r) = r" "ICGN2D1.subset_radius_y (sample_ICGN2D1 r) = r"
  "ICGN2D1.ref_img (sample_ICGN2D1 r) = flat_image 256 256"
  "ICGN2D1.stop_condition (sample_ICGN2D1 r) = Fin 10"
  "ICGN2D1.conv_criterion (sample_ICGN2D1 r) = Fin (1 / 1000)"
  by (simp_all add: sample_ICGN2D1_def ICGN2D1_new_def)

lemma sample_fields_2D2:
  "ICGN2D2.subset_radius_x (sample_ICGN2D2 r) = r" "ICGN2D2.subset_radius_y (sample_ICGN2D2 r) = r"
  "ICGN2D2.ref_img (sample_ICGN2D2 r) = flat_image 256 256"
  "ICGN2D2.stop_condition (sample_ICGN2D2 r) = Fin 10"
  "ICGN2D2.conv_criterion (sample_ICGN2D2 r) = Fin (1 / 1000)"
  by (simp_all add: sample_ICGN2D2_def ICGN2D2_new_def)

lemma sample_fields_3D1:
  "ICGN3D1.subset_radius_x (sample_ICGN3D1 r) = r" "ICGN3D1.subset_radius_y (sample_ICGN3D1 r) = r"
  "ICGN3D1.subset_radius_z (sample_ICGN3D1 r) = r"
  "ICGN3D1.ref_img (sample_ICGN3D1 r) = cube 64"
  "ICGN3D1.stop_condition (sample_ICGN3D1 r) = Fin 10"
  "ICGN3D1.conv_criterion (sample_ICGN3D1 r) = Fin (1 / 1000)"
  by (simp_all add: sample_ICGN3D1_def ICGN3D1_new_def)

lemma sample_getInstance:
  "getInstance (ICGN2D1.instance_pool (sample_ICGN2D1 r)) 0 = Inr 0"
  "getInstance (ICGN2D2.instance_pool (sample_ICGN2D2 r)) 0 = Inr 0"
  "getInstance (ICGN3D1.instance_pool (sample_ICGN3D1 r)) 1 = Inr 1"
  by (simp_all add: getInstance_def sample_pool_2D1 sample_pool_2D2 sample_pool_3D1)

lemma ICGN2D1_compute_Rejected_reject:
  "(\<exists>q. ICGN2D1_compute this pass tid poi = Some (Rejected q)) \<longleftrightarrow>
   ICGN2D1_compute this pass tid poi = Some (Rejected (reject2D poi))"
  using ICGN2D1_compute_Rejected_eq by blast

lemma ICGN2D2_compute_Rejected_reject:
  "(\<exists>q. ICGN2D2_compute this lift pass tid poi = Some (Rejected q)) \<longleftrightarrow>
   ICGN2D2_compute this lift pass tid poi = Some (Rejected (reject2D poi))"
  using ICGN2D2_compute_Rejected_eq by blast

lemma ICGN3D1_compute_Rejected_reject:
  "(\<exists>q. ICGN3D1_compute this pass tid poi = Some (Rejected q)) \<longleftrightarrow>
   ICGN3D1_compute this pass tid poi = Some (Rejected (reject3D poi))"
  using ICGN3D1_compute_Rejected_eq by blast

lemma sample_inside_2D:
  "subset_inside_2D (flat_image 256 256) 16 16 (poi_2D 128 128 d)"
  "\<not> subset_inside_2D (flat_image 256 256) 16 16 (poi_2D 5 128 d)"
  by (simp_all add: subset_inside_2D_iff flat_image_def poi_2D_def)

lemma sample_inside_3D:
  "subset_inside_3D (cube 64) 8 8 8 (poi_3D 32 32 32 d)"
  "\<not> subset_inside_3D (cube 64) 8 8 8 (poi_3D 32 32 60 d)"
  by (simp_all add: subset_inside_3D_iff cube_def poi_3D_def)

lemma still_2D1_once:
  assumes "\<not> fge (ICGN2D1_dp_norm (ICGN2D1.subset_radius_x this) (ICGN2D1.subset_radius_y this)
      \<lparr>Deformation2D1.u = a, Deformation2D1.ux = Fin 0, Deformation2D1.uy = Fin 0,
          Deformation2D1.v = Fin 0, Deformation2D1.vx = Fin 0, Deformation2D1.vy = Fin 0\<rparr>) criterion"
  shows "icgn_do_while (ICGN2D1_body this (still_2D1 a) inst poi) stop criterion 0 p
     = Some (1, p, ICGN2D1_dp_norm (ICGN2D1.subset_radius_x this) (ICGN2D1.subset_radius_y this)
      \<lparr>Deformation2D1.u = a, Deformation2D1.ux = Fin 0, Deformation2D1.uy = Fin 0,
          Deformation2D1.v = Fin 0, Deformation2D1.vx = Fin 0, Deformation2D1.vy = Fin 0\<rparr>, Fin 0)"
  using assms
  by (subst icgn_do_while.simps) (simp add: ICGN2D1_body_def still_2D1_def int32_def)

lemma sample_dp_norm:
  "ICGN2D1_dp_norm 16 16
      \<lparr>Deformation2D1.u = Fin 0, Deformation2D1.ux = Fin 0, Deformation2D1.uy = Fin 0,
          Deformation2D1.v = Fin 0, Deformation2D1.vx = Fin 0, Deformation2D1.vy = Fin 0\<rparr> = Fin 0"
  "ICGN2D1_dp_norm 16 16
      \<lparr>Deformation2D1.u = NaN, Deformation2D1.ux = Fin 0, Deformation2D1.uy = Fin 0,
          Deformation2D1.v = Fin 0, Deformation2D1.vx = Fin 0, Deformation2D1.vy = Fin 0\<rparr> = NaN"
  by (simp_all add: ICGN2D1_dp_norm_def Let_def float_of_int_def int32_def)

lemma sample_computed_2D1:
  assumes "a = Fin 0 \<or> a = NaN" 
    and "\<not> isnan (DeformationVector2D.u d)" and "\<not> isnan (DeformationVector2D.v d)"
  shows "ICGN2D1_compute (sample_ICGN2D1 16) (still_2D1 a) 0 (poi_2D 128 128 d)
     = Some (Computed (ICGN2D1_store (poi_2D 128 128 d) (initial_guess_2D (poi_2D 128 128 d))
          (1, initial_guess_2D (poi_2D 128 128 d), a, Fin 0)))"
proof -
  have once: "icgn_do_while (ICGN2D1_body (sample_ICGN2D1 16) (still_2D1 a) 0 (poi_2D 128 128 d))
      (Fin 10) (Fin (1 / 1000)) 0 (initial_guess_2D (poi_2D 128 128 d))
     = Some (1, initial_guess_2D (poi_2D 128 128 d), a, Fin 0)"
    using assms(1)
    by (subst still_2D1_once)
      (auto simp add: sample_fields_2D1 sample_dp_norm fge_def fle_def isnan_def)
  have inside: "\<not> (POI2D.y (poi_2D 128 128 d) - 16 < 0 \<or> POI2D.x (poi_2D 128 128 d) - 16 < 0
     \<or> POI2D.y (poi_2D 128 128 d) + 16 > Image2D.height (flat_image 256 256) - 1
     \<or> POI2D.x (poi_2D 128 128 d) + 16 > Image2D.width (flat_image 256 256) - 1)"
    by (simp add: poi_2D_def flat_image_def)
  have dd: "POI2D.deformation (poi_2D 128 128 d) = d" by (simp add: poi_2D_def)
  show ?thesis
    unfolding ICGN2D1_compute_def
    using inside assms(2,3)
    by (simp add: sample_getInstance sample_fields_2D1 once dd Let_def)
qed

text \<open>
  Claim C1, as the code has it. With a scratch instance for the thread and subset radii
  that are not negative, the order-1 and the order-2 estimator of the plane reject a
  point of interest (leave it with \<^verbatim>\<open>result.zncc = -1\<close>, having made no pass of the
  iteration) exactly when its subset does not lie in the reference image or the
  component \<^verbatim>\<open>u\<close> or the component \<^verbatim>\<open>v\<close> of its deformation vector is a NaN.
  The estimator of the volume rejects every point of interest whose subset does not lie
  in the reference volume, and none whose subset lies in it and whose deformation vector
  holds no NaN.
\<close>

theorem icgn_rejection_condition:
  "(getInstance (ICGN2D1.instance_pool e1) tid1 = Inr i1
      \<and> 0 \<le> ICGN2D1.subset_radius_x e1 \<and> 0 \<le> ICGN2D1.subset_radius_y e1 \<longrightarrow>
      (ICGN2D1_compute e1 pass1 tid1 poi1 = Some (Rejected (reject2D poi1)) \<longleftrightarrow>
         \<not> subset_inside_2D (ICGN2D1.ref_img e1) (ICGN2D1.subset_radius_x e1)
              (ICGN2D1.subset_radius_y e1) poi1
         \<or> isnan (DeformationVector2D.u (POI2D.deformation poi1))
         \<or> isnan (DeformationVector2D.v (POI2D.deformation poi1))))
   \<and> (getInstance (ICGN2D2.instance_pool e2) tid2 = Inr i2
      \<and> 0 \<le> ICGN2D2.subset_radius_x e2 \<and> 0 \<le> ICGN2D2.subset_radius_y e2 \<longrightarrow>
      (ICGN2D2_compute e2 lift pass2 tid2 poi2 = Some (Rejected (reject2D poi2)) \<longleftrightarrow>
         \<not> subset_inside_2D (ICGN2D2.ref_img e2) (ICGN2D2.subset_radius_x e2)
              (ICGN2D2.subset_radius_y e2) poi2
         \<or> isnan (DeformationVector2D.u (POI2D.deformation poi2))
         \<or> isnan (DeformationVector2D.v (POI2D.deformation poi2))))
   \<and> (getInstance (ICGN3D1.instance_pool e3) tid3 = Inr i3
      \<and> 0 \<le> ICGN3D1.subset_radius_x e3 \<and> 0 \<le> ICGN3D1.subset_radius_y e3
      \<and> 0 \<le> ICGN3D1.subset_radius_z e3 \<longrightarrow>
      (\<not> subset_inside_3D (ICGN3D1.ref_img e3) (ICGN3D1.subset_radius_x e3)
            (ICGN3D1.subset_radius_y e3) (ICGN3D1.subset_radius_z e3) poi3 \<longrightarrow>
         ICGN3D1_compute e3 pass3 tid3 poi3 = Some (Rejected (reject3D poi3)))
      \<and> (subset_inside_3D (ICGN3D1.ref_img e3) (ICGN3D1.subset_radius_x e3)
            (ICGN3D1.subset_radius_y e3) (ICGN3D1.subset_radius_z e3) poi3
          \<and> \<not> nan_guess_3D poi3 \<longrightarrow>
         ICGN3D1_compute e3 pass3 tid3 poi3 \<noteq> Some (Rejected (reject3D poi3))))"
proof (intro conjI impI; (elim conjE)?)
  assume "getInstance (ICGN2D1.instance_pool e1) tid1 = Inr i1"
    and "0 \<le> ICGN2D1.subset_radius_x e1" and "0 \<le> ICGN2D1.subset_radius_y e1"
  then show "ICGN2D1_compute e1 pass1 tid1 poi1 = Some (Rejected (reject2D poi1)) \<longleftrightarrow>
         \<not> subset_inside_2D (ICGN2D1.ref_img e1) (ICGN2D1.subset_radius_x e1)
              (ICGN2D1.subset_radius_y e1) poi1
         \<or> isnan (DeformationVector2D.u (POI2D.deformation poi1))
         \<or> isnan (DeformationVector2D.v (POI2D.deformation poi1))"
    unfolding ICGN2D1_compute_Rejected_reject [symmetric]
    by (simp add: ICGN2D1_compute_Rejected_iff subset_inside_2D_iff)
next
  assume "getInstance (ICGN2D2.instance_pool e2) tid2 = Inr i2"
    and "0 \<le> ICGN2D2.subset_radius_x e2" and "0 \<le> ICGN2D2.subset_radius_y e2"
  then show "ICGN2D2_compute e2 lift pass2 tid2 poi2 = Some (Rejected (reject2D poi2)) \<longleftrightarrow>
         \<not> subset_inside_2D (ICGN2D2.ref_img e2) (ICGN2D2.subset_radius_x e2)
              (ICGN2D2.subset_radius_y e2) poi2
         \<or> isnan (DeformationVector2D.u (POI2D.deformation poi2))
         \<or> isnan (DeformationVector2D.v (POI2D.deformation poi2))"
    unfolding ICGN2D2_compute_Rejected_reject [symmetric]
    by (simp add: ICGN2D2_compute_Rejected_iff subset_inside_2D_iff)
next
  assume "getInstance (ICGN3D1.instance_pool e3) tid3 = Inr i3"
    and "0 \<le> ICGN3D1.subset_radius_x e3" and "0 \<le> ICGN3D1.subset_radius_y e3"
    and "0 \<le> ICGN3D1.subset_radius_z e3"
    and "\<not> subset_inside_3D (ICGN3D1.ref_img e3) (ICGN3D1.subset_radius_x e3)
            (ICGN3D1.subset_radius_y e3) (ICGN3D1.subset_radius_z e3) poi3"
  then show "ICGN3D1_compute e3 pass3 tid3 poi3 = Some (Rejected (reject3D poi3))"
    unfolding ICGN3D1_compute_Rejected_reject [symmetric]
    by (simp add: ICGN3D1_compute_Rejected_iff subset_inside_3D_iff)
next
  assume "getInstance (ICGN3D1.instance_pool e3) tid3 = Inr i3"
    and "0 \<le> ICGN3D1.subset_radius_x e3" and "0 \<le> ICGN3D1.subset_radius_y e3"
    and "0 \<le> ICGN3D1.subset_radius_z e3"
    and "subset_inside_3D (ICGN3D1.ref_img e3) (ICGN3D1.subset_radius_x e3)
            (ICGN3D1.subset_radius_y e3) (ICGN3D1.subset_radius_z e3) poi3"
  then show "ICGN3D1_compute e3 pass3 tid3 poi3 \<noteq> Some (Rejected (reject3D poi3))"
    unfolding ICGN3D1_compute_Rejected_reject [symmetric]
    by (simp add: ICGN3D1_compute_Rejected_iff subset_inside_3D_iff)
qed


text \<open>
  A point of interest five pixels from the edge, a NaN in \<^verbatim>\<open>v\<close>, a point of interest
  four voxels from the far face of the volume; and one in the middle of the volume, which
  is not rejected.
\<close>

theorem icgn_rejection_condition_witness:
  "ICGN2D1_compute (sample_ICGN2D1 16) (still_2D1 (Fin 0)) 0
       (poi_2D 5 128 (guess_2D (Fin 1) (Fin 2) (Fin 3)))
     = Some (Rejected (reject2D (poi_2D 5 128 (guess_2D (Fin 1) (Fin 2) (Fin 3)))))
   \<and> ICGN2D2_compute (sample_ICGN2D2 16) lift_2D2 still_2D2 0
       (poi_2D 128 128 (guess_2D (Fin 1) NaN (Fin 3)))
     = Some (Rejected (reject2D (poi_2D 128 128 (guess_2D (Fin 1) NaN (Fin 3)))))
   \<and> ICGN3D1_compute (sample_ICGN3D1 8) still_3D1 1 (poi_3D 32 32 60 (guess_3D (Fin 1)))
     = Some (Rejected (reject3D (poi_3D 32 32 60 (guess_3D (Fin 1)))))
   \<and> ICGN3D1_compute (sample_ICGN3D1 8) still_3D1 1 (poi_3D 32 32 32 (guess_3D (Fin 1)))
     \<noteq> Some (Rejected (reject3D (poi_3D 32 32 32 (guess_3D (Fin 1)))))"
proof -
  have nan: "isnan (DeformationVector2D.v (POI2D.deformation (poi_2D 128 128 (guess_2D (Fin 1) NaN (Fin 3)))))"
    by (simp add: poi_2D_def guess_2D_def isnan_def)
  have fin: "\<not> nan_guess_3D (poi_3D 32 32 32 (guess_3D (Fin 1)))"
    by (simp add: nan_guess_3D_def poi_3D_def guess_3D_def isnan_def)
  show ?thesis
    using icgn_rejection_condition
      [where ?e1.0 = "sample_ICGN2D1 16" and ?tid1.0 = 0 and ?i1.0 = 0
         and ?pass1.0 = "still_2D1 (Fin 0)"
         and ?poi1.0 = "poi_2D 5 128 (guess_2D (Fin 1) (Fin 2) (Fin 3))"
         and ?e2.0 = "sample_ICGN2D2 16" and ?tid2.0 = 0 and ?i2.0 = 0
         and lift = lift_2D2 and ?pass2.0 = still_2D2
         and ?poi2.0 = "poi_2D 128 128 (guess_2D (Fin 1) NaN (Fin 3))"
         and ?e3.0 = "sample_ICGN3D1 8" and ?tid3.0 = 1 and ?i3.0 = 1
         and ?pass3.0 = still_3D1
         and ?poi3.0 = "poi_3D 32 32 60 (guess_3D (Fin 1))"]
      icgn_rejection_condition
      [where ?e1.0 = "sample_ICGN2D1 16" and ?tid1.0 = 0 and ?i1.0 = 0
         and ?pass1.0 = "still_2D1 (Fin 0)"
         and ?poi1.0 = "poi_2D 5 128 (guess_2D (Fin 1) (Fin 2) (Fin 3))"
         and ?e2.0 = "sample_ICGN2D2 16" and ?tid2.0 = 0 and ?i2.0 = 0
         and lift = lift_2D2 and ?pass2.0 = still_2D2
         and ?poi2.0 = "poi_2D 128 128 (guess_2D (Fin 1) NaN (Fin 3))"
         and ?e3.0 = "sample_ICGN3D1 8" and ?tid3.0 = 1 and ?i3.0 = 1
         and ?pass3.0 = still_3D1
         and ?poi3.0 = "poi_3D 32 32 32 (guess_3D (Fin 1))"]
      nan fin
    by (simp add: sample_getInstance sample_fields_2D1 sample_fields_2D2 sample_fields_3D1
        sample_inside_2D sample_inside_3D)
qed

text \<open>
  The claim as it was stated fails: a NaN in the component \<^verbatim>\<open>ux\<close> of the initial
  guess is a NaN in some component of it, and the order-1 estimator does not reject the
  point of interest. It makes a pass and records one iteration.
\<close>

theorem icgn_rejection_counterexample:
  "nan_guess_2D (poi_2D 128 128 (guess_2D (Fin 1) (Fin 2) NaN))
   \<and> ICGN2D1_compute (sample_ICGN2D1 16) (still_2D1 (Fin 0)) 0
        (poi_2D 128 128 (guess_2D (Fin 1) (Fin 2) NaN))
     = Some (Computed (ICGN2D1_store (poi_2D 128 128 (guess_2D (Fin 1) (Fin 2) NaN))
          (initial_guess_2D (poi_2D 128 128 (guess_2D (Fin 1) (Fin 2) NaN)))
          (1, initial_guess_2D (poi_2D 128 128 (guess_2D (Fin 1) (Fin 2) NaN)), Fin 0, Fin 0)))
   \<and> Result2D.iteration (POI2D.result (ICGN2D1_store (poi_2D 128 128 (guess_2D (Fin 1) (Fin 2) NaN))
          (initial_guess_2D (poi_2D 128 128 (guess_2D (Fin 1) (Fin 2) NaN)))
          (1, initial_guess_2D (poi_2D 128 128 (guess_2D (Fin 1) (Fin 2) NaN)), Fin 0, Fin 0)))
     = Fin 1"
proof -
  have "nan_guess_2D (poi_2D 128 128 (guess_2D (Fin 1) (Fin 2) NaN))"
    by (simp add: nan_guess_2D_def poi_2D_def guess_2D_def isnan_def)
  moreover have "ICGN2D1_compute (sample_ICGN2D1 16) (still_2D1 (Fin 0)) 0
        (poi_2D 128 128 (guess_2D (Fin 1) (Fin 2) NaN))
     = Some (Computed (ICGN2D1_store (poi_2D 128 128 (guess_2D (Fin 1) (Fin 2) NaN))
          (initial_guess_2D (poi_2D 128 128 (guess_2D (Fin 1) (Fin 2) NaN)))
          (1, initial_guess_2D (poi_2D 128 128 (guess_2D (Fin 1) (Fin 2) NaN)), Fin 0, Fin 0)))"
    by (rule sample_computed_2D1) (simp_all add: guess_2D_def isnan_def)
  moreover have "Result2D.iteration (POI2D.result (ICGN2D1_store (poi_2D 128 128 (guess_2D (Fin 1) (Fin 2) NaN))
          (initial_guess_2D (poi_2D 128 128 (guess_2D (Fin 1) (Fin 2) NaN)))
          (1, initial_guess_2D (poi_2D 128 128 (guess_2D (Fin 1) (Fin 2) NaN)), Fin 0, Fin 0)))
     = Fin 1"
    by (simp add: ICGN2D1_store_def float_of_int_def)
  ultimately show ?thesis by blast
qed

subsection \<open>C5: the iteration loop\<close>

lemma not_fge_iff: "\<not> fge d c \<longleftrightarrow> flt d c \<or> isnan d \<or> isnan c"
  by (auto simp add: fge_def fle_def)

lemma fge_Fin_iff: "fge (Fin a) (Fin b) \<longleftrightarrow> \<not> flt (Fin a) (Fin b)"
  by (auto simp add: fge_def fle_def isnan_def)

lemma continues_iff:
  "continues pass (Fin s) criterion p k \<longleftrightarrow>
     \<not> (fge (float_of_int (int k)) (Fin s)
        \<or> flt (fst (snd (nth_pass pass p k))) criterion
        \<or> isnan (fst (snd (nth_pass pass p k))) \<or> isnan criterion)"
  unfolding continues_def not_fge_iff [symmetric] float_of_int_def fge_Fin_iff by simp

lemma icgn_do_while_terminates:
  assumes "1 \<le> s" and "s \<le> 2147483647"
  shows "\<exists>n. 1 \<le> n \<and> int n \<le> \<lceil>s\<rceil>
       \<and> icgn_do_while pass (Fin s) criterion 0 p = Some (int n, nth_pass pass p n)
       \<and> \<not> continues pass (Fin s) criterion p n
       \<and> (\<forall>k. 1 \<le> k \<and> k < n \<longrightarrow> continues pass (Fin s) criterion p k)"
proof -
  have "int 0 < \<lceil>s\<rceil>" using assms(1) by (simp add: less_ceiling_iff)
  from icgn_do_while_from [OF assms(2) this, of pass criterion p]
  obtain n where n: "0 < n" "int n \<le> \<lceil>s\<rceil>"
    "icgn_do_while pass (Fin s) criterion (int 0) (after_passes pass p 0) = Some (int n, nth_pass pass p n)"
    "\<not> continues pass (Fin s) criterion p n"
    "\<forall>k. 0 < k \<and> k < n \<longrightarrow> continues pass (Fin s) criterion p k"
    by blast
  have "after_passes pass p 0 = p" by (simp add: after_passes_def)
  with n show ?thesis by (intro exI [of _ n]) (auto simp add: Suc_le_eq)
qed

lemma sample_steady_loop:
  "icgn_do_while (ICGN2D1_body (sample_ICGN2D1 16) (still_2D1 (Fin 1)) 0 poi)
      (Fin 10) (Fin (1 / 1000)) 0 p = Some (10, p, Fin 1, Fin 0)"
proof -
  have norm: "ICGN2D1_dp_norm 16 16
      \<lparr>Deformation2D1.u = Fin 1, Deformation2D1.ux = Fin 0, Deformation2D1.uy = Fin 0,
          Deformation2D1.v = Fin 0, Deformation2D1.vx = Fin 0, Deformation2D1.vy = Fin 0\<rparr> = Fin 1"
    by (simp add: ICGN2D1_dp_norm_def Let_def float_of_int_def int32_def)
  have body: "ICGN2D1_body (sample_ICGN2D1 16) (still_2D1 (Fin 1)) 0 poi = (\<lambda>q. (q, Fin 1, Fin 0))"
    by (rule ext) (simp add: ICGN2D1_body_def still_2D1_def sample_fields_2D1 norm)
  show ?thesis
    unfolding body
    by (simp add: icgn_do_while.simps int32_def float_of_int_def fge_def fle_def isnan_def)
qed

lemma sample_steady_compute:
  assumes "\<not> isnan (DeformationVector2D.u d)" and "\<not> isnan (DeformationVector2D.v d)"
  shows "ICGN2D1_compute (sample_ICGN2D1 16) (still_2D1 (Fin 1)) 0 (poi_2D 128 128 d)
     = Some (Computed (ICGN2D1_store (poi_2D 128 128 d) (initial_guess_2D (poi_2D 128 128 d))
          (10, initial_guess_2D (poi_2D 128 128 d), Fin 1, Fin 0)))"
proof -
  have inside: "\<not> (POI2D.y (poi_2D 128 128 d) - 16 < 0 \<or> POI2D.x (poi_2D 128 128 d) - 16 < 0
     \<or> POI2D.y (poi_2D 128 128 d) + 16 > Image2D.height (flat_image 256 256) - 1
     \<or> POI2D.x (poi_2D 128 128 d) + 16 > Image2D.width (flat_image 256 256) - 1)"
    by (simp add: poi_2D_def flat_image_def)
  have dd: "POI2D.deformation (poi_2D 128 128 d) = d" by (simp add: poi_2D_def)
  show ?thesis
    unfolding ICGN2D1_compute_def
    using inside assms
    by (simp add: sample_getInstance sample_fields_2D1 sample_steady_loop dd Let_def)
qed

text \<open>
  Claim C5, as the code has it. For a finite \<^verbatim>\<open>stop_condition\<close> \<open>s\<close> with
  \<open>1 \<le> s \<le> 2\<^sup>3\<^sup>1 - 1\<close> (the counter is a 32-bit \<^verbatim>\<open>int\<close>) the loop makes at least
  one pass and returns; it returns after the first pass \<open>n\<close> at whose end the test
  \<^verbatim>\<open>iteration < stop_condition && dp_norm_max >= conv_criterion\<close> fails, and the count
  satisfies \<open>1 \<le> n \<le> \<lceil>s\<rceil>\<close>. The test fails exactly when
  \<^verbatim>\<open>iteration >= stop_condition\<close>, or \<^verbatim>\<open>dp_norm_max < conv_criterion\<close>, or one of
  \<^verbatim>\<open>dp_norm_max\<close> and \<^verbatim>\<open>conv_criterion\<close> is a NaN. For a point of interest that
  passes the test before the iteration, \<^verbatim>\<open>ICGN2D1::compute\<close> records that count as
  \<^verbatim>\<open>result.iteration\<close>.
\<close>

theorem icgn_iteration_count:
  assumes "1 \<le> s" and "s \<le> 2147483647"
  shows "(\<exists>n. 1 \<le> n \<and> int n \<le> \<lceil>s\<rceil>
       \<and> icgn_do_while pass (Fin s) criterion 0 p = Some (int n, nth_pass pass p n)
       \<and> \<not> continues pass (Fin s) criterion p n
       \<and> (\<forall>k. 1 \<le> k \<and> k < n \<longrightarrow> continues pass (Fin s) criterion p k))
     \<and> (\<forall>k. continues pass (Fin s) criterion p k \<longleftrightarrow>
           \<not> (fge (float_of_int (int k)) (Fin s)
              \<or> flt (fst (snd (nth_pass pass p k))) criterion
              \<or> isnan (fst (snd (nth_pass pass p k))) \<or> isnan criterion))
     \<and> (getInstance (ICGN2D1.instance_pool est) tid = Inr cur_instance
        \<and> ICGN2D1.stop_condition est = Fin s
        \<and> 0 \<le> ICGN2D1.subset_radius_x est \<and> 0 \<le> ICGN2D1.subset_radius_y est
        \<and> subset_inside_2D (ICGN2D1.ref_img est) (ICGN2D1.subset_radius_x est)
             (ICGN2D1.subset_radius_y est) poi
        \<and> \<not> isnan (DeformationVector2D.u (POI2D.deformation poi))
        \<and> \<not> isnan (DeformationVector2D.v (POI2D.deformation poi)) \<longrightarrow>
        (\<exists>n q. 1 \<le> n \<and> int n \<le> \<lceil>s\<rceil>
           \<and> ICGN2D1_compute est pass1 tid poi = Some (Computed q)
           \<and> q = ICGN2D1_store poi (initial_guess_2D poi)
                 (int n, nth_pass (ICGN2D1_body est pass1 cur_instance poi) (initial_guess_2D poi) n)
           \<and> Result2D.iteration (POI2D.result q) = float_of_int (int n)
           \<and> \<not> continues (ICGN2D1_body est pass1 cur_instance poi) (Fin s)
                 (ICGN2D1.conv_criterion est) (initial_guess_2D poi) n
           \<and> (\<forall>k. 1 \<le> k \<and> k < n \<longrightarrow>
                continues (ICGN2D1_body est pass1 cur_instance poi) (Fin s)
                  (ICGN2D1.conv_criterion est) (initial_guess_2D poi) k)))"
proof (intro conjI allI impI; (elim conjE)?)
  show "\<exists>n. 1 \<le> n \<and> int n \<le> \<lceil>s\<rceil>
       \<and> icgn_do_while pass (Fin s) criterion 0 p = Some (int n, nth_pass pass p n)
       \<and> \<not> continues pass (Fin s) criterion p n
       \<and> (\<forall>k. 1 \<le> k \<and> k < n \<longrightarrow> continues pass (Fin s) criterion p k)"
    using assms by (rule icgn_do_while_terminates)
next
  fix k
  show "continues pass (Fin s) criterion p k \<longleftrightarrow>
           \<not> (fge (float_of_int (int k)) (Fin s)
              \<or> flt (fst (snd (nth_pass pass p k))) criterion
              \<or> isnan (fst (snd (nth_pass pass p k))) \<or> isnan criterion)"
    by (rule continues_iff)
next
  let ?body = "ICGN2D1_body est pass1 cur_instance poi"
  let ?p0 = "initial_guess_2D poi"
  assume inst: "getInstance (ICGN2D1.instance_pool est) tid = Inr cur_instance"
    and stop: "ICGN2D1.stop_condition est = Fin s"
    and r: "0 \<le> ICGN2D1.subset_radius_x est" "0 \<le> ICGN2D1.subset_radius_y est"
    and inside: "subset_inside_2D (ICGN2D1.ref_img est) (ICGN2D1.subset_radius_x est)
             (ICGN2D1.subset_radius_y est) poi"
    and nn: "\<not> isnan (DeformationVector2D.u (POI2D.deformation poi))"
      "\<not> isnan (DeformationVector2D.v (POI2D.deformation poi))"
  from icgn_do_while_terminates [OF assms, of ?body "ICGN2D1.conv_criterion est" ?p0]
  obtain n where n: "1 \<le> n" "int n \<le> \<lceil>s\<rceil>"
    "icgn_do_while ?body (Fin s) (ICGN2D1.conv_criterion est) 0 ?p0 = Some (int n, nth_pass ?body ?p0 n)"
    "\<not> continues ?body (Fin s) (ICGN2D1.conv_criterion est) ?p0 n"
    "\<forall>k. 1 \<le> k \<and> k < n \<longrightarrow> continues ?body (Fin s) (ICGN2D1.conv_criterion est) ?p0 k"
    by blast
  have guard: "\<not> (POI2D.y poi - ICGN2D1.subset_radius_y est < 0
      \<or> POI2D.x poi - ICGN2D1.subset_radius_x est < 0
      \<or> POI2D.y poi + ICGN2D1.subset_radius_y est > Image2D.height (ICGN2D1.ref_img est) - 1
      \<or> POI2D.x poi + ICGN2D1.subset_radius_x est > Image2D.width (ICGN2D1.ref_img est) - 1
      \<or> isnan (DeformationVector2D.u (POI2D.deformation poi))
      \<or> isnan (DeformationVector2D.v (POI2D.deformation poi)))"
    using inside nn subset_inside_2D_iff [OF r] by blast
  have comp: "ICGN2D1_compute est pass1 tid poi
      = Some (Computed (ICGN2D1_store poi ?p0 (int n, nth_pass ?body ?p0 n)))"
    unfolding ICGN2D1_compute_def inst using guard
    by (simp add: Let_def stop n(3))
  have iter: "Result2D.iteration (POI2D.result (ICGN2D1_store poi ?p0 (int n, nth_pass ?body ?p0 n)))
      = float_of_int (int n)"
    by (cases "nth_pass ?body ?p0 n") (simp add: ICGN2D1_store_def)
  show "\<exists>n q. 1 \<le> n \<and> int n \<le> \<lceil>s\<rceil>
           \<and> ICGN2D1_compute est pass1 tid poi = Some (Computed q)
           \<and> q = ICGN2D1_store poi (initial_guess_2D poi)
                 (int n, nth_pass (ICGN2D1_body est pass1 cur_instance poi) (initial_guess_2D poi) n)
           \<and> Result2D.iteration (POI2D.result q) = float_of_int (int n)
           \<and> \<not> continues (ICGN2D1_body est pass1 cur_instance poi) (Fin s)
                 (ICGN2D1.conv_criterion est) (initial_guess_2D poi) n
           \<and> (\<forall>k. 1 \<le> k \<and> k < n \<longrightarrow>
                continues (ICGN2D1_body est pass1 cur_instance poi) (Fin s)
                  (ICGN2D1.conv_criterion est) (initial_guess_2D poi) k)"
    using n comp iter by (intro exI [of _ n] exI [of _ "ICGN2D1_store poi ?p0 (int n, nth_pass ?body ?p0 n)"]) simp
qed


text \<open>
  Ten iterations at most and an increment of norm one at every pass: the loop stops at
  the bound, after ten passes.
\<close>

theorem icgn_iteration_count_witness:
  "(\<exists>n. 1 \<le> n \<and> int n \<le> \<lceil>10 :: real\<rceil>
       \<and> icgn_do_while (\<lambda>q. (q, Fin 1, Fin 0)) (Fin 10) (Fin (1 / 1000)) 0 (0 :: nat)
           = Some (int n, nth_pass (\<lambda>q. (q, Fin 1, Fin 0)) 0 n))
   \<and> icgn_do_while (\<lambda>q. (q, Fin 1, Fin 0)) (Fin 10) (Fin (1 / 1000)) 0 (0 :: nat)
       = Some (10, 0, Fin 1, Fin 0)
   \<and> (\<exists>n q. 1 \<le> n \<and> int n \<le> \<lceil>10 :: real\<rceil>
       \<and> ICGN2D1_compute (sample_ICGN2D1 16) (still_2D1 (Fin 1)) 0
            (poi_2D 128 128 (guess_2D (Fin 0) (Fin 0) (Fin 0))) = Some (Computed q)
       \<and> Result2D.iteration (POI2D.result q) = float_of_int (int n))
   \<and> ICGN2D1_compute (sample_ICGN2D1 16) (still_2D1 (Fin 1)) 0
        (poi_2D 128 128 (guess_2D (Fin 0) (Fin 0) (Fin 0)))
      = Some (Computed (ICGN2D1_store (poi_2D 128 128 (guess_2D (Fin 0) (Fin 0) (Fin 0)))
          (initial_guess_2D (poi_2D 128 128 (guess_2D (Fin 0) (Fin 0) (Fin 0))))
          (10, initial_guess_2D (poi_2D 128 128 (guess_2D (Fin 0) (Fin 0) (Fin 0))), Fin 1, Fin 0)))"
proof -
  have s: "(1 :: real) \<le> 10" "(10 :: real) \<le> 2147483647" by simp_all
  have nn: "\<not> isnan (DeformationVector2D.u (guess_2D (Fin 0) (Fin 0) (Fin 0)))"
    "\<not> isnan (DeformationVector2D.v (guess_2D (Fin 0) (Fin 0) (Fin 0)))"
    by (simp_all add: guess_2D_def isnan_def)
  have dd: "POI2D.deformation (poi_2D 128 128 (guess_2D (Fin 0) (Fin 0) (Fin 0)))
      = guess_2D (Fin 0) (Fin 0) (Fin 0)"
    by (simp add: poi_2D_def)
  note inst = icgn_iteration_count [OF s,
      where pass = "\<lambda>q. (q, Fin 1, Fin 0)" and criterion = "Fin (1 / 1000)" and p = "0 :: nat"
        and est = "sample_ICGN2D1 16" and tid = 0 and cur_instance = 0
        and ?pass1.0 = "still_2D1 (Fin 1)"
        and poi = "poi_2D 128 128 (guess_2D (Fin 0) (Fin 0) (Fin 0))"]
  have a: "\<exists>n. 1 \<le> n \<and> int n \<le> \<lceil>10 :: real\<rceil>
       \<and> icgn_do_while (\<lambda>q. (q, Fin 1, Fin 0)) (Fin 10) (Fin (1 / 1000)) 0 (0 :: nat)
           = Some (int n, nth_pass (\<lambda>q. (q, Fin 1, Fin 0)) 0 n)"
    using inst by blast
  have b: "icgn_do_while (\<lambda>q. (q, Fin 1, Fin 0)) (Fin 10) (Fin (1 / 1000)) 0 (0 :: nat)
       = Some (10, 0, Fin 1, Fin 0)"
    by (simp add: icgn_do_while.simps int32_def float_of_int_def fge_def fle_def isnan_def)
  have c: "\<exists>n q. 1 \<le> n \<and> int n \<le> \<lceil>10 :: real\<rceil>
       \<and> ICGN2D1_compute (sample_ICGN2D1 16) (still_2D1 (Fin 1)) 0
            (poi_2D 128 128 (guess_2D (Fin 0) (Fin 0) (Fin 0))) = Some (Computed q)
       \<and> Result2D.iteration (POI2D.result q) = float_of_int (int n)"
  proof -
    from inst have "getInstance (ICGN2D1.instance_pool (sample_ICGN2D1 16)) 0 = Inr 0
        \<and> ICGN2D1.stop_condition (sample_ICGN2D1 16) = Fin 10
        \<and> 0 \<le> ICGN2D1.subset_radius_x (sample_ICGN2D1 16)
        \<and> 0 \<le> ICGN2D1.subset_radius_y (sample_ICGN2D1 16)
        \<and> subset_inside_2D (ICGN2D1.ref_img (sample_ICGN2D1 16))
             (ICGN2D1.subset_radius_x (sample_ICGN2D1 16))
             (ICGN2D1.subset_radius_y (sample_ICGN2D1 16))
             (poi_2D 128 128 (guess_2D (Fin 0) (Fin 0) (Fin 0)))
        \<and> \<not> isnan (DeformationVector2D.u (POI2D.deformation (poi_2D 128 128 (guess_2D (Fin 0) (Fin 0) (Fin 0)))))
        \<and> \<not> isnan (DeformationVector2D.v (POI2D.deformation (poi_2D 128 128 (guess_2D (Fin 0) (Fin 0) (Fin 0))))) \<longrightarrow>
        (\<exists>n q. 1 \<le> n \<and> int n \<le> \<lceil>10 :: real\<rceil>
           \<and> ICGN2D1_compute (sample_ICGN2D1 16) (still_2D1 (Fin 1)) 0
                (poi_2D 128 128 (guess_2D (Fin 0) (Fin 0) (Fin 0))) = Some (Computed q)
           \<and> Result2D.iteration (POI2D.result q) = float_of_int (int n))"
      by blast
    then show ?thesis
      using nn by (simp add: sample_getInstance sample_fields_2D1 sample_inside_2D dd)
  qed
  show ?thesis
    using a b c sample_steady_compute [OF nn] by blast
qed

text \<open>
  The claim as it was stated fails: when the increment of the first pass is a NaN (a
  subset of one grey value gives one), the loop exits after that pass, although the
  counter is below \<^verbatim>\<open>stop_condition\<close> and the norm is not below
  \<^verbatim>\<open>conv_criterion\<close>.
\<close>

theorem icgn_exit_counterexample:
  "ICGN2D1_compute (sample_ICGN2D1 16) (still_2D1 NaN) 0
        (poi_2D 128 128 (guess_2D (Fin 0) (Fin 0) (Fin 0)))
      = Some (Computed (ICGN2D1_store (poi_2D 128 128 (guess_2D (Fin 0) (Fin 0) (Fin 0)))
          (initial_guess_2D (poi_2D 128 128 (guess_2D (Fin 0) (Fin 0) (Fin 0))))
          (1, initial_guess_2D (poi_2D 128 128 (guess_2D (Fin 0) (Fin 0) (Fin 0))), NaN, Fin 0)))
   \<and> \<not> (fge (float_of_int 1) (ICGN2D1.stop_condition (sample_ICGN2D1 16))
        \<or> flt NaN (ICGN2D1.conv_criterion (sample_ICGN2D1 16)))"
proof -
  have "ICGN2D1_compute (sample_ICGN2D1 16) (still_2D1 NaN) 0
        (poi_2D 128 128 (guess_2D (Fin 0) (Fin 0) (Fin 0)))
      = Some (Computed (ICGN2D1_store (poi_2D 128 128 (guess_2D (Fin 0) (Fin 0) (Fin 0)))
          (initial_guess_2D (poi_2D 128 128 (guess_2D (Fin 0) (Fin 0) (Fin 0))))
          (1, initial_guess_2D (poi_2D 128 128 (guess_2D (Fin 0) (Fin 0) (Fin 0))), NaN, Fin 0)))"
    by (rule sample_computed_2D1) (simp_all add: guess_2D_def isnan_def)
  moreover have "\<not> (fge (float_of_int 1) (ICGN2D1.stop_condition (sample_ICGN2D1 16))
        \<or> flt NaN (ICGN2D1.conv_criterion (sample_ICGN2D1 16)))"
    by (simp add: sample_fields_2D1 float_of_int_def fge_def fle_def isnan_def)
  ultimately show ?thesis by blast
qed

subsection \<open>C9: the thread id and the pool\<close>

lemma fill_pool_from_empty: "fill_pool allocate n 0 [] = map allocate [0..<nat n]"
  using fill_pool_eq [of 0 allocate n "[]"] by simp

lemma length_fill_pool: "length (fill_pool allocate n 0 []) = nat n"
  by (simp add: fill_pool_from_empty)

lemma getInstance_over_limit:
  assumes "0 \<le> tid" and "n \<le> tid"
  shows "getInstance (fill_pool allocate n 0 []) tid = Inl CPU_thread_ID_over_limit"
proof -
  have "int (nat n) \<le> tid" using assms by linarith
  then show ?thesis by (simp add: getInstance_def length_fill_pool)
qed

lemma getInstance_in_pool:
  assumes "0 \<le> tid" and "tid < n"
  shows "getInstance (fill_pool allocate n 0 []) tid = Inr (allocate (nat tid))"
proof -
  have lt: "nat tid < nat n" using assms by linarith
  then have "\<not> int (nat n) \<le> tid" using assms by linarith
  moreover have "fill_pool allocate n 0 [] ! nat tid = allocate (nat tid)"
    using lt by (simp add: fill_pool_from_empty)
  ultimately show ?thesis using assms(1) by (simp add: getInstance_def length_fill_pool)
qed

lemma getInstance_throws_iff:
  assumes "0 \<le> tid"
  shows "(\<exists>e. getInstance (fill_pool allocate n 0 []) tid = Inl e) \<longleftrightarrow> n \<le> tid"
proof (cases "n \<le> tid")
  case True
  from getInstance_over_limit [OF assms True, of allocate] True show ?thesis by simp
next
  case False
  then have "tid < n" by simp
  from getInstance_in_pool [OF assms this, of allocate] False show ?thesis by simp
qed

lemma compute_Thrown:
  "getInstance (ICGN2D1.instance_pool e1) tid = Inl e \<Longrightarrow>
     ICGN2D1_compute e1 pass1 tid poi = Some (Thrown e poi)"
  "getInstance (ICGN2D2.instance_pool e2) tid = Inl e \<Longrightarrow>
     ICGN2D2_compute e2 lift pass2 tid poi = Some (Thrown e poi)"
  "getInstance (ICGN3D1.instance_pool e3) tid = Inl e \<Longrightarrow>
     ICGN3D1_compute e3 pass3 tid poi3 = Some (Thrown e poi3)"
  "getInstance (FFTCC2D.instance_pool e4) tid = Inl e \<Longrightarrow>
     FFTCC2D_compute e4 tid poi = Thrown e poi"
  by (simp_all add: ICGN2D1_compute_def ICGN2D2_compute_def ICGN3D1_compute_def
      FFTCC2D_compute_def)

lemma new_pools:
  "ICGN2D1.instance_pool (ICGN2D1_new alloc1 rx ry c s n img) = fill_pool alloc1 n 0 []"
  "ICGN2D2.instance_pool (ICGN2D2_new alloc1 rx ry c s n img) = fill_pool alloc1 n 0 []"
  "ICGN3D1.instance_pool (ICGN3D1_new alloc1 rx ry rz c s n vol) = fill_pool alloc1 n 0 []"
  "FFTCC2D.instance_pool (FFTCC2D_new alloc2 rx ry n img img2) = fill_pool alloc2 n 0 []"
  by (simp_all add: ICGN2D1_new_def ICGN2D2_new_def ICGN3D1_new_def FFTCC2D_new_def)

text \<open>
  Claim C9. An estimator constructed with \<^verbatim>\<open>thread_number\<close> \<open>n\<close> holds a pool of
  \<open>n\<close> instances (none for a negative \<open>n\<close>). For a thread id that is not negative,
  \<^verbatim>\<open>getInstance\<close> raises exactly when the id is at least \<open>n\<close>, and otherwise returns
  the instance of that index, the one allocated for it. When it raises, \<^verbatim>\<open>compute\<close>
  ends with the exception and the point of interest is the one it was given. This is so
  for the ICGN estimators and for \<^verbatim>\<open>FFTCC2D\<close>.
\<close>

theorem getInstance_thread_id:
  assumes "0 \<le> tid"
  shows "length (ICGN2D1.instance_pool (ICGN2D1_new alloc1 rx ry c s n img)) = nat n
     \<and> ((\<exists>e. getInstance (ICGN2D1.instance_pool (ICGN2D1_new alloc1 rx ry c s n img)) tid = Inl e)
           \<longleftrightarrow> n \<le> tid)
     \<and> (tid < n \<longrightarrow>
          getInstance (ICGN2D1.instance_pool (ICGN2D1_new alloc1 rx ry c s n img)) tid
            = Inr (alloc1 (nat tid)))
     \<and> (n \<le> tid \<longrightarrow>
          ICGN2D1_compute (ICGN2D1_new alloc1 rx ry c s n img) pass1 tid poi
            = Some (Thrown CPU_thread_ID_over_limit poi)
          \<and> ICGN2D2_compute (ICGN2D2_new alloc1 rx ry c s n img) lift pass2 tid poi
            = Some (Thrown CPU_thread_ID_over_limit poi)
          \<and> ICGN3D1_compute (ICGN3D1_new alloc1 rx ry rz c s n vol) pass3 tid poi3
            = Some (Thrown CPU_thread_ID_over_limit poi3))
     \<and> length (FFTCC2D.instance_pool (FFTCC2D_new alloc2 rx ry n img img2)) = nat n
     \<and> ((\<exists>e. getInstance (FFTCC2D.instance_pool (FFTCC2D_new alloc2 rx ry n img img2)) tid = Inl e)
           \<longleftrightarrow> n \<le> tid)
     \<and> (tid < n \<longrightarrow>
          getInstance (FFTCC2D.instance_pool (FFTCC2D_new alloc2 rx ry n img img2)) tid
            = Inr (alloc2 (nat tid)))
     \<and> (n \<le> tid \<longrightarrow>
          FFTCC2D_compute (FFTCC2D_new alloc2 rx ry n img img2) tid poi
            = Thrown CPU_thread_ID_over_limit poi)"
proof -
  show ?thesis
  proof (intro conjI impI)
    show "length (ICGN2D1.instance_pool (ICGN2D1_new alloc1 rx ry c s n img)) = nat n"
      unfolding new_pools by (rule length_fill_pool)
    show "(\<exists>e. getInstance (ICGN2D1.instance_pool (ICGN2D1_new alloc1 rx ry c s n img)) tid = Inl e)
           \<longleftrightarrow> n \<le> tid"
      unfolding new_pools using assms by (rule getInstance_throws_iff)
    show "getInstance (ICGN2D1.instance_pool (ICGN2D1_new alloc1 rx ry c s n img)) tid
            = Inr (alloc1 (nat tid))" if "tid < n"
      unfolding new_pools using assms that by (rule getInstance_in_pool)
    show "ICGN2D1_compute (ICGN2D1_new alloc1 rx ry c s n img) pass1 tid poi
            = Some (Thrown CPU_thread_ID_over_limit poi)" if "n \<le> tid"
      by (rule compute_Thrown(1)) (unfold new_pools, rule getInstance_over_limit [OF assms that])
    show "ICGN2D2_compute (ICGN2D2_new alloc1 rx ry c s n img) lift pass2 tid poi
            = Some (Thrown CPU_thread_ID_over_limit poi)" if "n \<le> tid"
      by (rule compute_Thrown(2)) (unfold new_pools, rule getInstance_over_limit [OF assms that])
    show "ICGN3D1_compute (ICGN3D1_new alloc1 rx ry rz c s n vol) pass3 tid poi3
            = Some (Thrown CPU_thread_ID_over_limit poi3)" if "n \<le> tid"
      by (rule compute_Thrown(3)) (unfold new_pools, rule getInstance_over_limit [OF assms that])
    show "length (FFTCC2D.instance_pool (FFTCC2D_new alloc2 rx ry n img img2)) = nat n"
      unfolding new_pools by (rule length_fill_pool)
    show "(\<exists>e. getInstance (FFTCC2D.instance_pool (FFTCC2D_new alloc2 rx ry n img img2)) tid = Inl e)
           \<longleftrightarrow> n \<le> tid"
      unfolding new_pools using assms by (rule getInstance_throws_iff)
    show "getInstance (FFTCC2D.instance_pool (FFTCC2D_new alloc2 rx ry n img img2)) tid
            = Inr (alloc2 (nat tid))" if "tid < n"
      unfolding new_pools using assms that by (rule getInstance_in_pool)
    show "FFTCC2D_compute (FFTCC2D_new alloc2 rx ry n img img2) tid poi
            = Thrown CPU_thread_ID_over_limit poi" if "n \<le> tid"
      by (rule compute_Thrown(4)) (unfold new_pools, rule getInstance_over_limit [OF assms that])
  qed
qed


text \<open>Two threads: thread 1 gets instance 1, thread 2 is over the limit.\<close>

theorem getInstance_thread_id_witness:
  "length (ICGN2D1.instance_pool (sample_ICGN2D1 16)) = 2
   \<and> getInstance (ICGN2D1.instance_pool (sample_ICGN2D1 16)) 1 = Inr 1
   \<and> ICGN2D1_compute (sample_ICGN2D1 16) (still_2D1 (Fin 0)) 2
        (poi_2D 128 128 (guess_2D (Fin 0) (Fin 0) (Fin 0)))
      = Some (Thrown CPU_thread_ID_over_limit (poi_2D 128 128 (guess_2D (Fin 0) (Fin 0) (Fin 0))))"
proof -
  have "(0 :: int) \<le> 1" "(0 :: int) \<le> 2" by simp_all
  from getInstance_thread_id [OF this(1), where n = 2 and ?alloc1.0 = "\<lambda>i. i" and rx = 16
        and ry = 16 and c = "Fin (1 / 1000)" and s = "Fin 10" and img = "flat_image 256 256"]
    getInstance_thread_id [OF this(2), where n = 2 and ?alloc1.0 = "\<lambda>i. i" and rx = 16
        and ry = 16 and c = "Fin (1 / 1000)" and s = "Fin 10" and img = "flat_image 256 256"
        and ?pass1.0 = "still_2D1 (Fin 0)"
        and poi = "poi_2D 128 128 (guess_2D (Fin 0) (Fin 0) (Fin 0))"]
  show ?thesis
    unfolding sample_ICGN2D1_def by simp
qed

subsection \<open>The parts of \<^verbatim>\<open>FFTCC2D::compute\<close>\<close>

lemma FFTCC2D_compute_Inr:
  assumes "getInstance (FFTCC2D.instance_pool this) tid = Inr inst"
    and "FFTCC2D_subsets this inst poi = (ref_buf, tar_buf, ref_norm, tar_norm)"
    and "fold (search_max (FFTCC2D_correlation this inst ref_buf tar_buf))
           [0..FFTCC2D.subset_radius_x this * 2 * (FFTCC2D.subset_radius_y this * 2) - 1]
           (float_of_int (- 2), 0) = (max_zncc, k)"
    and "local_displacement (FFTCC2D.subset_radius_x this) (FFTCC2D.subset_radius_y this) k = (du, dv)"
  shows "FFTCC2D_compute this tid poi =
     Computed (poi
       \<lparr>POI2D.deformation := (POI2D.deformation poi)
          \<lparr>DeformationVector2D.u :=
             fadd (float_of_int du) (DeformationVector2D.u (POI2D.deformation poi)),
           DeformationVector2D.v :=
             fadd (float_of_int dv) (DeformationVector2D.v (POI2D.deformation poi))\<rparr>,
        POI2D.result := (POI2D.result poi)
          \<lparr>Result2D.u0 := DeformationVector2D.u (POI2D.deformation poi),
           Result2D.v0 := DeformationVector2D.v (POI2D.deformation poi),
           Result2D.zncc :=
             fdiv max_zncc
               (fmul (fsqrt (fmul ref_norm tar_norm))
                  (float_of_int (FFTCC2D.subset_radius_x this * 2
                     * (FFTCC2D.subset_radius_y this * 2))))\<rparr>\<rparr>)"
  unfolding FFTCC2D_compute_def
  by (simp only: assms Let_def sum.case prod.case) simp

subsection \<open>Loops over a subset\<close>

lemma fold_nested:
  "fold (\<lambda>r. fold (f r) cs) rs s = fold (\<lambda>p. f (fst p) (snd p)) (concat (map (\<lambda>r. map (Pair r) cs) rs)) s"
  by (induction rs arbitrary: s) (simp_all add: fold_map comp_def)

lemma upto_Suc_last: "[i..i + int (Suc n) - 1] = [i..i + int n - 1] @ [i + int n]"
proof -
  have "i \<le> i + int n" by simp
  from upto_rec2 [OF this] show ?thesis by (simp add: add.commute add.left_commute)
qed

lemma map_add_upto: "map (\<lambda>c. a + c) [0..int n - 1] = [a..a + int n - 1]"
proof (induction n)
  case 0
  then show ?case by simp
next
  case (Suc n)
  have l: "[0..int (Suc n) - 1] = [0..int n - 1] @ [int n]"
    using upto_Suc_last [of 0 n] by simp
  have r: "[a..a + int (Suc n) - 1] = [a..a + int n - 1] @ [a + int n]"
    by (rule upto_Suc_last)
  show ?case unfolding l r using Suc by simp
qed

lemma upto_append: 
  assumes "i \<le> j" and "j \<le> k + 1" 
  shows "[i..j - 1] @ [j..k] = [i..k]"
proof (cases "j \<le> k")
  case True
  with assms(1) show ?thesis by (rule upto_split1 [symmetric])
next
  case False
  with assms have "j = k + 1" by simp
  then show ?thesis by simp
qed

lemma subset_points_index:
  "map (\<lambda>p. fst p * int wd + snd p)
       (concat (map (\<lambda>r. map (Pair r) [0..int wd - 1]) [0..int ht - 1]))
   = [0..int wd * int ht - 1]"
proof (induction ht)
  case 0
  then show ?case by simp
next
  case (Suc ht)
  have rows: "[0..int (Suc ht) - 1] = [0..int ht - 1] @ [int ht]"
    using upto_Suc_last [of 0 ht] by simp
  have "map (\<lambda>p. fst p * int wd + snd p) (map (Pair (int ht)) [0..int wd - 1])
      = map (\<lambda>c. int wd * int ht + c) [0..int wd - 1]"
    by (simp add: comp_def mult.commute)
  also have "\<dots> = [int wd * int ht..int wd * int ht + int wd - 1]"
    by (rule map_add_upto)
  finally have row: "map (\<lambda>p. fst p * int wd + snd p) (map (Pair (int ht)) [0..int wd - 1])
      = [int wd * int ht..int wd * int ht + int wd - 1]" .
  have ap: "[0..int wd * int ht - 1] @ [int wd * int ht..int wd * int ht + int wd - 1]
      = [0..int wd * int ht + int wd - 1]"
    by (rule upto_append) simp_all
  have e: "int wd * int (Suc ht) - 1 = int wd * int ht + int wd - 1"
    by (simp add: distrib_left)
  have "map (\<lambda>p. fst p * int wd + snd p)
       (concat (map (\<lambda>r. map (Pair r) [0..int wd - 1]) [0..int (Suc ht) - 1]))
     = map (\<lambda>p. fst p * int wd + snd p)
         (concat (map (\<lambda>r. map (Pair r) [0..int wd - 1]) [0..int ht - 1]))
       @ map (\<lambda>p. fst p * int wd + snd p) (map (Pair (int ht)) [0..int wd - 1])"
    unfolding rows by simp
  also have "\<dots> = [0..int wd * int ht - 1] @ [int wd * int ht..int wd * int ht + int wd - 1]"
    unfolding Suc row ..
  also have "\<dots> = [0..int wd * int (Suc ht) - 1]"
    unfolding ap e ..
  finally show ?case .
qed

lemma fold_upd_notin:
  "k \<notin> idx ` set ps \<Longrightarrow> fold (\<lambda>p b. b(idx p := f p)) ps b k = b k"
  by (induction ps arbitrary: b) simp_all

lemma fold_upd_in:
  "distinct (map idx ps) \<Longrightarrow> p \<in> set ps \<Longrightarrow> fold (\<lambda>p b. b(idx p := f p)) ps b (idx p) = f p"
proof (induction ps arbitrary: b)
  case Nil
  then show ?case by simp
next
  case (Cons q ps)
  have unfold: "fold (\<lambda>p b. b(idx p := f p)) (q # ps) b
      = fold (\<lambda>p b. b(idx p := f p)) ps (b(idx q := f q))"
    by simp
  show ?case
  proof (cases "p \<in> set ps")
    case True
    moreover from Cons.prems have "distinct (map idx ps)" by simp
    ultimately show ?thesis unfolding unfold by (intro Cons.IH)
  next
    case False
    with Cons.prems have pq: "p = q" and "idx q \<notin> idx ` set ps" by auto
    then have "fold (\<lambda>p b. b(idx p := f p)) ps (b(idx q := f q)) (idx q) = (b(idx q := f q)) (idx q)"
      by (intro fold_upd_notin)
    then show ?thesis unfolding unfold pq by (simp only: fun_upd_same)
  qed
qed

lemma fold_upd_values:
  assumes "distinct (map idx ps)"
  shows "map (fold (\<lambda>p b. b(idx p := f p)) ps b) (map idx ps) = map f ps"
proof -
  have "map (fold (\<lambda>p b. b(idx p := f p)) ps b) (map idx ps)
      = map (\<lambda>p. fold (\<lambda>p b. b(idx p := f p)) ps b (idx p)) ps"
    by (simp only: map_map comp_def)
  also have "\<dots> = map f ps"
    by (intro map_cong refl fold_upd_in [OF assms])
  finally show ?thesis .
qed

lemma fold_fill:
  "fold (\<lambda>p st. case st of (rb, tb, rm, tm) \<Rightarrow>
           (rb(idx p := f p), tb(idx p := g p), fadd rm (f p), fadd tm (g p))) ps (rb, tb, rm, tm)
   = (fold (\<lambda>p b. b(idx p := f p)) ps rb, fold (\<lambda>p b. b(idx p := g p)) ps tb,
      foldl fadd rm (map f ps), foldl fadd tm (map g ps))"
  by (induction ps arbitrary: rb tb rm tm) simp_all

lemma FFTCC2D_fill_pixel_eq:
  "FFTCC2D_fill_pixel this poi
      \<lparr>Point2D.x = DeformationVector2D.u (POI2D.deformation poi),
       Point2D.y = DeformationVector2D.v (POI2D.deformation poi)\<rparr> r c st
   = (case st of (rb, tb, rm, tm) \<Rightarrow>
       (rb(r * (FFTCC2D.subset_radius_x this * 2) + c := ref_pixel this poi (r, c)),
        tb(r * (FFTCC2D.subset_radius_x this * 2) + c := tar_pixel this poi (r, c)),
        fadd rm (ref_pixel this poi (r, c)), fadd tm (tar_pixel this poi (r, c))))"
  by (cases st) (simp add: FFTCC2D_fill_pixel_def Let_def ref_pixel_def tar_pixel_def point_add_def)

lemma FFTCC2D_zero_mean_eq:
  "FFTCC2D_zero_mean m1 m2 i (rb, tb, n1, n2)
      = (rb(i := fsub (rb i) m1), tb(i := fsub (tb i) m2),
         fadd n1 (fmul (fsub (rb i) m1) (fsub (rb i) m1)),
         fadd n2 (fmul (fsub (tb i) m2) (fsub (tb i) m2)))"
  by (simp add: FFTCC2D_zero_mean_def Let_def)

lemma fold_zero_mean:
  "distinct ks \<Longrightarrow>
   fold (FFTCC2D_zero_mean m1 m2) ks (rb, tb, n1, n2)
   = (\<lambda>k. if k \<in> set ks then fsub (rb k) m1 else rb k,
      \<lambda>k. if k \<in> set ks then fsub (tb k) m2 else tb k,
      foldl fadd n1 (map (\<lambda>k. fmul (fsub (rb k) m1) (fsub (rb k) m1)) ks),
      foldl fadd n2 (map (\<lambda>k. fmul (fsub (tb k) m2) (fsub (tb k) m2)) ks))"
proof (induction ks arbitrary: rb tb n1 n2)
  case Nil
  then show ?case by simp
next
  case (Cons i ks)
  then have d: "distinct ks" and ni: "i \<notin> set ks" by simp_all
  let ?rb = "rb(i := fsub (rb i) m1)" and ?tb = "tb(i := fsub (tb i) m2)"
  have unfold: "fold (FFTCC2D_zero_mean m1 m2) (i # ks) (rb, tb, n1, n2)
      = fold (FFTCC2D_zero_mean m1 m2) ks
          (?rb, ?tb, fadd n1 (fmul (fsub (rb i) m1) (fsub (rb i) m1)),
           fadd n2 (fmul (fsub (tb i) m2) (fsub (tb i) m2)))"
    by (simp only: fold_simps FFTCC2D_zero_mean_eq)
  have r: "map (\<lambda>k. fmul (fsub (?rb k) m1) (fsub (?rb k) m1)) ks
      = map (\<lambda>k. fmul (fsub (rb k) m1) (fsub (rb k) m1)) ks"
    using ni by (intro map_cong) auto
  have t: "map (\<lambda>k. fmul (fsub (?tb k) m2) (fsub (?tb k) m2)) ks
      = map (\<lambda>k. fmul (fsub (tb k) m2) (fsub (tb k) m2)) ks"
    using ni by (intro map_cong) auto
  have fr: "(\<lambda>k. if k \<in> set ks then fsub (?rb k) m1 else ?rb k)
      = (\<lambda>k. if k \<in> set (i # ks) then fsub (rb k) m1 else rb k)"
    using ni by (auto simp add: fun_eq_iff)
  have ft: "(\<lambda>k. if k \<in> set ks then fsub (?tb k) m2 else ?tb k)
      = (\<lambda>k. if k \<in> set (i # ks) then fsub (tb k) m2 else tb k)"
    using ni by (auto simp add: fun_eq_iff)
  show ?case
    unfolding unfold Cons.IH [OF d] r t fr ft by simp
qed

lemma subset_points_upto:
  assumes "0 \<le> rx" and "0 \<le> ry"
  shows "map (\<lambda>p. fst p * (rx * 2) + snd p) (subset_points rx ry) = [0..rx * 2 * (ry * 2) - 1]"
  using subset_points_index [of "nat (rx * 2)" "nat (ry * 2)"] assms
  by (simp add: subset_points_def)

lemma length_subset_points:
  assumes "0 \<le> rx" and "0 \<le> ry"
  shows "int (length (subset_points rx ry)) = rx * 2 * (ry * 2)"
proof -
  have "length (subset_points rx ry) = length (map (\<lambda>p. fst p * (rx * 2) + snd p) (subset_points rx ry))"
    by simp
  also have "\<dots> = length [0..rx * 2 * (ry * 2) - 1]"
    unfolding subset_points_upto [OF assms] ..
  finally show ?thesis using assms by simp
qed

lemma FFTCC2D_fill_eq:
  "fold (\<lambda>r. fold (FFTCC2D_fill_pixel this poi
            \<lparr>Point2D.x = DeformationVector2D.u (POI2D.deformation poi),
             Point2D.y = DeformationVector2D.v (POI2D.deformation poi)\<rparr> r)
          [0..FFTCC2D.subset_radius_x this * 2 - 1])
     [0..FFTCC2D.subset_radius_y this * 2 - 1] (rb, tb, rm, tm)
   = (fold (\<lambda>p b. b(fst p * (FFTCC2D.subset_radius_x this * 2) + snd p := ref_pixel this poi p))
        (subset_points (FFTCC2D.subset_radius_x this) (FFTCC2D.subset_radius_y this)) rb,
      fold (\<lambda>p b. b(fst p * (FFTCC2D.subset_radius_x this * 2) + snd p := tar_pixel this poi p))
        (subset_points (FFTCC2D.subset_radius_x this) (FFTCC2D.subset_radius_y this)) tb,
      foldl fadd rm (map (ref_pixel this poi)
        (subset_points (FFTCC2D.subset_radius_x this) (FFTCC2D.subset_radius_y this))),
      foldl fadd tm (map (tar_pixel this poi)
        (subset_points (FFTCC2D.subset_radius_x this) (FFTCC2D.subset_radius_y this))))"
  unfolding fold_nested FFTCC2D_fill_pixel_eq prod.collapse subset_points_def [symmetric]
  by (rule fold_fill)


lemma zero_mean_buffer:
  assumes "map b ks = as" and "int (length as) = n"
  shows "map (\<lambda>k. fsub (b k) (fdiv (foldl fadd (Fin 0) as) (float_of_int n))) ks = zero_mean as"
    and "foldl fadd (Fin 0)
           (map (\<lambda>k. fmul (fsub (b k) (fdiv (foldl fadd (Fin 0) as) (float_of_int n)))
                        (fsub (b k) (fdiv (foldl fadd (Fin 0) as) (float_of_int n)))) ks)
         = sum_of_squares (zero_mean as)"
proof -
  let ?m = "fdiv (foldl fadd (Fin 0) as) (float_of_int n)"
  have "map (\<lambda>k. fsub (b k) ?m) ks = map (\<lambda>a. fsub a ?m) (map b ks)"
    by (simp only: map_map comp_def)
  then show z: "map (\<lambda>k. fsub (b k) ?m) ks = zero_mean as"
    unfolding assms(1) zero_mean_def fsum_def assms(2) .
  have "map (\<lambda>k. fmul (fsub (b k) ?m) (fsub (b k) ?m)) ks
      = map (\<lambda>a. fmul a a) (map (\<lambda>k. fsub (b k) ?m) ks)"
    by (simp only: map_map comp_def)
  then show "foldl fadd (Fin 0) (map (\<lambda>k. fmul (fsub (b k) ?m) (fsub (b k) ?m)) ks)
      = sum_of_squares (zero_mean as)"
    unfolding z sum_of_squares_def fsum_def by (rule arg_cong)
qed

lemma FFTCC2D_subsets_refine:
  assumes rx: "0 \<le> FFTCC2D.subset_radius_x this" and ry: "0 \<le> FFTCC2D.subset_radius_y this"
    and s: "FFTCC2D_subsets this inst poi = (ref_buf, tar_buf, ref_norm, tar_norm)"
  shows "map ref_buf [0..FFTCC2D.subset_radius_x this * 2 * (FFTCC2D.subset_radius_y this * 2) - 1]
           = zero_mean (map (ref_pixel this poi)
               (subset_points (FFTCC2D.subset_radius_x this) (FFTCC2D.subset_radius_y this)))"
    and "map tar_buf [0..FFTCC2D.subset_radius_x this * 2 * (FFTCC2D.subset_radius_y this * 2) - 1]
           = zero_mean (map (tar_pixel this poi)
               (subset_points (FFTCC2D.subset_radius_x this) (FFTCC2D.subset_radius_y this)))"
    and "ref_norm = sum_of_squares (zero_mean (map (ref_pixel this poi)
               (subset_points (FFTCC2D.subset_radius_x this) (FFTCC2D.subset_radius_y this))))"
    and "tar_norm = sum_of_squares (zero_mean (map (tar_pixel this poi)
               (subset_points (FFTCC2D.subset_radius_x this) (FFTCC2D.subset_radius_y this))))"
proof -
  let ?rx = "FFTCC2D.subset_radius_x this" and ?ry = "FFTCC2D.subset_radius_y this"
  let ?ps = "subset_points ?rx ?ry"
  let ?n = "?rx * 2 * (?ry * 2)"
  let ?ks = "[0..?n - 1]"
  let ?idx = "\<lambda>p. fst p * (?rx * 2) + snd p"
  let ?rb = "fold (\<lambda>p b. b(?idx p := ref_pixel this poi p)) ?ps (FFTW.ref_subset inst)"
  let ?tb = "fold (\<lambda>p b. b(?idx p := tar_pixel this poi p)) ?ps (FFTW.tar_subset inst)"
  let ?m1 = "fdiv (foldl fadd (Fin 0) (map (ref_pixel this poi) ?ps)) (float_of_int ?n)"
  let ?m2 = "fdiv (foldl fadd (Fin 0) (map (tar_pixel this poi) ?ps)) (float_of_int ?n)"
  have ks: "map ?idx ?ps = ?ks" by (rule subset_points_upto [OF rx ry])
  have d: "distinct (map ?idx ?ps)" unfolding ks by simp
  have dks: "distinct ?ks" by simp
  have len1: "int (length (map (ref_pixel this poi) ?ps)) = ?n"
    using length_subset_points [OF rx ry] by simp
  have len2: "int (length (map (tar_pixel this poi) ?ps)) = ?n"
    using length_subset_points [OF rx ry] by simp
  have vr: "map ?rb ?ks = map (ref_pixel this poi) ?ps"
    unfolding ks [symmetric] by (rule fold_upd_values [OF d])
  have vt: "map ?tb ?ks = map (tar_pixel this poi) ?ps"
    unfolding ks [symmetric] by (rule fold_upd_values [OF d])
  have "FFTCC2D_subsets this inst poi
      = fold (FFTCC2D_zero_mean ?m1 ?m2) ?ks (?rb, ?tb, Fin 0, Fin 0)"
    unfolding FFTCC2D_subsets_def Let_def FFTCC2D_fill_eq prod.case ..
  also have "\<dots> = (\<lambda>k. if k \<in> set ?ks then fsub (?rb k) ?m1 else ?rb k,
      \<lambda>k. if k \<in> set ?ks then fsub (?tb k) ?m2 else ?tb k,
      foldl fadd (Fin 0) (map (\<lambda>k. fmul (fsub (?rb k) ?m1) (fsub (?rb k) ?m1)) ?ks),
      foldl fadd (Fin 0) (map (\<lambda>k. fmul (fsub (?tb k) ?m2) (fsub (?tb k) ?m2)) ?ks))"
    by (rule fold_zero_mean [OF dks])
  finally have e: "(ref_buf, tar_buf, ref_norm, tar_norm)
      = (\<lambda>k. if k \<in> set ?ks then fsub (?rb k) ?m1 else ?rb k,
      \<lambda>k. if k \<in> set ?ks then fsub (?tb k) ?m2 else ?tb k,
      foldl fadd (Fin 0) (map (\<lambda>k. fmul (fsub (?rb k) ?m1) (fsub (?rb k) ?m1)) ?ks),
      foldl fadd (Fin 0) (map (\<lambda>k. fmul (fsub (?tb k) ?m2) (fsub (?tb k) ?m2)) ?ks))"
    unfolding s .
  then have rbuf: "ref_buf = (\<lambda>k. if k \<in> set ?ks then fsub (?rb k) ?m1 else ?rb k)"
    and tbuf: "tar_buf = (\<lambda>k. if k \<in> set ?ks then fsub (?tb k) ?m2 else ?tb k)"
    and rn: "ref_norm = foldl fadd (Fin 0) (map (\<lambda>k. fmul (fsub (?rb k) ?m1) (fsub (?rb k) ?m1)) ?ks)"
    and tn: "tar_norm = foldl fadd (Fin 0) (map (\<lambda>k. fmul (fsub (?tb k) ?m2) (fsub (?tb k) ?m2)) ?ks)"
    by simp_all
  have "map ref_buf ?ks = map (\<lambda>k. fsub (?rb k) ?m1) ?ks"
    unfolding rbuf by (rule map_cong) simp_all
  then show "map ref_buf ?ks = zero_mean (map (ref_pixel this poi) ?ps)"
    unfolding zero_mean_buffer(1) [OF vr len1] .
  have "map tar_buf ?ks = map (\<lambda>k. fsub (?tb k) ?m2) ?ks"
    unfolding tbuf by (rule map_cong) simp_all
  then show "map tar_buf ?ks = zero_mean (map (tar_pixel this poi) ?ps)"
    unfolding zero_mean_buffer(1) [OF vt len2] .
  show "ref_norm = sum_of_squares (zero_mean (map (ref_pixel this poi) ?ps))"
    unfolding rn by (rule zero_mean_buffer(2) [OF vr len1])
  show "tar_norm = sum_of_squares (zero_mean (map (tar_pixel this poi) ?ps))"
    unfolding tn by (rule zero_mean_buffer(2) [OF vt len2])
qed

subsection \<open>The search for the largest entry and its index\<close>

lemma flt_irrefl: "\<not> flt a a"
  by (cases a) simp_all

lemma flt_below:
  "\<not> isnan m1 \<Longrightarrow> \<not> isnan m2 \<Longrightarrow> \<not> flt m2 m1 \<Longrightarrow> \<not> flt m1 a \<Longrightarrow> \<not> flt m2 a"
  by (cases m1; cases m2; cases a) (simp_all add: isnan_def)

lemma flt_not_nan: "flt a b \<Longrightarrow> \<not> isnan a \<and> \<not> isnan b"
  by (cases a; cases b) (simp_all add: isnan_def)

lemma flt_asym: "flt a b \<Longrightarrow> \<not> flt b a"
  by (cases a; cases b) simp_all

lemma search_max_step:
  assumes "\<not> isnan m" and "search_max b i (m, k) = (m1, k1)"
  shows "\<not> isnan m1" and "\<not> flt m1 m" and "\<not> flt m1 (b i)"
    and "(m1 = m \<and> k1 = k) \<or> (k1 = i \<and> m1 = b i)"
  using assms flt_not_nan [of m "b i"] flt_asym [of m "b i"] flt_irrefl [of m] flt_irrefl [of "b i"]
  by (auto simp add: search_max_def fgt_def split: if_splits)

lemma search_max_fold:
  assumes "\<not> isnan m" and "fold (search_max b) ks (m, k) = (m', k')"
  shows "\<not> isnan m' \<and> \<not> flt m' m \<and> (\<forall>j\<in>set ks. \<not> flt m' (b j))
     \<and> ((m' = m \<and> k' = k) \<or> (k' \<in> set ks \<and> m' = b k'))"
  using assms
proof (induction ks arbitrary: m k)
  case Nil
  then show ?case by (simp add: flt_irrefl)
next
  case (Cons i ks)
  obtain m1 k1 where s: "search_max b i (m, k) = (m1, k1)" by (cases "search_max b i (m, k)")
  note st = search_max_step [OF Cons.prems(1) s]
  from Cons.prems(2) have f: "fold (search_max b) ks (m1, k1) = (m', k')" by (simp add: s)
  note ih = Cons.IH [OF st(1) f]
  from ih have n: "\<not> isnan m'" and le: "\<not> flt m' m1" and rest: "\<forall>j\<in>set ks. \<not> flt m' (b j)"
    and k: "(m' = m1 \<and> k' = k1) \<or> (k' \<in> set ks \<and> m' = b k')"
    by simp_all
  have a: "\<not> flt m' m" by (rule flt_below [OF st(1) n le st(2)])
  have c: "\<not> flt m' (b i)" by (rule flt_below [OF st(1) n le st(3)])
  from k st(4) have "(m' = m \<and> k' = k) \<or> (k' \<in> set (i # ks) \<and> m' = b k')" by auto
  with n a c rest show ?case by simp
qed

lemma local_displacement_range:
  assumes "1 \<le> rx" and "1 \<le> ry" and "0 \<le> k" and "k < rx * 2 * (ry * 2)"
  shows "local_displacement rx ry k =
      ((if k mod (rx * 2) > rx then k mod (rx * 2) - rx * 2 else k mod (rx * 2)),
       (if k div (rx * 2) > ry then k div (rx * 2) - ry * 2 else k div (rx * 2)))"
    and "- rx < fst (local_displacement rx ry k)" and "fst (local_displacement rx ry k) \<le> rx"
    and "- ry < snd (local_displacement rx ry k)" and "snd (local_displacement rx ry k) \<le> ry"
proof -
  have w: "0 < rx * 2" using assms(1) by simp
  have sm: "k smod (rx * 2) = k mod (rx * 2)" and sd: "k sdiv (rx * 2) = k div (rx * 2)"
    using assms(3) w by (simp_all add: signed_modulo_int_def signed_divide_int_def sgn_if)
  show e: "local_displacement rx ry k =
      ((if k mod (rx * 2) > rx then k mod (rx * 2) - rx * 2 else k mod (rx * 2)),
       (if k div (rx * 2) > ry then k div (rx * 2) - ry * 2 else k div (rx * 2)))"
    by (simp add: local_displacement_def Let_def sm sd)
  have m0: "0 \<le> k mod (rx * 2)" and m1: "k mod (rx * 2) < rx * 2"
    using w by simp_all
  have d0: "0 \<le> k div (rx * 2)" using assms(3) w by (simp add: pos_imp_zdiv_nonneg_iff)
  have d1: "k div (rx * 2) < ry * 2"
  proof (rule ccontr)
    assume "\<not> k div (rx * 2) < ry * 2"
    then have "ry * 2 \<le> k div (rx * 2)" by simp
    then have "ry * 2 * (rx * 2) \<le> k div (rx * 2) * (rx * 2)"
      using w by (intro mult_right_mono) simp_all
    also have "\<dots> \<le> k div (rx * 2) * (rx * 2) + k mod (rx * 2)" using m0 by simp
    also have "\<dots> = k" by (rule div_mult_mod_eq)
    finally show False using assms(4) by (simp add: mult.commute)
  qed
  define a where "a = k mod (rx * 2)"
  define d where "d = k div (rx * 2)"
  have e': "local_displacement rx ry k =
      ((if a > rx then a - rx * 2 else a), (if d > ry then d - ry * 2 else d))"
    unfolding a_def d_def by (rule e)
  have a: "0 \<le> a" "a < rx * 2" using m0 m1 unfolding a_def .
  have d: "0 \<le> d" "d < ry * 2" using d0 d1 unfolding d_def .
  show "- rx < fst (local_displacement rx ry k)" "fst (local_displacement rx ry k) \<le> rx"
    using a assms(1) unfolding e' by simp_all
  show "- ry < snd (local_displacement rx ry k)" "snd (local_displacement rx ry k) \<le> ry"
    using d assms(2) unfolding e' by simp_all
qed

subsection \<open>The sample correlation, step by step\<close>

lemma sample_FFTCC2D_fields:
  "FFTCC2D.subset_radius_x sample_FFTCC2D = 1" "FFTCC2D.subset_radius_y sample_FFTCC2D = 1"
  "FFTCC2D.ref_img sample_FFTCC2D = striped_image 0"
  "FFTCC2D.tar_img sample_FFTCC2D = striped_image 1"
  "FFTCC2D.instance_pool sample_FFTCC2D = [sample_FFTW 0, sample_FFTW 1]"
  by (simp_all add: sample_FFTCC2D_def FFTCC2D_new_def fill_pool_from_empty upt_rec)

lemma int_of_float_of_int:
  "- 2147483648 \<le> i \<Longrightarrow> i \<le> 2147483647 \<Longrightarrow> int_of_float (float_of_int i) = i"
  by (simp add: int_of_float_def float_of_int_def)

lemma upto_eval: "[0..1] = [0, 1]" "[0..3] = [0, 1, 2, 3]"
  by (simp_all add: upto.simps)

lemma sample_subsets:
  "\<exists>rb tb. FFTCC2D_subsets sample_FFTCC2D (sample_FFTW 0)
        (poi_2D 5 5 (guess_2D (Fin 0) (Fin 0) c)) = (rb, tb, Fin 4, Fin 4)
     \<and> rb 0 = Fin (- 1) \<and> rb 1 = Fin 1 \<and> rb 2 = Fin (- 1) \<and> rb 3 = Fin 1
     \<and> tb 0 = Fin 1 \<and> tb 1 = Fin (- 1) \<and> tb 2 = Fin 1 \<and> tb 3 = Fin (- 1)"
proof -
  have d: "DeformationVector2D.u (POI2D.deformation (poi_2D 5 5 (guess_2D (Fin 0) (Fin 0) c))) = Fin 0"
    "DeformationVector2D.v (POI2D.deformation (poi_2D 5 5 (guess_2D (Fin 0) (Fin 0) c))) = Fin 0"
    by (simp_all add: poi_2D_def guess_2D_def)
  have b: "FFTW.ref_subset (sample_FFTW 0) = (\<lambda>k. Fin 0)" "FFTW.tar_subset (sample_FFTW 0) = (\<lambda>k. Fin 0)"
    by (simp_all add: sample_FFTW_def)
  show ?thesis
    unfolding FFTCC2D_subsets_def sample_FFTCC2D_fields d b
    by (simp add: upto_eval Let_def FFTCC2D_zero_mean_def FFTCC2D_fill_pixel_def
        sample_FFTCC2D_fields poi_2D_def striped_image_def point_add_def float_of_int_def
        int_of_float_def fsub_def)
qed

lemma sample_correlation:
  assumes "rb 0 = Fin (- 1)" "rb 1 = Fin 1" "rb 2 = Fin (- 1)" "rb 3 = Fin 1"
    and "tb 0 = Fin 1" "tb 1 = Fin (- 1)" "tb 2 = Fin 1" "tb 3 = Fin (- 1)"
  shows "FFTCC2D_correlation sample_FFTCC2D (sample_FFTW 0) rb tb
   = (\<lambda>n. if n = 0 then Fin (- 16) else if n = 1 then Fin 16 else if n = 2 then Fin (- 16)
           else if n = 3 then Fin 16 else Fin 0)"
proof -
  have p: "FFTW.ref_plan (sample_FFTW 0) = dft_2x2" "FFTW.tar_plan (sample_FFTW 0) = dft_2x2"
    "FFTW.zncc_plan (sample_FFTW 0) = inverse_dft_2x2"
    "FFTW.zncc_freq (sample_FFTW 0) = (\<lambda>k. (Fin 0, Fin 0))"
    by (simp_all add: sample_FFTW_def)
  show ?thesis
    unfolding FFTCC2D_correlation_def sample_FFTCC2D_fields p
    by (rule ext)
      (simp add: assms upto_eval Let_def cross_spectrum_def dft_2x2_def inverse_dft_2x2_def
        fsub_def)
qed

lemma sample_local_displacement: "local_displacement 1 1 1 = (1, 0)"
  by (simp add: local_displacement_def Let_def signed_divide_int_def signed_modulo_int_def)

lemma sample_fftcc_compute:
  "FFTCC2D_compute sample_FFTCC2D 0 (poi_2D 5 5 (guess_2D (Fin 0) (Fin 0) c))
   = Computed ((poi_2D 5 5 (guess_2D (Fin 0) (Fin 0) c))
       \<lparr>POI2D.deformation := (guess_2D (Fin 0) (Fin 0) c)
          \<lparr>DeformationVector2D.u := Fin 1, DeformationVector2D.v := Fin 0\<rparr>,
        POI2D.result := (POI2D.result (poi_2D 5 5 (guess_2D (Fin 0) (Fin 0) c)))
          \<lparr>Result2D.u0 := Fin 0, Result2D.v0 := Fin 0, Result2D.zncc := Fin 1\<rparr>\<rparr>)"
proof -
  have i: "getInstance (FFTCC2D.instance_pool sample_FFTCC2D) 0 = Inr (sample_FFTW 0)"
    by (simp add: getInstance_def sample_FFTCC2D_fields)
  from sample_subsets obtain rb tb
    where sub: "FFTCC2D_subsets sample_FFTCC2D (sample_FFTW 0)
        (poi_2D 5 5 (guess_2D (Fin 0) (Fin 0) c)) = (rb, tb, Fin 4, Fin 4)"
      and v: "rb 0 = Fin (- 1)" "rb 1 = Fin 1" "rb 2 = Fin (- 1)" "rb 3 = Fin 1"
        "tb 0 = Fin 1" "tb 1 = Fin (- 1)" "tb 2 = Fin 1" "tb 3 = Fin (- 1)"
    by blast
  have s: "fold (search_max (FFTCC2D_correlation sample_FFTCC2D (sample_FFTW 0) rb tb))
           [0..FFTCC2D.subset_radius_x sample_FFTCC2D * 2
               * (FFTCC2D.subset_radius_y sample_FFTCC2D * 2) - 1]
           (float_of_int (- 2), 0) = (Fin 16, 1)"
    unfolding sample_correlation [OF v] sample_FFTCC2D_fields
    by (simp add: upto_eval search_max_def fgt_def float_of_int_def)
  have l: "local_displacement (FFTCC2D.subset_radius_x sample_FFTCC2D)
      (FFTCC2D.subset_radius_y sample_FFTCC2D) 1 = (1, 0)"
    by (simp add: sample_FFTCC2D_fields sample_local_displacement)
  show ?thesis
    unfolding FFTCC2D_compute_Inr [OF i sub s l]
    by (simp add: sample_FFTCC2D_fields poi_2D_def guess_2D_def float_of_int_def)
qed

subsection \<open>C10: what \<^verbatim>\<open>FFTCC2D::compute\<close> writes\<close>

text \<open>
  Claim C10. Whatever the estimator, the thread id and the point of interest,
  \<^verbatim>\<open>FFTCC2D::compute\<close> leaves the coordinates of the point of interest as they were;
  of the deformation it writes at most \<open>u\<close> and \<open>v\<close>, so the gradients and every other
  component are the old ones; of the result it writes at most \<open>u0\<close>, \<open>v0\<close> and \<open>zncc\<close>,
  so \<open>iteration\<close> and \<open>convergence\<close> are the old ones. It never rejects a point: the
  call either ends with the exception of \<^verbatim>\<open>getInstance\<close> or computes, and then
  \<open>u0\<close> and \<open>v0\<close> are the initial guess.
\<close>

theorem fftcc_compute_frame:
  "POI2D.x (poi_of (FFTCC2D_compute this tid poi)) = POI2D.x poi
   \<and> POI2D.y (poi_of (FFTCC2D_compute this tid poi)) = POI2D.y poi
   \<and> POI2D.deformation (poi_of (FFTCC2D_compute this tid poi))
       = (POI2D.deformation poi)
           \<lparr>DeformationVector2D.u :=
              DeformationVector2D.u (POI2D.deformation (poi_of (FFTCC2D_compute this tid poi))),
            DeformationVector2D.v :=
              DeformationVector2D.v (POI2D.deformation (poi_of (FFTCC2D_compute this tid poi)))\<rparr>
   \<and> POI2D.result (poi_of (FFTCC2D_compute this tid poi))
       = (POI2D.result poi)
           \<lparr>Result2D.u0 := Result2D.u0 (POI2D.result (poi_of (FFTCC2D_compute this tid poi))),
            Result2D.v0 := Result2D.v0 (POI2D.result (poi_of (FFTCC2D_compute this tid poi))),
            Result2D.zncc := Result2D.zncc (POI2D.result (poi_of (FFTCC2D_compute this tid poi)))\<rparr>
   \<and> (\<forall>q. FFTCC2D_compute this tid poi \<noteq> Rejected q)
   \<and> (FFTCC2D_compute this tid poi = Thrown CPU_thread_ID_over_limit poi
        \<or> FFTCC2D_compute this tid poi = Thrown Index_out_of_range poi
        \<or> FFTCC2D_compute this tid poi = Computed (poi_of (FFTCC2D_compute this tid poi))
          \<and> Result2D.u0 (POI2D.result (poi_of (FFTCC2D_compute this tid poi)))
              = DeformationVector2D.u (POI2D.deformation poi)
          \<and> Result2D.v0 (POI2D.result (poi_of (FFTCC2D_compute this tid poi)))
              = DeformationVector2D.v (POI2D.deformation poi))"
proof (cases "getInstance (FFTCC2D.instance_pool this) tid")
  case (Inl e)
  then show ?thesis
    by (cases e) (simp_all add: FFTCC2D_compute_def)
next
  case (Inr inst)
  obtain ref_buf tar_buf ref_norm tar_norm
    where a: "FFTCC2D_subsets this inst poi = (ref_buf, tar_buf, ref_norm, tar_norm)"
    by (cases "FFTCC2D_subsets this inst poi") auto
  obtain max_zncc k
    where b: "fold (search_max (FFTCC2D_correlation this inst ref_buf tar_buf))
           [0..FFTCC2D.subset_radius_x this * 2 * (FFTCC2D.subset_radius_y this * 2) - 1]
           (float_of_int (- 2), 0) = (max_zncc, k)"
    by (cases "fold (search_max (FFTCC2D_correlation this inst ref_buf tar_buf))
           [0..FFTCC2D.subset_radius_x this * 2 * (FFTCC2D.subset_radius_y this * 2) - 1]
           (float_of_int (- 2), 0)") auto
  obtain du dv
    where c: "local_displacement (FFTCC2D.subset_radius_x this) (FFTCC2D.subset_radius_y this) k = (du, dv)"
    by (cases "local_displacement (FFTCC2D.subset_radius_x this) (FFTCC2D.subset_radius_y this) k") auto
  show ?thesis
    unfolding FFTCC2D_compute_Inr [OF Inr a b c]
    by simp
qed

text \<open>
  On the striped images: the guess has \<open>ux = 7\<close>, the result comes with iteration
  count and convergence \<open>0\<close>; after the call \<open>u\<close>, \<open>v\<close> and \<open>zncc\<close> are new and the
  rest is as it was. With thread id \<open>2\<close> of two the call throws.
\<close>

theorem fftcc_compute_frame_witness:
  "POI2D.x (poi_of (FFTCC2D_compute sample_FFTCC2D 0 (poi_2D 5 5 (guess_2D (Fin 0) (Fin 0) (Fin 7))))) = 5
   \<and> POI2D.y (poi_of (FFTCC2D_compute sample_FFTCC2D 0 (poi_2D 5 5 (guess_2D (Fin 0) (Fin 0) (Fin 7))))) = 5
   \<and> DeformationVector2D.ux (POI2D.deformation
        (poi_of (FFTCC2D_compute sample_FFTCC2D 0 (poi_2D 5 5 (guess_2D (Fin 0) (Fin 0) (Fin 7)))))) = Fin 7
   \<and> DeformationVector2D.u (POI2D.deformation
        (poi_of (FFTCC2D_compute sample_FFTCC2D 0 (poi_2D 5 5 (guess_2D (Fin 0) (Fin 0) (Fin 7)))))) = Fin 1
   \<and> Result2D.zncc (POI2D.result
        (poi_of (FFTCC2D_compute sample_FFTCC2D 0 (poi_2D 5 5 (guess_2D (Fin 0) (Fin 0) (Fin 7)))))) = Fin 1
   \<and> Result2D.iteration (POI2D.result
        (poi_of (FFTCC2D_compute sample_FFTCC2D 0 (poi_2D 5 5 (guess_2D (Fin 0) (Fin 0) (Fin 7))))))
      = Result2D.iteration (POI2D.result (poi_2D 5 5 (guess_2D (Fin 0) (Fin 0) (Fin 7))))
   \<and> FFTCC2D_compute sample_FFTCC2D 2 (poi_2D 5 5 (guess_2D (Fin 0) (Fin 0) (Fin 7)))
      = Thrown CPU_thread_ID_over_limit (poi_2D 5 5 (guess_2D (Fin 0) (Fin 0) (Fin 7)))"
proof -
  note c = sample_fftcc_compute [of "Fin 7"]
  have t: "FFTCC2D_compute sample_FFTCC2D 2 (poi_2D 5 5 (guess_2D (Fin 0) (Fin 0) (Fin 7)))
      = Thrown CPU_thread_ID_over_limit (poi_2D 5 5 (guess_2D (Fin 0) (Fin 0) (Fin 7)))"
    by (simp add: FFTCC2D_compute_def getInstance_def sample_FFTCC2D_fields)
  from fftcc_compute_frame [of sample_FFTCC2D 0 "poi_2D 5 5 (guess_2D (Fin 0) (Fin 0) (Fin 7))"]
  show ?thesis
    unfolding c t by (simp add: poi_2D_def guess_2D_def)
qed

subsection \<open>C2: the index of the peak as a displacement\<close>

lemma search_max_index:
  assumes "0 < n" and "fold (search_max b) [0..n - 1] (float_of_int (- 2), 0) = (peak, k)"
  shows "0 \<le> k \<and> k < n"
proof -
  have "\<not> isnan (float_of_int (- 2))" by (simp add: isnan_def float_of_int_def)
  from search_max_fold [OF this assms(2)]
  have "k = 0 \<or> k \<in> set [0..n - 1]" by blast
  with assms(1) show ?thesis by auto
qed

lemma sample_peak:
  "\<exists>rb tb. FFTCC2D_subsets sample_FFTCC2D (sample_FFTW 0)
        (poi_2D 5 5 (guess_2D (Fin 0) (Fin 0) c)) = (rb, tb, Fin 4, Fin 4)
     \<and> fold (search_max (FFTCC2D_correlation sample_FFTCC2D (sample_FFTW 0) rb tb))
           [0..FFTCC2D.subset_radius_x sample_FFTCC2D * 2
               * (FFTCC2D.subset_radius_y sample_FFTCC2D * 2) - 1]
           (float_of_int (- 2), 0) = (Fin 16, 1)"
proof -
  from sample_subsets obtain rb tb
    where sub: "FFTCC2D_subsets sample_FFTCC2D (sample_FFTW 0)
        (poi_2D 5 5 (guess_2D (Fin 0) (Fin 0) c)) = (rb, tb, Fin 4, Fin 4)"
      and v: "rb 0 = Fin (- 1)" "rb 1 = Fin 1" "rb 2 = Fin (- 1)" "rb 3 = Fin 1"
        "tb 0 = Fin 1" "tb 1 = Fin (- 1)" "tb 2 = Fin 1" "tb 3 = Fin (- 1)"
    by blast
  have "fold (search_max (FFTCC2D_correlation sample_FFTCC2D (sample_FFTW 0) rb tb))
           [0..FFTCC2D.subset_radius_x sample_FFTCC2D * 2
               * (FFTCC2D.subset_radius_y sample_FFTCC2D * 2) - 1]
           (float_of_int (- 2), 0) = (Fin 16, 1)"
    unfolding sample_correlation [OF v] sample_FFTCC2D_fields
    by (simp add: upto_eval search_max_def fgt_def float_of_int_def)
  with sub show ?thesis by blast
qed

lemma sample_instance:
  "getInstance (FFTCC2D.instance_pool sample_FFTCC2D) 0 = Inr (sample_FFTW 0)"
  by (simp add: getInstance_def sample_FFTCC2D_fields)

text \<open>
  Claim C2, amended. With subset radii of at least one and an instance for the thread,
  the index \<open>k\<close> that the search of \<^verbatim>\<open>FFTCC2D::compute\<close> ends with lies in the buffer,
  \<open>0 \<le> k < 2rx \<sqdot> 2ry\<close>. It is decoded as \<open>du = k mod 2rx\<close>, \<open>dv = k div 2rx\<close>, and
  the full size is subtracted from a value that is greater than the radius. The
  displacement so found satisfies \<open>-rx < du \<le> rx\<close> and \<open>-ry < dv \<le> ry\<close>: the radius
  itself is not greater than the radius and stays. It is what the call adds to the
  initial guess.
\<close>

theorem fftcc_peak_decoding:
  assumes "getInstance (FFTCC2D.instance_pool est) tid = Inr inst"
    and "1 \<le> FFTCC2D.subset_radius_x est" and "1 \<le> FFTCC2D.subset_radius_y est"
  shows "\<exists>ref_buf tar_buf ref_norm tar_norm peak k du dv.
      FFTCC2D_subsets est inst poi = (ref_buf, tar_buf, ref_norm, tar_norm)
    \<and> fold (search_max (FFTCC2D_correlation est inst ref_buf tar_buf))
         [0..FFTCC2D.subset_radius_x est * 2 * (FFTCC2D.subset_radius_y est * 2) - 1]
         (float_of_int (- 2), 0) = (peak, k)
    \<and> 0 \<le> k \<and> k < FFTCC2D.subset_radius_x est * 2 * (FFTCC2D.subset_radius_y est * 2)
    \<and> local_displacement (FFTCC2D.subset_radius_x est) (FFTCC2D.subset_radius_y est) k = (du, dv)
    \<and> du = (if k mod (FFTCC2D.subset_radius_x est * 2) > FFTCC2D.subset_radius_x est
             then k mod (FFTCC2D.subset_radius_x est * 2) - FFTCC2D.subset_radius_x est * 2
             else k mod (FFTCC2D.subset_radius_x est * 2))
    \<and> dv = (if k div (FFTCC2D.subset_radius_x est * 2) > FFTCC2D.subset_radius_y est
             then k div (FFTCC2D.subset_radius_x est * 2) - FFTCC2D.subset_radius_y est * 2
             else k div (FFTCC2D.subset_radius_x est * 2))
    \<and> - FFTCC2D.subset_radius_x est < du \<and> du \<le> FFTCC2D.subset_radius_x est
    \<and> - FFTCC2D.subset_radius_y est < dv \<and> dv \<le> FFTCC2D.subset_radius_y est
    \<and> DeformationVector2D.u (POI2D.deformation (poi_of (FFTCC2D_compute est tid poi)))
        = fadd (float_of_int du) (DeformationVector2D.u (POI2D.deformation poi))
    \<and> DeformationVector2D.v (POI2D.deformation (poi_of (FFTCC2D_compute est tid poi)))
        = fadd (float_of_int dv) (DeformationVector2D.v (POI2D.deformation poi))"
proof -
  let ?rx = "FFTCC2D.subset_radius_x est" and ?ry = "FFTCC2D.subset_radius_y est"
  obtain ref_buf tar_buf ref_norm tar_norm
    where a: "FFTCC2D_subsets est inst poi = (ref_buf, tar_buf, ref_norm, tar_norm)"
    by (cases "FFTCC2D_subsets est inst poi") auto
  obtain peak k
    where b: "fold (search_max (FFTCC2D_correlation est inst ref_buf tar_buf))
           [0..?rx * 2 * (?ry * 2) - 1] (float_of_int (- 2), 0) = (peak, k)"
    by (cases "fold (search_max (FFTCC2D_correlation est inst ref_buf tar_buf))
           [0..?rx * 2 * (?ry * 2) - 1] (float_of_int (- 2), 0)") auto
  obtain du dv where c: "local_displacement ?rx ?ry k = (du, dv)"
    by (cases "local_displacement ?rx ?ry k") auto
  have "0 < ?rx * 2" and "0 < ?ry * 2" using assms(2,3) by simp_all
  then have n: "0 < ?rx * 2 * (?ry * 2)" by (rule mult_pos_pos)
  from search_max_index [OF n b] have k: "0 \<le> k" "k < ?rx * 2 * (?ry * 2)" by simp_all
  note r = local_displacement_range [OF assms(2,3) k]
  from r(1) c have d: "du = (if k mod (?rx * 2) > ?rx then k mod (?rx * 2) - ?rx * 2 else k mod (?rx * 2))"
    "dv = (if k div (?rx * 2) > ?ry then k div (?rx * 2) - ?ry * 2 else k div (?rx * 2))"
    by simp_all
  from r(2-5) c have e: "- ?rx < du" "du \<le> ?rx" "- ?ry < dv" "dv \<le> ?ry" by simp_all
  have f: "DeformationVector2D.u (POI2D.deformation (poi_of (FFTCC2D_compute est tid poi)))
        = fadd (float_of_int du) (DeformationVector2D.u (POI2D.deformation poi))"
    "DeformationVector2D.v (POI2D.deformation (poi_of (FFTCC2D_compute est tid poi)))
        = fadd (float_of_int dv) (DeformationVector2D.v (POI2D.deformation poi))"
    unfolding FFTCC2D_compute_Inr [OF assms(1) a b c] by simp_all
  show ?thesis
    by (rule exI [of _ ref_buf], rule exI [of _ tar_buf], rule exI [of _ ref_norm],
        rule exI [of _ tar_norm], rule exI [of _ peak], rule exI [of _ k],
        rule exI [of _ du], rule exI [of _ dv])
      (intro conjI a b k c d e f)
qed

text \<open>
  On the striped images with subset radius one the search ends at an index in the
  buffer of four entries and the displacement lies in the range.
\<close>

theorem fftcc_peak_decoding_witness:
  "getInstance (FFTCC2D.instance_pool sample_FFTCC2D) 0 = Inr (sample_FFTW 0)
   \<and> 1 \<le> FFTCC2D.subset_radius_x sample_FFTCC2D \<and> 1 \<le> FFTCC2D.subset_radius_y sample_FFTCC2D
   \<and> (\<exists>k du dv. 0 \<le> k \<and> k < 4
        \<and> local_displacement 1 1 k = (du, dv) \<and> - 1 < du \<and> du \<le> 1 \<and> - 1 < dv \<and> dv \<le> 1
        \<and> DeformationVector2D.u (POI2D.deformation (poi_of
             (FFTCC2D_compute sample_FFTCC2D 0 (poi_2D 5 5 (guess_2D (Fin 0) (Fin 0) (Fin 0))))))
           = fadd (float_of_int du) (Fin 0))"
proof -
  have r: "1 \<le> FFTCC2D.subset_radius_x sample_FFTCC2D" "1 \<le> FFTCC2D.subset_radius_y sample_FFTCC2D"
    by (simp_all add: sample_FFTCC2D_fields)
  have g: "DeformationVector2D.u (POI2D.deformation (poi_2D 5 5 (guess_2D (Fin 0) (Fin 0) (Fin 0)))) = Fin 0"
    by (simp add: poi_2D_def guess_2D_def)
  from fftcc_peak_decoding [OF sample_instance r, of "poi_2D 5 5 (guess_2D (Fin 0) (Fin 0) (Fin 0))"]
  obtain k du dv where "0 \<le> k"
    and "k < FFTCC2D.subset_radius_x sample_FFTCC2D * 2 * (FFTCC2D.subset_radius_y sample_FFTCC2D * 2)"
    and "local_displacement (FFTCC2D.subset_radius_x sample_FFTCC2D)
           (FFTCC2D.subset_radius_y sample_FFTCC2D) k = (du, dv)"
    and "- FFTCC2D.subset_radius_x sample_FFTCC2D < du" and "du \<le> FFTCC2D.subset_radius_x sample_FFTCC2D"
    and "- FFTCC2D.subset_radius_y sample_FFTCC2D < dv" and "dv \<le> FFTCC2D.subset_radius_y sample_FFTCC2D"
    and "DeformationVector2D.u (POI2D.deformation (poi_of
             (FFTCC2D_compute sample_FFTCC2D 0 (poi_2D 5 5 (guess_2D (Fin 0) (Fin 0) (Fin 0))))))
           = fadd (float_of_int du)
               (DeformationVector2D.u (POI2D.deformation (poi_2D 5 5 (guess_2D (Fin 0) (Fin 0) (Fin 0)))))"
    by (elim exE conjE)
  then have "0 \<le> k \<and> k < 4
        \<and> local_displacement 1 1 k = (du, dv) \<and> - 1 < du \<and> du \<le> 1 \<and> - 1 < dv \<and> dv \<le> 1
        \<and> DeformationVector2D.u (POI2D.deformation (poi_of
             (FFTCC2D_compute sample_FFTCC2D 0 (poi_2D 5 5 (guess_2D (Fin 0) (Fin 0) (Fin 0))))))
           = fadd (float_of_int du) (Fin 0)"
    unfolding sample_FFTCC2D_fields g by simp
  then have "\<exists>k du dv. 0 \<le> k \<and> k < 4
        \<and> local_displacement 1 1 k = (du, dv) \<and> - 1 < du \<and> du \<le> 1 \<and> - 1 < dv \<and> dv \<le> 1
        \<and> DeformationVector2D.u (POI2D.deformation (poi_of
             (FFTCC2D_compute sample_FFTCC2D 0 (poi_2D 5 5 (guess_2D (Fin 0) (Fin 0) (Fin 0))))))
           = fadd (float_of_int du) (Fin 0)"
    by (intro exI)
  with sample_instance r show ?thesis by (intro conjI)
qed

text \<open>
  The claim as it was stated asks for \<open>du < rx\<close>. On the striped images, whose target
  is the reference moved by one pixel, the search ends at index \<open>1\<close>; with subset radius
  one it is decoded as \<open>du = 1\<close>, which is not greater than the radius and so is not
  wrapped: \<open>du = rx\<close>, and the call reports \<open>u = 1\<close>.
\<close>

theorem fftcc_decoding_counterexample:
  "(\<exists>rb tb. FFTCC2D_subsets sample_FFTCC2D (sample_FFTW 0)
        (poi_2D 5 5 (guess_2D (Fin 0) (Fin 0) (Fin 0))) = (rb, tb, Fin 4, Fin 4)
     \<and> fold (search_max (FFTCC2D_correlation sample_FFTCC2D (sample_FFTW 0) rb tb))
           [0..FFTCC2D.subset_radius_x sample_FFTCC2D * 2
               * (FFTCC2D.subset_radius_y sample_FFTCC2D * 2) - 1]
           (float_of_int (- 2), 0) = (Fin 16, 1))
   \<and> local_displacement (FFTCC2D.subset_radius_x sample_FFTCC2D)
        (FFTCC2D.subset_radius_y sample_FFTCC2D) 1 = (1, 0)
   \<and> \<not> (- FFTCC2D.subset_radius_x sample_FFTCC2D
           \<le> fst (local_displacement (FFTCC2D.subset_radius_x sample_FFTCC2D)
                  (FFTCC2D.subset_radius_y sample_FFTCC2D) 1)
         \<and> fst (local_displacement (FFTCC2D.subset_radius_x sample_FFTCC2D)
                  (FFTCC2D.subset_radius_y sample_FFTCC2D) 1)
           < FFTCC2D.subset_radius_x sample_FFTCC2D)
   \<and> DeformationVector2D.u (POI2D.deformation (poi_of
        (FFTCC2D_compute sample_FFTCC2D 0 (poi_2D 5 5 (guess_2D (Fin 0) (Fin 0) (Fin 0)))))) = Fin 1"
proof -
  have l: "local_displacement (FFTCC2D.subset_radius_x sample_FFTCC2D)
      (FFTCC2D.subset_radius_y sample_FFTCC2D) 1 = (1, 0)"
    by (simp add: sample_FFTCC2D_fields sample_local_displacement)
  have u: "DeformationVector2D.u (POI2D.deformation (poi_of
        (FFTCC2D_compute sample_FFTCC2D 0 (poi_2D 5 5 (guess_2D (Fin 0) (Fin 0) (Fin 0)))))) = Fin 1"
    unfolding sample_fftcc_compute by simp
  have n: "\<not> (- FFTCC2D.subset_radius_x sample_FFTCC2D
           \<le> fst (local_displacement (FFTCC2D.subset_radius_x sample_FFTCC2D)
                  (FFTCC2D.subset_radius_y sample_FFTCC2D) 1)
         \<and> fst (local_displacement (FFTCC2D.subset_radius_x sample_FFTCC2D)
                  (FFTCC2D.subset_radius_y sample_FFTCC2D) 1)
           < FFTCC2D.subset_radius_x sample_FFTCC2D)"
    unfolding l by (simp add: sample_FFTCC2D_fields)
  from sample_peak [of "Fin 0"] l n u show ?thesis by (intro conjI)
qed

subsection \<open>C6: the displacement and the ZNCC that are reported\<close>

lemma search_max_peak:
  assumes "fold (search_max b) [0..n - 1] (float_of_int (- 2), 0) = (peak, k)"
  shows "\<forall>i. 0 \<le> i \<and> i < n \<longrightarrow> \<not> fgt (b i) peak"
    and "(peak = float_of_int (- 2) \<and> k = 0) \<or> (0 \<le> k \<and> k < n \<and> peak = b k)"
    and "(\<exists>i. 0 \<le> i \<and> i < n \<and> fgt (b i) (float_of_int (- 2))) \<longrightarrow> 0 \<le> k \<and> k < n \<and> peak = b k"
proof -
  have "\<not> isnan (float_of_int (- 2))" by (simp add: isnan_def float_of_int_def)
  note s = search_max_fold [OF this assms]
  from s show a: "\<forall>i. 0 \<le> i \<and> i < n \<longrightarrow> \<not> fgt (b i) peak"
    by (simp add: fgt_def)
  from s show c: "(peak = float_of_int (- 2) \<and> k = 0) \<or> (0 \<le> k \<and> k < n \<and> peak = b k)"
    by auto
  from a c show "(\<exists>i. 0 \<le> i \<and> i < n \<and> fgt (b i) (float_of_int (- 2))) \<longrightarrow> 0 \<le> k \<and> k < n \<and> peak = b k"
    by blast
qed

text \<open>
  Claim C6. With an instance for the thread and subset radii that are not negative,
  \<^verbatim>\<open>FFTCC2D::compute\<close> computes, and the point of interest it leaves has

  \<^item> \<open>u = du + u0\<close> and \<open>v = dv + v0\<close>, where \<open>(u0, v0)\<close> is the initial guess, also stored
    as \<open>u0\<close> and \<open>v0\<close> of the result, and \<open>(du, dv)\<close> is the decoded index of the peak;
  \<^item> \<open>zncc = peak / (sqrt (ref_norm * tar_norm) * subset_size)\<close> with
    \<open>subset_size = 2rx \<sqdot> 2ry\<close>;
  \<^item> \<open>ref_norm\<close> and \<open>tar_norm\<close> the sums of the squares of the values of the reference
    subset and of the target subset minus their means, the subsets being the
    \<open>2ry\<close> rows of \<open>2rx\<close> pixels read from the two images, the target moved by the
    initial guess; these zero-mean values are what the buffers hold when they are
    transformed;
  \<^item> \<open>peak\<close> the largest entry of the buffer after the inverse transform: no entry is
    greater, and the peak is the entry at the index found, unless no entry is greater
    than the \<open>-2\<close> the search starts from.
\<close>

theorem fftcc_compute_result:
  assumes "getInstance (FFTCC2D.instance_pool est) tid = Inr inst"
    and "0 \<le> FFTCC2D.subset_radius_x est" and "0 \<le> FFTCC2D.subset_radius_y est"
  shows "\<exists>ref_buf tar_buf ref_norm tar_norm peak k du dv.
      FFTCC2D_subsets est inst poi = (ref_buf, tar_buf, ref_norm, tar_norm)
    \<and> map ref_buf [0..FFTCC2D.subset_radius_x est * 2 * (FFTCC2D.subset_radius_y est * 2) - 1]
        = zero_mean (map (ref_pixel est poi)
            (subset_points (FFTCC2D.subset_radius_x est) (FFTCC2D.subset_radius_y est)))
    \<and> map tar_buf [0..FFTCC2D.subset_radius_x est * 2 * (FFTCC2D.subset_radius_y est * 2) - 1]
        = zero_mean (map (tar_pixel est poi)
            (subset_points (FFTCC2D.subset_radius_x est) (FFTCC2D.subset_radius_y est)))
    \<and> ref_norm = sum_of_squares (zero_mean (map (ref_pixel est poi)
            (subset_points (FFTCC2D.subset_radius_x est) (FFTCC2D.subset_radius_y est))))
    \<and> tar_norm = sum_of_squares (zero_mean (map (tar_pixel est poi)
            (subset_points (FFTCC2D.subset_radius_x est) (FFTCC2D.subset_radius_y est))))
    \<and> fold (search_max (FFTCC2D_correlation est inst ref_buf tar_buf))
         [0..FFTCC2D.subset_radius_x est * 2 * (FFTCC2D.subset_radius_y est * 2) - 1]
         (float_of_int (- 2), 0) = (peak, k)
    \<and> (\<forall>i. 0 \<le> i \<and> i < FFTCC2D.subset_radius_x est * 2 * (FFTCC2D.subset_radius_y est * 2)
           \<longrightarrow> \<not> fgt (FFTCC2D_correlation est inst ref_buf tar_buf i) peak)
    \<and> ((\<exists>i. 0 \<le> i \<and> i < FFTCC2D.subset_radius_x est * 2 * (FFTCC2D.subset_radius_y est * 2)
             \<and> fgt (FFTCC2D_correlation est inst ref_buf tar_buf i) (float_of_int (- 2)))
         \<longrightarrow> 0 \<le> k \<and> k < FFTCC2D.subset_radius_x est * 2 * (FFTCC2D.subset_radius_y est * 2)
             \<and> peak = FFTCC2D_correlation est inst ref_buf tar_buf k)
    \<and> local_displacement (FFTCC2D.subset_radius_x est) (FFTCC2D.subset_radius_y est) k = (du, dv)
    \<and> FFTCC2D_compute est tid poi = Computed (poi_of (FFTCC2D_compute est tid poi))
    \<and> DeformationVector2D.u (POI2D.deformation (poi_of (FFTCC2D_compute est tid poi)))
        = fadd (float_of_int du) (DeformationVector2D.u (POI2D.deformation poi))
    \<and> DeformationVector2D.v (POI2D.deformation (poi_of (FFTCC2D_compute est tid poi)))
        = fadd (float_of_int dv) (DeformationVector2D.v (POI2D.deformation poi))
    \<and> Result2D.u0 (POI2D.result (poi_of (FFTCC2D_compute est tid poi)))
        = DeformationVector2D.u (POI2D.deformation poi)
    \<and> Result2D.v0 (POI2D.result (poi_of (FFTCC2D_compute est tid poi)))
        = DeformationVector2D.v (POI2D.deformation poi)
    \<and> Result2D.zncc (POI2D.result (poi_of (FFTCC2D_compute est tid poi)))
        = fdiv peak (fmul (fsqrt (fmul ref_norm tar_norm))
            (float_of_int (FFTCC2D.subset_radius_x est * 2 * (FFTCC2D.subset_radius_y est * 2))))"
proof -
  let ?rx = "FFTCC2D.subset_radius_x est" and ?ry = "FFTCC2D.subset_radius_y est"
  obtain ref_buf tar_buf ref_norm tar_norm
    where a: "FFTCC2D_subsets est inst poi = (ref_buf, tar_buf, ref_norm, tar_norm)"
    by (cases "FFTCC2D_subsets est inst poi") auto
  obtain peak k
    where b: "fold (search_max (FFTCC2D_correlation est inst ref_buf tar_buf))
           [0..?rx * 2 * (?ry * 2) - 1] (float_of_int (- 2), 0) = (peak, k)"
    by (cases "fold (search_max (FFTCC2D_correlation est inst ref_buf tar_buf))
           [0..?rx * 2 * (?ry * 2) - 1] (float_of_int (- 2), 0)") auto
  obtain du dv where c: "local_displacement ?rx ?ry k = (du, dv)"
    by (cases "local_displacement ?rx ?ry k") auto
  note r = FFTCC2D_subsets_refine [OF assms(2,3) a]
  note p = search_max_peak(1,3) [OF b]
  note e = FFTCC2D_compute_Inr [OF assms(1) a b c]
  have f: "FFTCC2D_compute est tid poi = Computed (poi_of (FFTCC2D_compute est tid poi))"
    "DeformationVector2D.u (POI2D.deformation (poi_of (FFTCC2D_compute est tid poi)))
        = fadd (float_of_int du) (DeformationVector2D.u (POI2D.deformation poi))"
    "DeformationVector2D.v (POI2D.deformation (poi_of (FFTCC2D_compute est tid poi)))
        = fadd (float_of_int dv) (DeformationVector2D.v (POI2D.deformation poi))"
    "Result2D.u0 (POI2D.result (poi_of (FFTCC2D_compute est tid poi)))
        = DeformationVector2D.u (POI2D.deformation poi)"
    "Result2D.v0 (POI2D.result (poi_of (FFTCC2D_compute est tid poi)))
        = DeformationVector2D.v (POI2D.deformation poi)"
    "Result2D.zncc (POI2D.result (poi_of (FFTCC2D_compute est tid poi)))
        = fdiv peak (fmul (fsqrt (fmul ref_norm tar_norm))
            (float_of_int (?rx * 2 * (?ry * 2))))"
    unfolding e by simp_all
  show ?thesis
    by (rule exI [of _ ref_buf], rule exI [of _ tar_buf], rule exI [of _ ref_norm],
        rule exI [of _ tar_norm], rule exI [of _ peak], rule exI [of _ k],
        rule exI [of _ du], rule exI [of _ dv])
      (intro conjI a r b p c f)
qed

text \<open>
  On the striped images with subset radius one: both subsets are \<open>1, 3, 1, 3\<close> up to
  the order, with mean \<open>2\<close> and norm \<open>4\<close>; the peak of the correlation is \<open>16\<close>, and
  the call reports \<open>zncc = 16 / (sqrt (4 * 4) * 4) = 1\<close> at the displacement \<open>u = 1\<close>.
\<close>

theorem fftcc_compute_result_witness:
  "getInstance (FFTCC2D.instance_pool sample_FFTCC2D) 0 = Inr (sample_FFTW 0)
   \<and> 0 \<le> FFTCC2D.subset_radius_x sample_FFTCC2D \<and> 0 \<le> FFTCC2D.subset_radius_y sample_FFTCC2D
   \<and> sum_of_squares (zero_mean (map (ref_pixel sample_FFTCC2D
          (poi_2D 5 5 (guess_2D (Fin 0) (Fin 0) (Fin 0)))) (subset_points 1 1))) = Fin 4
   \<and> sum_of_squares (zero_mean (map (tar_pixel sample_FFTCC2D
          (poi_2D 5 5 (guess_2D (Fin 0) (Fin 0) (Fin 0)))) (subset_points 1 1))) = Fin 4
   \<and> Result2D.zncc (POI2D.result (poi_of
        (FFTCC2D_compute sample_FFTCC2D 0 (poi_2D 5 5 (guess_2D (Fin 0) (Fin 0) (Fin 0))))))
      = fdiv (Fin 16) (fmul (fsqrt (fmul (Fin 4) (Fin 4))) (float_of_int 4))
   \<and> Result2D.zncc (POI2D.result (poi_of
        (FFTCC2D_compute sample_FFTCC2D 0 (poi_2D 5 5 (guess_2D (Fin 0) (Fin 0) (Fin 0)))))) = Fin 1
   \<and> DeformationVector2D.u (POI2D.deformation (poi_of
        (FFTCC2D_compute sample_FFTCC2D 0 (poi_2D 5 5 (guess_2D (Fin 0) (Fin 0) (Fin 0)))))) = Fin 1"
proof -
  let ?poi = "poi_2D 5 5 (guess_2D (Fin 0) (Fin 0) (Fin 0))"
  have r: "0 \<le> FFTCC2D.subset_radius_x sample_FFTCC2D" "0 \<le> FFTCC2D.subset_radius_y sample_FFTCC2D"
    by (simp_all add: sample_FFTCC2D_fields)
  from fftcc_compute_result [OF sample_instance r, of ?poi]
  obtain ref_buf tar_buf ref_norm tar_norm peak k
    where a: "FFTCC2D_subsets sample_FFTCC2D (sample_FFTW 0) ?poi = (ref_buf, tar_buf, ref_norm, tar_norm)"
      and rn: "ref_norm = sum_of_squares (zero_mean (map (ref_pixel sample_FFTCC2D ?poi)
            (subset_points (FFTCC2D.subset_radius_x sample_FFTCC2D)
               (FFTCC2D.subset_radius_y sample_FFTCC2D))))"
      and tn: "tar_norm = sum_of_squares (zero_mean (map (tar_pixel sample_FFTCC2D ?poi)
            (subset_points (FFTCC2D.subset_radius_x sample_FFTCC2D)
               (FFTCC2D.subset_radius_y sample_FFTCC2D))))"
      and b: "fold (search_max (FFTCC2D_correlation sample_FFTCC2D (sample_FFTW 0) ref_buf tar_buf))
         [0..FFTCC2D.subset_radius_x sample_FFTCC2D * 2
             * (FFTCC2D.subset_radius_y sample_FFTCC2D * 2) - 1]
         (float_of_int (- 2), 0) = (peak, k)"
      and z: "Result2D.zncc (POI2D.result (poi_of (FFTCC2D_compute sample_FFTCC2D 0 ?poi)))
        = fdiv peak (fmul (fsqrt (fmul ref_norm tar_norm))
            (float_of_int (FFTCC2D.subset_radius_x sample_FFTCC2D * 2
               * (FFTCC2D.subset_radius_y sample_FFTCC2D * 2))))"
    by (elim exE conjE)
  from sample_peak [of "Fin 0"] obtain rb tb
    where a': "FFTCC2D_subsets sample_FFTCC2D (sample_FFTW 0) ?poi = (rb, tb, Fin 4, Fin 4)"
      and b': "fold (search_max (FFTCC2D_correlation sample_FFTCC2D (sample_FFTW 0) rb tb))
           [0..FFTCC2D.subset_radius_x sample_FFTCC2D * 2
               * (FFTCC2D.subset_radius_y sample_FFTCC2D * 2) - 1]
           (float_of_int (- 2), 0) = (Fin 16, 1)"
    by blast
  have "(ref_buf, tar_buf, ref_norm, tar_norm) = (rb, tb, Fin 4, Fin 4)"
    unfolding a [symmetric] by (rule a')
  then have eq: "ref_buf = rb" "tar_buf = tb" "ref_norm = Fin 4" "tar_norm = Fin 4"
    by (simp_all only: prod.inject)
  from b b' have pk: "peak = Fin 16" unfolding eq by simp
  have n1: "sum_of_squares (zero_mean (map (ref_pixel sample_FFTCC2D ?poi) (subset_points 1 1))) = Fin 4"
    using rn unfolding eq sample_FFTCC2D_fields by simp
  have n2: "sum_of_squares (zero_mean (map (tar_pixel sample_FFTCC2D ?poi) (subset_points 1 1))) = Fin 4"
    using tn unfolding eq sample_FFTCC2D_fields by simp
  have z1: "Result2D.zncc (POI2D.result (poi_of (FFTCC2D_compute sample_FFTCC2D 0 ?poi)))
      = fdiv (Fin 16) (fmul (fsqrt (fmul (Fin 4) (Fin 4))) (float_of_int 4))"
    using z unfolding eq pk sample_FFTCC2D_fields by simp
  have z2: "Result2D.zncc (POI2D.result (poi_of (FFTCC2D_compute sample_FFTCC2D 0 ?poi))) = Fin 1"
    unfolding sample_fftcc_compute by simp
  have u1: "DeformationVector2D.u (POI2D.deformation (poi_of (FFTCC2D_compute sample_FFTCC2D 0 ?poi))) = Fin 1"
    unfolding sample_fftcc_compute by simp
  from sample_instance r n1 n2 z1 z2 u1 show ?thesis by (intro conjI)
qed

subsection \<open>The accesses of \<^verbatim>\<open>determineSpeckleSize\<close> to its matrix\<close>

lemma matrix_read_row:
  "matrix_read m r c = Inl Row_out_of_range \<longleftrightarrow> r < 0 \<or> Matrix.rows m \<le> r"
  by (simp add: matrix_read_def)

lemma half_peak_y_rows:
  "0 \<le> i \<Longrightarrow> 2 * y0 < Matrix.rows m \<Longrightarrow> step = 1 \<or> step = - 1 \<Longrightarrow>
   half_peak_y m h y0 x0 step i \<noteq> Inl Row_out_of_range"
proof (induction "nat (y0 - i)" arbitrary: i)
  case 0
  then have "\<not> i < y0" by simp
  then show ?case by (simp add: half_peak_y.simps [of m h y0 x0 step i])
next
  case (Suc n)
  then have lt: "i < y0" by linarith
  have nxt: "half_peak_y m h y0 x0 step (i + 1) \<noteq> Inl Row_out_of_range"
    by (rule Suc.hyps(1)) (use Suc.hyps(2) Suc.prems in simp_all)
  from lt Suc.prems have "0 \<le> y0 + step * i \<and> y0 + step * i < Matrix.rows m" by auto
  then have r1: "matrix_read m (y0 + step * i) x0 \<noteq> Inl Row_out_of_range"
    by (simp add: matrix_read_row)
  from lt Suc.prems have "0 \<le> y0 + step * i + step \<and> y0 + step * i + step < Matrix.rows m" by auto
  then have r2: "matrix_read m (y0 + step * i + step) x0 \<noteq> Inl Row_out_of_range"
    by (simp add: matrix_read_row)
  show ?case
  proof (cases "matrix_read m (y0 + step * i) x0")
    case (Inl e)
    with r1 lt show ?thesis by (simp add: half_peak_y.simps [of m h y0 x0 step i] Let_def)
  next
    case f1: (Inr f1)
    show ?thesis
    proof (cases "matrix_read m (y0 + step * i + step) x0")
      case (Inl e)
      with r2 lt f1 nxt show ?thesis
        by (simp add: half_peak_y.simps [of m h y0 x0 step i] Let_def)
    next
      case (Inr f2)
      with lt f1 nxt show ?thesis
        by (simp add: half_peak_y.simps [of m h y0 x0 step i] Let_def)
    qed
  qed
qed


lemma half_peak_y_ok:
  "0 \<le> i \<Longrightarrow> 2 * y0 < Matrix.rows m \<Longrightarrow> 0 \<le> x0 \<Longrightarrow> x0 < Matrix.cols m \<Longrightarrow>
   step = 1 \<or> step = - 1 \<Longrightarrow> \<exists>a. half_peak_y m h y0 x0 step i = Inr a"
proof (induction "nat (y0 - i)" arbitrary: i)
  case 0
  then have "\<not> i < y0" by simp
  then show ?case by (simp add: half_peak_y.simps [of m h y0 x0 step i])
next
  case (Suc n)
  then have lt: "i < y0" by linarith
  have nxt: "\<exists>a. half_peak_y m h y0 x0 step (i + 1) = Inr a"
    by (rule Suc.hyps(1)) (use Suc.hyps(2) Suc.prems in simp_all)
  from lt Suc.prems have "0 \<le> y0 + step * i \<and> y0 + step * i < Matrix.rows m" by auto
  then have r1: "matrix_read m (y0 + step * i) x0 = Inr (Matrix.coeff m (y0 + step * i) x0)"
    using Suc.prems by (simp add: matrix_read_def)
  from lt Suc.prems have "0 \<le> y0 + step * i + step \<and> y0 + step * i + step < Matrix.rows m" by auto
  then have r2: "matrix_read m (y0 + step * i + step) x0
      = Inr (Matrix.coeff m (y0 + step * i + step) x0)"
    using Suc.prems by (simp add: matrix_read_def)
  from lt nxt show ?case
    by (simp add: half_peak_y.simps [of m h y0 x0 step i] Let_def r1 r2)
qed

lemma half_peak_x_ok:
  "0 \<le> i \<Longrightarrow> 2 * x0 < Matrix.cols m \<Longrightarrow> 0 \<le> y0 \<Longrightarrow> y0 < Matrix.rows m \<Longrightarrow>
   step = 1 \<or> step = - 1 \<Longrightarrow> \<exists>a. half_peak_x m h y0 x0 step i = Inr a"
proof (induction "nat (x0 - i)" arbitrary: i)
  case 0
  then have "\<not> i < x0" by simp
  then show ?case by (simp add: half_peak_x.simps [of m h y0 x0 step i])
next
  case (Suc n)
  then have lt: "i < x0" by linarith
  have nxt: "\<exists>a. half_peak_x m h y0 x0 step (i + 1) = Inr a"
    by (rule Suc.hyps(1)) (use Suc.hyps(2) Suc.prems in simp_all)
  from lt Suc.prems have "0 \<le> x0 + step * i \<and> x0 + step * i < Matrix.cols m" by auto
  then have r1: "matrix_read m y0 (x0 + step * i) = Inr (Matrix.coeff m y0 (x0 + step * i))"
    using Suc.prems by (simp add: matrix_read_def)
  from lt Suc.prems have "0 \<le> x0 + step * i + step \<and> x0 + step * i + step < Matrix.cols m" by auto
  then have r2: "matrix_read m y0 (x0 + step * i + step)
      = Inr (Matrix.coeff m y0 (x0 + step * i + step))"
    using Suc.prems by (simp add: matrix_read_def)
  from lt nxt show ?case
    by (simp add: half_peak_x.simps [of m h y0 x0 step i] Let_def r1 r2)
qed

lemma matrix_write_dims:
  "matrix_write m r c a = Inr m' \<Longrightarrow> Matrix.rows m' = Matrix.rows m \<and> Matrix.cols m' = Matrix.cols m"
  by (auto simp add: matrix_write_def split: if_splits)

lemma fold_shift_peak_Inl: "fold (shift_peak radius_x radius_y n) ks (Inl e) = Inl e"
  by (induction ks) (simp_all add: shift_peak_def)

lemma shift_peak_dims:
  "shift_peak radius_x radius_y n i (Inr (b, m)) = Inr (b', m') \<Longrightarrow>
   Matrix.rows m' = Matrix.rows m \<and> Matrix.cols m' = Matrix.cols m"
  by (auto simp add: shift_peak_def Let_def dest: matrix_write_dims split: sum.splits)

lemma fold_shift_peak_dims:
  "fold (shift_peak radius_x radius_y n) ks (Inr (b, m)) = Inr (b', m') \<Longrightarrow>
   Matrix.rows m' = Matrix.rows m \<and> Matrix.cols m' = Matrix.cols m"
proof (induction ks arbitrary: b m)
  case Nil
  then show ?case by simp
next
  case (Cons i ks)
  show ?case
  proof (cases "shift_peak radius_x radius_y n i (Inr (b, m))")
    case (Inl e)
    with Cons.prems show ?thesis by (simp add: fold_shift_peak_Inl)
  next
    case (Inr st)
    obtain b1 m1 where st: "st = (b1, m1)" by (cases st)
    from Cons.prems have "fold (shift_peak radius_x radius_y n) ks (Inr (b1, m1)) = Inr (b', m')"
      by (simp add: Inr st)
    from Cons.IH [OF this] shift_peak_dims [OF Inr [unfolded st]] show ?thesis by simp
  qed
qed

lemma speckle_matrix_dims:
  assumes "speckle_matrix est inst poi = Inr m"
  shows "Matrix.rows m = FFTCC2D.subset_radius_y est * 2"
    and "Matrix.cols m = FFTCC2D.subset_radius_x est * 2"
  using assms unfolding speckle_matrix_def Let_def
  by (auto split: prod.splits sum.splits dest!: fold_shift_peak_dims simp add: matrix_zero_def)

lemma shift_peak_ok:
  assumes "1 \<le> radius_x" and "1 \<le> radius_y" and "0 \<le> i" and "i < radius_x * 2 * (radius_y * 2)"
    and "Matrix.rows m = radius_y * 2" and "Matrix.cols m = radius_x * 2"
  shows "\<exists>b' m'. shift_peak radius_x radius_y n i (Inr (b, m)) = Inr (b', m')
     \<and> Matrix.rows m' = radius_y * 2 \<and> Matrix.cols m' = radius_x * 2"
proof -
  define sc where "sc = (if i smod (radius_x * 2) > radius_x
      then i smod (radius_x * 2) - radius_x * 2 else i smod (radius_x * 2))"
  define sr where "sr = (if i sdiv (radius_x * 2) > radius_y
      then i sdiv (radius_x * 2) - radius_y * 2 else i sdiv (radius_x * 2))"
  have l: "local_displacement radius_x radius_y i = (sc, sr)"
    by (simp add: local_displacement_def Let_def sc_def sr_def)
  from local_displacement_range(2-5) [OF assms(1-4)]
  have c: "- radius_x < sc" "sc \<le> radius_x" and r: "- radius_y < sr" "sr \<le> radius_y"
    unfolding l by simp_all
  have w: "matrix_write m (sr + (radius_y - 1)) (sc + (radius_x - 1)) a
      = Inr (m\<lparr>Matrix.coeff := (Matrix.coeff m)(sr + (radius_y - 1) :=
               (Matrix.coeff m (sr + (radius_y - 1)))(sc + (radius_x - 1) := a))\<rparr>)" for a
    using c r assms(5,6) by (simp add: matrix_write_def)
  have "shift_peak radius_x radius_y n i (Inr (b, m))
      = Inr (b(i := fdiv (b i) n),
          m\<lparr>Matrix.coeff := (Matrix.coeff m)(sr + (radius_y - 1) :=
               (Matrix.coeff m (sr + (radius_y - 1)))(sc + (radius_x - 1) := fdiv (b i) n))\<rparr>)"
    unfolding shift_peak_def Let_def sc_def [symmetric] sr_def [symmetric]
    by (simp add: w)
  with assms(5,6) show ?thesis by simp
qed

lemma fold_shift_peak_ok:
  assumes "1 \<le> radius_x" and "1 \<le> radius_y"
  shows "\<forall>i\<in>set ks. 0 \<le> i \<and> i < radius_x * 2 * (radius_y * 2) \<Longrightarrow>
    Matrix.rows m = radius_y * 2 \<Longrightarrow> Matrix.cols m = radius_x * 2 \<Longrightarrow>
    \<exists>b' m'. fold (shift_peak radius_x radius_y n) ks (Inr (b, m)) = Inr (b', m')"
proof (induction ks arbitrary: b m)
  case Nil
  then show ?case by simp
next
  case (Cons i ks)
  from Cons.prems have "0 \<le> i" "i < radius_x * 2 * (radius_y * 2)" by simp_all
  from shift_peak_ok [OF assms this Cons.prems(2,3)] obtain b1 m1
    where s: "shift_peak radius_x radius_y n i (Inr (b, m)) = Inr (b1, m1)"
      and d: "Matrix.rows m1 = radius_y * 2" "Matrix.cols m1 = radius_x * 2"
    by blast
  from Cons.prems(1) have "\<forall>i\<in>set ks. 0 \<le> i \<and> i < radius_x * 2 * (radius_y * 2)" by simp
  from Cons.IH [OF this d] show ?case by (simp add: s)
qed

lemma speckle_matrix_ok:
  assumes "1 \<le> FFTCC2D.subset_radius_x est" and "1 \<le> FFTCC2D.subset_radius_y est"
  shows "\<exists>m. speckle_matrix est inst poi = Inr m"
proof -
  have k: "\<forall>i\<in>set [0..FFTCC2D.subset_radius_x est * 2 * (FFTCC2D.subset_radius_y est * 2) - 1].
      0 \<le> i \<and> i < FFTCC2D.subset_radius_x est * 2 * (FFTCC2D.subset_radius_y est * 2)"
    by simp
  have d: "Matrix.rows (matrix_zero (FFTCC2D.subset_radius_y est * 2) (FFTCC2D.subset_radius_x est * 2))
        = FFTCC2D.subset_radius_y est * 2"
    "Matrix.cols (matrix_zero (FFTCC2D.subset_radius_y est * 2) (FFTCC2D.subset_radius_x est * 2))
        = FFTCC2D.subset_radius_x est * 2"
    by (simp_all add: matrix_zero_def)
  note f = fold_shift_peak_ok [OF assms k d]
  show ?thesis
    unfolding speckle_matrix_def Let_def
    using f by (auto split: prod.splits sum.splits) (metis sum.distinct(1))
qed

lemma determineSpeckleSize_ok:
  assumes "getInstance (FFTCC2D.instance_pool est) tid = Inr inst"
    and "1 \<le> FFTCC2D.subset_radius_x est" and "1 \<le> FFTCC2D.subset_radius_y est"
  shows "\<exists>p. determineSpeckleSize est tid poi h = Inr p"
proof -
  let ?rx = "FFTCC2D.subset_radius_x est" and ?ry = "FFTCC2D.subset_radius_y est"
  from speckle_matrix_ok [OF assms(2,3)] obtain m where m: "speckle_matrix est inst poi = Inr m"
    by blast
  note d = speckle_matrix_dims [OF m]
  have x: "\<exists>a. half_peak_x m h (?ry - 1) (?rx - 1) step 0 = Inr a" if "step = 1 \<or> step = - 1" for step
    by (rule half_peak_x_ok) (use that assms(2,3) d in simp_all)
  have y: "\<exists>a. half_peak_y m h (?ry - 1) (?rx - 1) step 0 = Inr a" if "step = 1 \<or> step = - 1" for step
    by (rule half_peak_y_ok) (use that assms(2,3) d in simp_all)
  from x [of 1] x [of "- 1"] y [of 1] y [of "- 1"] obtain a1 a2 a3 a4
    where "half_peak_x m h (?ry - 1) (?rx - 1) 1 0 = Inr a1"
      and "half_peak_x m h (?ry - 1) (?rx - 1) (- 1) 0 = Inr a2"
      and "half_peak_y m h (?ry - 1) (?rx - 1) 1 0 = Inr a3"
      and "half_peak_y m h (?ry - 1) (?rx - 1) (- 1) 0 = Inr a4"
    by auto
  then show ?thesis
    by (simp add: determineSpeckleSize_def assms(1) m Let_def)
qed

subsection \<open>The sample speckle, step by step\<close>

lemma sample_speckle_fields:
  "FFTCC2D.subset_radius_x sample_speckle = 2" "FFTCC2D.subset_radius_y sample_speckle = 2"
  "FFTCC2D.ref_img sample_speckle = speckle_image"
  "FFTCC2D.instance_pool sample_speckle = [sample_FFTW4 0]"
  by (simp_all add: sample_speckle_def FFTCC2D_new_def fill_pool_from_empty upt_rec)

lemma sample_speckle_instance:
  "getInstance (FFTCC2D.instance_pool sample_speckle) 0 = Inr (sample_FFTW4 0)"
  by (simp add: getInstance_def sample_speckle_fields)

lemma upto_eval_16:
  "[0..11] = [0, 1, 2, 3, 4, 5, 6, 7, 8, 9, 10, 11]"
  "[0..15] = [0, 1, 2, 3, 4, 5, 6, 7, 8, 9, 10, 11, 12, 13, 14, 15]"
  by (simp_all add: upto.simps)

lemma speckle_image_at:
  "Image2D.eg_mat speckle_image r c = Fin (1 + speckle_profile r * speckle_profile c)"
  by (simp add: speckle_image_def)

lemma sample_speckle_subset:
  "\<exists>rb. fold (\<lambda>r. fold (speckle_fill_pixel sample_speckle (poi_2D 6 6 d) r) [0..3]) [0..3]
          (\<lambda>k. Fin 0, Fin 0) = (rb, Fin 16)
     \<and> rb 0 = Fin 2 \<and> rb 1 = Fin 1 \<and> rb 2 = Fin 1 \<and> rb 3 = Fin 0
     \<and> rb 4 = Fin 1 \<and> rb 5 = Fin 1 \<and> rb 6 = Fin 1 \<and> rb 7 = Fin 1
     \<and> rb 8 = Fin 1 \<and> rb 9 = Fin 1 \<and> rb 10 = Fin 1 \<and> rb 11 = Fin 1
     \<and> rb 12 = Fin 0 \<and> rb 13 = Fin 1 \<and> rb 14 = Fin 1 \<and> rb 15 = Fin 2"
  by (simp add: upto_eval speckle_fill_pixel_def Let_def sample_speckle_fields poi_2D_def
      speckle_image_at speckle_profile_def float_of_int_def int_of_float_def)

lemma sample_speckle_zero_mean:
  assumes "rb 0 = Fin 2" "rb 1 = Fin 1" "rb 2 = Fin 1" "rb 3 = Fin 0" "rb 4 = Fin 1" "rb 5 = Fin 1" "rb 6 = Fin 1" "rb 7 = Fin 1" "rb 8 = Fin 1" "rb 9 = Fin 1" "rb 10 = Fin 1" "rb 11 = Fin 1" "rb 12 = Fin 0" "rb 13 = Fin 1" "rb 14 = Fin 1" "rb 15 = Fin 2"
  shows "\<exists>zb tb. fold (speckle_zero_mean (Fin 1)) [0..15] (rb, \<lambda>k. Fin 0, Fin 0) = (zb, tb, Fin 4)
     \<and> zb 0 = Fin 1 \<and> zb 1 = Fin 0 \<and> zb 2 = Fin 0 \<and> zb 3 = Fin (- 1) \<and> zb 4 = Fin 0 \<and> zb 5 = Fin 0 \<and> zb 6 = Fin 0 \<and> zb 7 = Fin 0 \<and> zb 8 = Fin 0 \<and> zb 9 = Fin 0 \<and> zb 10 = Fin 0 \<and> zb 11 = Fin 0 \<and> zb 12 = Fin (- 1) \<and> zb 13 = Fin 0 \<and> zb 14 = Fin 0 \<and> zb 15 = Fin 1
     \<and> tb 0 = Fin 1 \<and> tb 1 = Fin 0 \<and> tb 2 = Fin 0 \<and> tb 3 = Fin (- 1) \<and> tb 4 = Fin 0 \<and> tb 5 = Fin 0 \<and> tb 6 = Fin 0 \<and> tb 7 = Fin 0 \<and> tb 8 = Fin 0 \<and> tb 9 = Fin 0 \<and> tb 10 = Fin 0 \<and> tb 11 = Fin 0 \<and> tb 12 = Fin (- 1) \<and> tb 13 = Fin 0 \<and> tb 14 = Fin 0 \<and> tb 15 = Fin 1"
  by (simp add: upto_eval_16 speckle_zero_mean_def Let_def assms fsub_def)

lemma sample_spectrum:
  assumes "b 0 = Fin 1" "b 1 = Fin 0" "b 2 = Fin 0" "b 3 = Fin (- 1)" "b 4 = Fin 0" "b 5 = Fin 0" "b 6 = Fin 0" "b 7 = Fin 0" "b 8 = Fin 0" "b 9 = Fin 0" "b 10 = Fin 0" "b 11 = Fin 0" "b 12 = Fin (- 1)" "b 13 = Fin 0" "b 14 = Fin 0" "b 15 = Fin 1"
  shows "dft_4x4 b 0 = (Fin 0, Fin 0)" "dft_4x4 b 1 = (Fin 0, Fin 0)" "dft_4x4 b 2 = (Fin 0, Fin 0)" "dft_4x4 b 3 = (Fin 0, Fin 0)" "dft_4x4 b 4 = (Fin 0, Fin (- 2))" "dft_4x4 b 5 = (Fin 2, Fin (- 2))" "dft_4x4 b 6 = (Fin 0, Fin 0)" "dft_4x4 b 7 = (Fin 2, Fin (- 2))" "dft_4x4 b 8 = (Fin 4, Fin 0)" "dft_4x4 b 9 = (Fin 0, Fin 0)" "dft_4x4 b 10 = (Fin 2, Fin 0)" "dft_4x4 b 11 = (Fin 2, Fin 2)"
  by (simp_all add: dft_4x4_def upto_eval_16 assms cadd_def quarter_turns_def)

lemma sample_speckle_correlation:
  assumes b: "b 0 = Fin 1" "b 1 = Fin 0" "b 2 = Fin 0" "b 3 = Fin (- 1)" "b 4 = Fin 0" "b 5 = Fin 0" "b 6 = Fin 0" "b 7 = Fin 0" "b 8 = Fin 0" "b 9 = Fin 0" "b 10 = Fin 0" "b 11 = Fin 0" "b 12 = Fin (- 1)" "b 13 = Fin 0" "b 14 = Fin 0" "b 15 = Fin 1"
    and c: "c 0 = Fin 1" "c 1 = Fin 0" "c 2 = Fin 0" "c 3 = Fin (- 1)" "c 4 = Fin 0" "c 5 = Fin 0" "c 6 = Fin 0" "c 7 = Fin 0" "c 8 = Fin 0" "c 9 = Fin 0" "c 10 = Fin 0" "c 11 = Fin 0" "c 12 = Fin (- 1)" "c 13 = Fin 0" "c 14 = Fin 0" "c 15 = Fin 1"
  shows "FFTCC2D_correlation sample_speckle (sample_FFTW4 0) b c 0 = Fin 64" "FFTCC2D_correlation sample_speckle (sample_FFTW4 0) b c 1 = Fin (- 32)" "FFTCC2D_correlation sample_speckle (sample_FFTW4 0) b c 3 = Fin (- 32)" "FFTCC2D_correlation sample_speckle (sample_FFTW4 0) b c 4 = Fin (- 32)" "FFTCC2D_correlation sample_speckle (sample_FFTW4 0) b c 12 = Fin (- 32)"
proof -
  have p: "FFTW.ref_plan (sample_FFTW4 0) = dft_4x4" "FFTW.tar_plan (sample_FFTW4 0) = dft_4x4"
    "FFTW.zncc_plan (sample_FFTW4 0) = inverse_dft_4x4"
    "FFTW.zncc_freq (sample_FFTW4 0) = (\<lambda>k. (Fin 0, Fin 0))"
    by (simp_all add: sample_FFTW4_def)
  note s = sample_spectrum [OF b] sample_spectrum [OF c]
  have f: "fold (cross_spectrum (dft_4x4 b) (dft_4x4 c)) [0..11] (\<lambda>k. (Fin 0, Fin 0))
      = (\<lambda>k. if k = 4 \<or> k = 10 then (Fin 4, Fin 0)
             else if k = 5 \<or> k = 7 \<or> k = 11 then (Fin 8, Fin 0)
             else if k = 8 then (Fin 16, Fin 0) else (Fin 0, Fin 0))"
    by (rule ext) (simp add: upto_eval_16 cross_spectrum_def s fsub_def)
  show "FFTCC2D_correlation sample_speckle (sample_FFTW4 0) b c 0 = Fin 64" "FFTCC2D_correlation sample_speckle (sample_FFTW4 0) b c 1 = Fin (- 32)" "FFTCC2D_correlation sample_speckle (sample_FFTW4 0) b c 3 = Fin (- 32)" "FFTCC2D_correlation sample_speckle (sample_FFTW4 0) b c 4 = Fin (- 32)" "FFTCC2D_correlation sample_speckle (sample_FFTW4 0) b c 12 = Fin (- 32)"
    unfolding FFTCC2D_correlation_def sample_speckle_fields p Let_def
    by (simp_all add: f inverse_dft_4x4_def upto_eval_16(2) half_spectrum_def cadd_def quarter_turns_def)
qed

lemma sample_shift_peak:
  assumes "cb 0 = Fin 64" "cb 1 = Fin (- 32)" "cb 3 = Fin (- 32)" "cb 4 = Fin (- 32)" "cb 12 = Fin (- 32)"
  shows "\<exists>b m. fold (shift_peak 2 2 (Fin 64)) [0..15] (Inr (cb, matrix_zero 4 4)) = Inr (b, m)
     \<and> Matrix.rows m = 4 \<and> Matrix.cols m = 4
     \<and> Matrix.coeff m 1 1 = Fin 1 \<and> Matrix.coeff m 1 2 = Fin (- 1 / 2)
     \<and> Matrix.coeff m 1 0 = Fin (- 1 / 2) \<and> Matrix.coeff m 2 1 = Fin (- 1 / 2)
     \<and> Matrix.coeff m 0 1 = Fin (- 1 / 2)"
  by (simp add: upto_eval_16 shift_peak_def Let_def matrix_write_def matrix_zero_def
      signed_modulo_int_def signed_divide_int_def assms)

lemma sample_speckle_matrix:
  "\<exists>m. speckle_matrix sample_speckle (sample_FFTW4 0) (poi_2D 6 6 d) = Inr m
     \<and> Matrix.rows m = 4 \<and> Matrix.cols m = 4
     \<and> Matrix.coeff m 1 1 = Fin 1 \<and> Matrix.coeff m 1 2 = Fin (- 1 / 2)
     \<and> Matrix.coeff m 1 0 = Fin (- 1 / 2) \<and> Matrix.coeff m 2 1 = Fin (- 1 / 2)
     \<and> Matrix.coeff m 0 1 = Fin (- 1 / 2)"
proof -
  have i: "FFTW.ref_subset (sample_FFTW4 0) = (\<lambda>k. Fin 0)" "FFTW.tar_subset (sample_FFTW4 0) = (\<lambda>k. Fin 0)"
    by (simp_all add: sample_FFTW4_def)
  from sample_speckle_subset [of d] obtain rb
    where fill: "fold (\<lambda>r. fold (speckle_fill_pixel sample_speckle (poi_2D 6 6 d) r) [0..3]) [0..3]
          (\<lambda>k. Fin 0, Fin 0) = (rb, Fin 16)"
      and rb: "rb 0 = Fin 2" "rb 1 = Fin 1" "rb 2 = Fin 1" "rb 3 = Fin 0" "rb 4 = Fin 1" "rb 5 = Fin 1" "rb 6 = Fin 1" "rb 7 = Fin 1" "rb 8 = Fin 1" "rb 9 = Fin 1" "rb 10 = Fin 1" "rb 11 = Fin 1" "rb 12 = Fin 0" "rb 13 = Fin 1" "rb 14 = Fin 1" "rb 15 = Fin 2"
    by (elim exE conjE)
  from sample_speckle_zero_mean [OF rb] obtain zb tb
    where zero: "fold (speckle_zero_mean (Fin 1)) [0..15] (rb, \<lambda>k. Fin 0, Fin 0) = (zb, tb, Fin 4)"
      and zb: "zb 0 = Fin 1" "zb 1 = Fin 0" "zb 2 = Fin 0" "zb 3 = Fin (- 1)" "zb 4 = Fin 0" "zb 5 = Fin 0" "zb 6 = Fin 0" "zb 7 = Fin 0" "zb 8 = Fin 0" "zb 9 = Fin 0" "zb 10 = Fin 0" "zb 11 = Fin 0" "zb 12 = Fin (- 1)" "zb 13 = Fin 0" "zb 14 = Fin 0" "zb 15 = Fin 1"
      and tb: "tb 0 = Fin 1" "tb 1 = Fin 0" "tb 2 = Fin 0" "tb 3 = Fin (- 1)" "tb 4 = Fin 0" "tb 5 = Fin 0" "tb 6 = Fin 0" "tb 7 = Fin 0" "tb 8 = Fin 0" "tb 9 = Fin 0" "tb 10 = Fin 0" "tb 11 = Fin 0" "tb 12 = Fin (- 1)" "tb 13 = Fin 0" "tb 14 = Fin 0" "tb 15 = Fin 1"
    by (elim exE conjE)
  note c = sample_speckle_correlation [OF zb tb]
  from sample_shift_peak [OF c] obtain b m
    where "fold (shift_peak 2 2 (Fin 64)) [0..15]
        (Inr (FFTCC2D_correlation sample_speckle (sample_FFTW4 0) zb tb, matrix_zero 4 4)) = Inr (b, m)"
      and "Matrix.rows m = 4" "Matrix.cols m = 4"
      "Matrix.coeff m 1 1 = Fin 1" "Matrix.coeff m 1 2 = Fin (- 1 / 2)"
      "Matrix.coeff m 1 0 = Fin (- 1 / 2)" "Matrix.coeff m 2 1 = Fin (- 1 / 2)"
      "Matrix.coeff m 0 1 = Fin (- 1 / 2)"
    by (elim exE conjE)
  then show ?thesis
    unfolding speckle_matrix_def sample_speckle_fields i Let_def
    by (simp add: fill zero float_of_int_def)
qed

lemma sample_speckle_search:
  "\<exists>m. speckle_matrix sample_speckle (sample_FFTW4 0) (poi_2D 6 6 d) = Inr m
     \<and> Matrix.rows m = 4 \<and> Matrix.cols m = 4
     \<and> Matrix.coeff m 1 1 = Fin 1 \<and> Matrix.coeff m 1 2 = Fin (- 1 / 2)
     \<and> Matrix.coeff m 1 0 = Fin (- 1 / 2) \<and> Matrix.coeff m 2 1 = Fin (- 1 / 2)
     \<and> Matrix.coeff m 0 1 = Fin (- 1 / 2)
     \<and> half_peak_x m (Fin (1 / 2)) 1 1 1 0 = Inr (crossing 1 2 (Fin (1 / 2)) (Fin 1) (Fin (- 1 / 2)))
     \<and> half_peak_x m (Fin (1 / 2)) 1 1 (- 1) 0 = Inr (crossing 1 0 (Fin (1 / 2)) (Fin 1) (Fin (- 1 / 2)))
     \<and> half_peak_y m (Fin (1 / 2)) 1 1 1 0 = Inr (crossing 1 2 (Fin (1 / 2)) (Fin 1) (Fin (- 1 / 2)))
     \<and> half_peak_y m (Fin (1 / 2)) 1 1 (- 1) 0 = Inr (crossing 1 0 (Fin (1 / 2)) (Fin 1) (Fin (- 1 / 2)))"
proof -
  from sample_speckle_matrix [of d] obtain m
    where m: "speckle_matrix sample_speckle (sample_FFTW4 0) (poi_2D 6 6 d) = Inr m"
      and v: "Matrix.rows m = 4" "Matrix.cols m = 4"
      "Matrix.coeff m 1 1 = Fin 1" "Matrix.coeff m 1 2 = Fin (- 1 / 2)"
      "Matrix.coeff m 1 0 = Fin (- 1 / 2)" "Matrix.coeff m 2 1 = Fin (- 1 / 2)"
      "Matrix.coeff m 0 1 = Fin (- 1 / 2)"
    by (elim exE conjE)
  have x1: "half_peak_x m (Fin (1 / 2)) 1 1 1 0 = Inr (crossing 1 2 (Fin (1 / 2)) (Fin 1) (Fin (- 1 / 2)))"
    by (simp add: half_peak_x.simps [of m _ 1 1 1 0] Let_def matrix_read_def v fgt_def fle_def
        isnan_def)
  have x2: "half_peak_x m (Fin (1 / 2)) 1 1 (- 1) 0 = Inr (crossing 1 0 (Fin (1 / 2)) (Fin 1) (Fin (- 1 / 2)))"
    by (simp add: half_peak_x.simps [of m _ 1 1 "- 1" 0] Let_def matrix_read_def v fgt_def fle_def
        isnan_def)
  have y1: "half_peak_y m (Fin (1 / 2)) 1 1 1 0 = Inr (crossing 1 2 (Fin (1 / 2)) (Fin 1) (Fin (- 1 / 2)))"
    by (simp add: half_peak_y.simps [of m _ 1 1 1 0] Let_def matrix_read_def v fgt_def fle_def
        isnan_def)
  have y2: "half_peak_y m (Fin (1 / 2)) 1 1 (- 1) 0 = Inr (crossing 1 0 (Fin (1 / 2)) (Fin 1) (Fin (- 1 / 2)))"
    by (simp add: half_peak_y.simps [of m _ 1 1 "- 1" 0] Let_def matrix_read_def v fgt_def fle_def
        isnan_def)
  from m v x1 x2 y1 y2 show ?thesis by (intro exI [of _ m] conjI)
qed

lemma sample_crossings:
  "crossing 1 2 (Fin (1 / 2)) (Fin 1) (Fin (- 1 / 2)) = Fin (1 / 2)"
  "crossing 1 0 (Fin (1 / 2)) (Fin 1) (Fin (- 1 / 2)) = Fin (3 / 2)"
  "linear_crossing 1 2 (Fin (1 / 2)) (Fin 1) (Fin (- 1 / 2)) = Fin (4 / 3)"
  "linear_crossing 1 0 (Fin (1 / 2)) (Fin 1) (Fin (- 1 / 2)) = Fin (2 / 3)"
  by (simp_all add: crossing_def linear_crossing_def fsub_def float_of_int_def)

lemma sample_speckle_size:
  "determineSpeckleSize sample_speckle 0 (poi_2D 6 6 d) (Fin (1 / 2))
     = Inr \<lparr>Point2D.x = Fin (- 1), Point2D.y = Fin (- 1)\<rparr>"
proof -
  from sample_speckle_search [of d] obtain m
    where m: "speckle_matrix sample_speckle (sample_FFTW4 0) (poi_2D 6 6 d) = Inr m"
      and s: "half_peak_x m (Fin (1 / 2)) 1 1 1 0 = Inr (crossing 1 2 (Fin (1 / 2)) (Fin 1) (Fin (- 1 / 2)))"
        "half_peak_x m (Fin (1 / 2)) 1 1 (- 1) 0 = Inr (crossing 1 0 (Fin (1 / 2)) (Fin 1) (Fin (- 1 / 2)))"
        "half_peak_y m (Fin (1 / 2)) 1 1 1 0 = Inr (crossing 1 2 (Fin (1 / 2)) (Fin 1) (Fin (- 1 / 2)))"
        "half_peak_y m (Fin (1 / 2)) 1 1 (- 1) 0 = Inr (crossing 1 0 (Fin (1 / 2)) (Fin 1) (Fin (- 1 / 2)))"
    by (elim exE conjE)
  have "determineSpeckleSize sample_speckle 0 (poi_2D 6 6 d) (Fin (1 / 2))
     = Inr \<lparr>Point2D.x = fsub (crossing 1 2 (Fin (1 / 2)) (Fin 1) (Fin (- 1 / 2)))
                         (crossing 1 0 (Fin (1 / 2)) (Fin 1) (Fin (- 1 / 2))),
             Point2D.y = fsub (crossing 1 2 (Fin (1 / 2)) (Fin 1) (Fin (- 1 / 2)))
                         (crossing 1 0 (Fin (1 / 2)) (Fin 1) (Fin (- 1 / 2)))\<rparr>"
    by (simp add: determineSpeckleSize_def sample_speckle_instance sample_speckle_fields(1,2)
        Let_def m s)
  then show ?thesis
    unfolding sample_crossings by (simp add: fsub_def)
qed

subsection \<open>C8: the loops along \<open>y\<close> stay inside the matrix\<close>

text \<open>
  Claim C8, amended. The matrix \<^verbatim>\<open>zncc_matrix\<close> that \<^verbatim>\<open>determineSpeckleSize\<close> builds has
  \<open>2ry\<close> rows. Each of the two loops along \<open>y\<close>, with \<open>y0 = ry - 1\<close> and the bound
  \<^verbatim>\<open>i < y0\<close>, reads rows between \<open>0\<close> and \<open>2 y0 = 2ry - 2\<close> only: no read of a row is
  out of range, in any iteration and for any subset radii, and the same holds on any
  matrix of at least \<open>2ry - 1\<close> rows, so the last row is not even needed. With both
  radii at least one and an instance for the thread, no access of the whole function to
  the matrix is out of range: it returns a speckle size.
\<close>

theorem speckle_y_search_in_range:
  assumes "speckle_matrix est inst poi = Inr zncc_matrix"
    and "step = 1 \<or> step = - 1"
  shows "Matrix.rows zncc_matrix = FFTCC2D.subset_radius_y est * 2
    \<and> half_peak_y zncc_matrix h (FFTCC2D.subset_radius_y est - 1) (FFTCC2D.subset_radius_x est - 1)
          step 0 \<noteq> Inl Row_out_of_range
    \<and> (\<forall>m. 2 * FFTCC2D.subset_radius_y est - 1 \<le> Matrix.rows m \<longrightarrow>
          half_peak_y m h (FFTCC2D.subset_radius_y est - 1) x0 step 0 \<noteq> Inl Row_out_of_range)
    \<and> (getInstance (FFTCC2D.instance_pool est) tid = Inr inst
          \<and> 1 \<le> FFTCC2D.subset_radius_x est \<and> 1 \<le> FFTCC2D.subset_radius_y est \<longrightarrow>
        (\<exists>p. determineSpeckleSize est tid poi h = Inr p))"
proof (intro conjI allI impI)
  show r: "Matrix.rows zncc_matrix = FFTCC2D.subset_radius_y est * 2"
    by (rule speckle_matrix_dims(1) [OF assms(1)])
  show "half_peak_y zncc_matrix h (FFTCC2D.subset_radius_y est - 1) (FFTCC2D.subset_radius_x est - 1)
          step 0 \<noteq> Inl Row_out_of_range"
    by (rule half_peak_y_rows) (use r assms(2) in simp_all)
  show "half_peak_y m h (FFTCC2D.subset_radius_y est - 1) x0 step 0 \<noteq> Inl Row_out_of_range"
    if "2 * FFTCC2D.subset_radius_y est - 1 \<le> Matrix.rows m" for m
    by (rule half_peak_y_rows) (use that assms(2) in simp_all)
  show "\<exists>p. determineSpeckleSize est tid poi h = Inr p"
    if "getInstance (FFTCC2D.instance_pool est) tid = Inr inst
          \<and> 1 \<le> FFTCC2D.subset_radius_x est \<and> 1 \<le> FFTCC2D.subset_radius_y est"
    by (rule determineSpeckleSize_ok [of est tid inst]) (use that in simp_all)
qed

text \<open>
  On the sample speckle the radius is two and the matrix has four rows. Each loop
  along \<open>y\<close> makes its one iteration, the last one, reads the rows \<open>1\<close> and \<open>2\<close>, or
  \<open>1\<close> and \<open>0\<close>, and finds a crossing there.
\<close>

theorem speckle_y_search_in_range_witness:
  "\<exists>m. speckle_matrix sample_speckle (sample_FFTW4 0) (poi_2D 6 6 (guess_2D (Fin 0) (Fin 0) (Fin 0)))
        = Inr m
     \<and> Matrix.rows m = 4
     \<and> half_peak_y m (Fin (1 / 2)) 1 1 1 0 \<noteq> Inl Row_out_of_range
     \<and> half_peak_y m (Fin (1 / 2)) 1 1 (- 1) 0 \<noteq> Inl Row_out_of_range
     \<and> half_peak_y m (Fin (1 / 2)) 1 1 1 0 = Inr (crossing 1 2 (Fin (1 / 2)) (Fin 1) (Fin (- 1 / 2)))
     \<and> half_peak_y m (Fin (1 / 2)) 1 1 (- 1) 0 = Inr (crossing 1 0 (Fin (1 / 2)) (Fin 1) (Fin (- 1 / 2)))
     \<and> (\<exists>p. determineSpeckleSize sample_speckle 0
               (poi_2D 6 6 (guess_2D (Fin 0) (Fin 0) (Fin 0))) (Fin (1 / 2)) = Inr p)"
proof -
  let ?poi = "poi_2D 6 6 (guess_2D (Fin 0) (Fin 0) (Fin 0))"
  from sample_speckle_search [of "guess_2D (Fin 0) (Fin 0) (Fin 0)"] obtain m
    where m: "speckle_matrix sample_speckle (sample_FFTW4 0) ?poi = Inr m"
      and y: "half_peak_y m (Fin (1 / 2)) 1 1 1 0 = Inr (crossing 1 2 (Fin (1 / 2)) (Fin 1) (Fin (- 1 / 2)))"
        "half_peak_y m (Fin (1 / 2)) 1 1 (- 1) 0 = Inr (crossing 1 0 (Fin (1 / 2)) (Fin 1) (Fin (- 1 / 2)))"
    by (elim exE conjE)
  have up: "(1 :: int) = 1 \<or> (1 :: int) = - 1" and down: "(- 1 :: int) = 1 \<or> (- 1 :: int) = - 1"
    by simp_all
  note a = speckle_y_search_in_range [OF m up, of "Fin (1 / 2)" 1 0]
  note b = speckle_y_search_in_range [OF m down, of "Fin (1 / 2)" 1 0]
  from a have r: "Matrix.rows m = 4" by (simp add: sample_speckle_fields)
  from a have u: "half_peak_y m (Fin (1 / 2)) 1 1 1 0 \<noteq> Inl Row_out_of_range"
    by (simp add: sample_speckle_fields)
  from b have d: "half_peak_y m (Fin (1 / 2)) 1 1 (- 1) 0 \<noteq> Inl Row_out_of_range"
    by (simp add: sample_speckle_fields)
  from a have p: "\<exists>p. determineSpeckleSize sample_speckle 0 ?poi (Fin (1 / 2)) = Inr p"
    by (simp add: sample_speckle_fields getInstance_def)
  from m r u d y p show ?thesis by (intro exI [of _ m] conjI)
qed

text \<open>
  The claim as it was stated: for some radii one of the two loops along \<open>y\<close> reads a
  row outside the matrix. There are no such radii, whatever the estimator, the point of
  interest and the ratio. On the sample speckle, radius two, the last iteration of each
  loop reads inside the four rows and returns the crossing it finds.
\<close>

theorem speckle_y_search_counterexample:
  "\<not> (\<exists>est inst poi zncc_matrix h step.
        speckle_matrix est inst poi = Inr zncc_matrix \<and> (step = 1 \<or> step = - 1)
      \<and> half_peak_y zncc_matrix h (FFTCC2D.subset_radius_y est - 1)
            (FFTCC2D.subset_radius_x est - 1) step 0 = Inl Row_out_of_range)
   \<and> (\<exists>m. speckle_matrix sample_speckle (sample_FFTW4 0)
            (poi_2D 6 6 (guess_2D (Fin 0) (Fin 0) (Fin 0))) = Inr m
        \<and> Matrix.rows m = 4
        \<and> half_peak_y m (Fin (1 / 2)) (FFTCC2D.subset_radius_y sample_speckle - 1)
              (FFTCC2D.subset_radius_x sample_speckle - 1) 1 0 = Inr (Fin (1 / 2))
        \<and> half_peak_y m (Fin (1 / 2)) (FFTCC2D.subset_radius_y sample_speckle - 1)
              (FFTCC2D.subset_radius_x sample_speckle - 1) (- 1) 0 = Inr (Fin (3 / 2)))"
proof -
  have none: "\<not> (\<exists>est inst poi zncc_matrix h step.
        speckle_matrix est inst poi = Inr zncc_matrix \<and> (step = 1 \<or> step = - 1)
      \<and> half_peak_y zncc_matrix h (FFTCC2D.subset_radius_y est - 1)
            (FFTCC2D.subset_radius_x est - 1) step 0 = Inl Row_out_of_range)"
  proof
    assume "\<exists>est inst poi zncc_matrix h step.
          speckle_matrix est inst poi = Inr zncc_matrix \<and> (step = 1 \<or> step = - 1)
        \<and> half_peak_y zncc_matrix h (FFTCC2D.subset_radius_y est - 1)
              (FFTCC2D.subset_radius_x est - 1) step 0 = Inl Row_out_of_range"
    then obtain est inst poi zncc_matrix h step
      where m: "speckle_matrix est inst poi = Inr zncc_matrix"
        and s: "step = 1 \<or> step = - 1"
        and e: "half_peak_y zncc_matrix h (FFTCC2D.subset_radius_y est - 1)
              (FFTCC2D.subset_radius_x est - 1) step 0 = Inl Row_out_of_range"
      by blast
    have "2 * (FFTCC2D.subset_radius_y est - 1) < Matrix.rows zncc_matrix"
      unfolding speckle_matrix_dims(1) [OF m] by simp
    from half_peak_y_rows [OF _ this s, of 0 h "FFTCC2D.subset_radius_x est - 1"] e
    show False by simp
  qed
  from sample_speckle_search [of "guess_2D (Fin 0) (Fin 0) (Fin 0)"] obtain m
    where m: "speckle_matrix sample_speckle (sample_FFTW4 0)
            (poi_2D 6 6 (guess_2D (Fin 0) (Fin 0) (Fin 0))) = Inr m"
      and r: "Matrix.rows m = 4"
      and y: "half_peak_y m (Fin (1 / 2)) 1 1 1 0 = Inr (crossing 1 2 (Fin (1 / 2)) (Fin 1) (Fin (- 1 / 2)))"
        "half_peak_y m (Fin (1 / 2)) 1 1 (- 1) 0 = Inr (crossing 1 0 (Fin (1 / 2)) (Fin 1) (Fin (- 1 / 2)))"
    by (elim exE conjE)
  have c: "FFTCC2D.subset_radius_y sample_speckle - 1 = 1" "FFTCC2D.subset_radius_x sample_speckle - 1 = 1"
    by (simp_all add: sample_speckle_fields)
  have "\<exists>m. speckle_matrix sample_speckle (sample_FFTW4 0)
            (poi_2D 6 6 (guess_2D (Fin 0) (Fin 0) (Fin 0))) = Inr m
        \<and> Matrix.rows m = 4
        \<and> half_peak_y m (Fin (1 / 2)) (FFTCC2D.subset_radius_y sample_speckle - 1)
              (FFTCC2D.subset_radius_x sample_speckle - 1) 1 0 = Inr (Fin (1 / 2))
        \<and> half_peak_y m (Fin (1 / 2)) (FFTCC2D.subset_radius_y sample_speckle - 1)
              (FFTCC2D.subset_radius_x sample_speckle - 1) (- 1) 0 = Inr (Fin (3 / 2))"
    unfolding c using m r y [unfolded sample_crossings] by (intro exI [of _ m] conjI)
  with none show ?thesis by (intro conjI)
qed

subsection \<open>C7: the crossing of the half-peak ratio\<close>

text \<open>
  Claim C7. On the sample speckle with ratio \<open>1/2\<close> the normalised correlation is \<open>1\<close>
  at the centre and \<open>-1/2\<close> at its four neighbours, so each search stops at its first
  pair. The line through the two samples meets the ratio at \<open>4/3\<close> on the right and at
  \<open>2/3\<close> on the left, a width of \<open>2/3\<close>. The code multiplies by the difference of the
  two samples where the interpolation divides by it: its crossings are \<open>1/2\<close> and
  \<open>3/2\<close>, neither of them between the two positions, and the speckle size it returns
  is \<open>-1\<close> along both axes.
\<close>

theorem speckle_size_not_interpolated:
  "determineSpeckleSize sample_speckle 0 (poi_2D 6 6 (guess_2D (Fin 0) (Fin 0) (Fin 0))) (Fin (1 / 2))
     = Inr \<lparr>Point2D.x = Fin (- 1), Point2D.y = Fin (- 1)\<rparr>
   \<and> (\<exists>m. speckle_matrix sample_speckle (sample_FFTW4 0)
            (poi_2D 6 6 (guess_2D (Fin 0) (Fin 0) (Fin 0))) = Inr m
        \<and> Matrix.coeff m 1 1 = Fin 1 \<and> Matrix.coeff m 1 2 = Fin (- 1 / 2)
        \<and> Matrix.coeff m 1 0 = Fin (- 1 / 2) \<and> Matrix.coeff m 2 1 = Fin (- 1 / 2)
        \<and> Matrix.coeff m 0 1 = Fin (- 1 / 2)
        \<and> half_peak_x m (Fin (1 / 2)) 1 1 1 0
            = Inr (crossing 1 2 (Fin (1 / 2)) (Fin 1) (Fin (- 1 / 2)))
        \<and> half_peak_x m (Fin (1 / 2)) 1 1 (- 1) 0
            = Inr (crossing 1 0 (Fin (1 / 2)) (Fin 1) (Fin (- 1 / 2)))
        \<and> half_peak_y m (Fin (1 / 2)) 1 1 1 0
            = Inr (crossing 1 2 (Fin (1 / 2)) (Fin 1) (Fin (- 1 / 2)))
        \<and> half_peak_y m (Fin (1 / 2)) 1 1 (- 1) 0
            = Inr (crossing 1 0 (Fin (1 / 2)) (Fin 1) (Fin (- 1 / 2))))
   \<and> crossing 1 2 (Fin (1 / 2)) (Fin 1) (Fin (- 1 / 2)) = Fin (1 / 2)
   \<and> crossing 1 0 (Fin (1 / 2)) (Fin 1) (Fin (- 1 / 2)) = Fin (3 / 2)
   \<and> linear_crossing 1 2 (Fin (1 / 2)) (Fin 1) (Fin (- 1 / 2)) = Fin (4 / 3)
   \<and> linear_crossing 1 0 (Fin (1 / 2)) (Fin 1) (Fin (- 1 / 2)) = Fin (2 / 3)
   \<and> fsub (linear_crossing 1 2 (Fin (1 / 2)) (Fin 1) (Fin (- 1 / 2)))
        (linear_crossing 1 0 (Fin (1 / 2)) (Fin 1) (Fin (- 1 / 2))) = Fin (2 / 3)"
proof -
  from sample_speckle_search [of "guess_2D (Fin 0) (Fin 0) (Fin 0)"]
  have s: "\<exists>m. speckle_matrix sample_speckle (sample_FFTW4 0)
            (poi_2D 6 6 (guess_2D (Fin 0) (Fin 0) (Fin 0))) = Inr m
        \<and> Matrix.coeff m 1 1 = Fin 1 \<and> Matrix.coeff m 1 2 = Fin (- 1 / 2)
        \<and> Matrix.coeff m 1 0 = Fin (- 1 / 2) \<and> Matrix.coeff m 2 1 = Fin (- 1 / 2)
        \<and> Matrix.coeff m 0 1 = Fin (- 1 / 2)
        \<and> half_peak_x m (Fin (1 / 2)) 1 1 1 0
            = Inr (crossing 1 2 (Fin (1 / 2)) (Fin 1) (Fin (- 1 / 2)))
        \<and> half_peak_x m (Fin (1 / 2)) 1 1 (- 1) 0
            = Inr (crossing 1 0 (Fin (1 / 2)) (Fin 1) (Fin (- 1 / 2)))
        \<and> half_peak_y m (Fin (1 / 2)) 1 1 1 0
            = Inr (crossing 1 2 (Fin (1 / 2)) (Fin 1) (Fin (- 1 / 2)))
        \<and> half_peak_y m (Fin (1 / 2)) 1 1 (- 1) 0
            = Inr (crossing 1 0 (Fin (1 / 2)) (Fin 1) (Fin (- 1 / 2)))"
    by (elim exE conjE) (intro exI conjI)
  have w: "fsub (linear_crossing 1 2 (Fin (1 / 2)) (Fin 1) (Fin (- 1 / 2)))
        (linear_crossing 1 0 (Fin (1 / 2)) (Fin 1) (Fin (- 1 / 2))) = Fin (2 / 3)"
    unfolding sample_crossings by (simp add: fsub_def)
  from sample_speckle_size s sample_crossings w show ?thesis by (intro conjI)
qed

subsection \<open>The norm that the loop tests and the result records\<close>








subsection \<open>C4: the weights of the convergence norm\<close>




end
